theory Spec2Isabelle
  imports Complex_Main "HOL-Library.Log_Nat"
begin

section \<open>JavaScript values\<close>

text \<open>
  The repository holds three variants of one HTTP facade over a brokerage API:
  \<^item> \<^verbatim>\<open>src/main.js\<close>: a Deno server with one cache object
    (\<^verbatim>\<open>cache.prices\<close>, \<^verbatim>\<open>cache.lastUpdate\<close>);
  \<^item> \<^verbatim>\<open>src/unnamed/part_000\<close>: a Deno server with
    \<^verbatim>\<open>tickerFigiMap\<close>, \<^verbatim>\<open>priceCache\<close> and
    \<^verbatim>\<open>cachedAccountId\<close>;
  \<^item> \<^verbatim>\<open>src/unnamed/part_001\<close>: an Express server over the vendor SDK with
    the same three caches.
  Definitions of the first carry the suffix \<open>_main\<close>, of the second \<open>_deno\<close>, of the
  third \<open>_express\<close>, where the files use one name for different code. The routes
  \<^verbatim>\<open>/api/price\<close>, \<^verbatim>\<open>/api/order/limit\<close> and \<^verbatim>\<open>/api/status\<close> are modelled, one
  function for each route of each variant, with the \<^verbatim>\<open>try\<close> and \<^verbatim>\<open>catch\<close> that
  enclose it; \<^verbatim>\<open>/api/portfolio\<close>, \<^verbatim>\<open>/health\<close>, the preflight and the 404 answer
  are not. Requests are handled one after the other: two requests interleaved at an
  \<^verbatim>\<open>await\<close> are not modelled.

  A JavaScript Number is a binary64 value: a finite one, an infinity or NaN. A finite
  value is written as the real number it denotes, and every arithmetic operation rounds
  its exact result to binary64 (see below). The sign of zero is not modelled.
\<close>

datatype jsnum = Fin real | PInf | NInf | NaN

datatype jsval =
    JUndefined
  | JNull
  | JBool bool
  | JNum jsnum
  | JStr string
  | JArr "jsval list"
  | JObj "(string \<times> jsval) list"

text \<open>ToBoolean: what \<^verbatim>\<open>!x\<close> and \<^verbatim>\<open>x || y\<close> test.\<close>

fun truthy_num :: "jsnum \<Rightarrow> bool" where
  "truthy_num (Fin x) = (x \<noteq> 0)"
| "truthy_num NaN = False"
| "truthy_num PInf = True"
| "truthy_num NInf = True"

fun truthy :: "jsval \<Rightarrow> bool" where
  "truthy JUndefined = False"
| "truthy JNull = False"
| "truthy (JBool b) = b"
| "truthy (JNum n) = truthy_num n"
| "truthy (JStr s) = (s \<noteq> [])"
| "truthy (JArr xs) = True"
| "truthy (JObj kvs) = True"

subsection \<open>Rounding to binary64\<close>

text \<open>
  The exponent of a real \<open>x \<noteq> 0\<close>: the integer \<open>k\<close> with \<open>2^k \<le> |x| < 2^(k+1)\<close>, read off
  the number of bits of \<open>\<lfloor>|x|\<rfloor>\<close>, or of \<open>\<lceil>1/|x|\<rceil> - 1\<close> when \<open>|x| < 1\<close>.
\<close>

definition exponent :: "real \<Rightarrow> int" where
  "exponent x = (if 1 \<le> \<bar>x\<bar> then bitlen \<lfloor>\<bar>x\<bar>\<rfloor> - 1 else - bitlen (\<lceil>1 / \<bar>x\<bar>\<rceil> - 1))"

text \<open>
  The binary64 values around \<open>x\<close> are the multiples of \<open>2^quantum x\<close>: 53 significant
  bits, and no exponent below that of the subnormal numbers.
\<close>

definition quantum :: "real \<Rightarrow> int" where
  "quantum x = max (exponent x - 52) (- 1074)"

text \<open>The nearest integer, a tie going to the even one.\<close>

definition ties_to_even :: "real \<Rightarrow> int" where
  "ties_to_even y =
     (let f = \<lfloor>y\<rfloor>; r = y - of_int f
      in if r < 1 / 2 then f else if 1 / 2 < r then f + 1 else if even f then f else f + 1)"

definition nearest :: "real \<Rightarrow> real" where
  "nearest x = (if x = 0 then 0 else of_int (ties_to_even (x / 2 powi quantum x)) * 2 powi quantum x)"

text \<open>
  The Number that an operation with the exact result \<open>x\<close> returns: \<open>x\<close> rounded to the
  nearest binary64 value, an infinity when that reaches \<open>2^1024\<close>.
\<close>

definition binary64 :: "real \<Rightarrow> jsnum" where
  "binary64 x =
     (let y = nearest x
      in if 2 ^ 1024 \<le> y then PInf else if y \<le> - (2 ^ 1024) then NInf else Fin y)"

subsection \<open>Number arithmetic\<close>

fun js_neg :: "jsnum \<Rightarrow> jsnum" where
  "js_neg (Fin x) = Fin (- x)"
| "js_neg PInf = NInf"
| "js_neg NInf = PInf"
| "js_neg NaN = NaN"

fun js_add :: "jsnum \<Rightarrow> jsnum \<Rightarrow> jsnum" where
  "js_add (Fin a) (Fin b) = binary64 (a + b)"
| "js_add NaN b = NaN"
| "js_add a NaN = NaN"
| "js_add PInf NInf = NaN"
| "js_add NInf PInf = NaN"
| "js_add PInf b = PInf"
| "js_add a PInf = PInf"
| "js_add NInf b = NInf"
| "js_add a NInf = NInf"

definition js_sub :: "jsnum \<Rightarrow> jsnum \<Rightarrow> jsnum" where
  "js_sub a b = js_add a (js_neg b)"

text \<open>
  \<^verbatim>\<open>x * c\<close> and \<^verbatim>\<open>x / c\<close> for a finite constant \<open>c > 0\<close> (the sources multiply by
  \<^verbatim>\<open>1_000_000_000\<close> and by \<^verbatim>\<open>2\<close> and divide by \<^verbatim>\<open>1_000_000_000\<close> only): an infinity
  and NaN pass through.
\<close>

fun js_times :: "jsnum \<Rightarrow> real \<Rightarrow> jsnum" where
  "js_times (Fin a) c = binary64 (a * c)"
| "js_times v c = v"

fun js_over :: "jsnum \<Rightarrow> real \<Rightarrow> jsnum" where
  "js_over (Fin a) c = binary64 (a / c)"
| "js_over v c = v"

text \<open>
  \<^verbatim>\<open>Math.trunc\<close> drops the fraction, towards zero; the result is exact.
\<close>

definition trunc :: "real \<Rightarrow> int" where
  "trunc x = (if 0 \<le> x then \<lfloor>x\<rfloor> else \<lceil>x\<rceil>)"

fun Math_trunc :: "jsnum \<Rightarrow> jsnum" where
  "Math_trunc (Fin x) = Fin (of_int (trunc x))"
| "Math_trunc v = v"

text \<open>
  \<^verbatim>\<open>Math.round\<close> is the nearest integer, a tie going up (towards \<open>+\<infinity>\<close>); the result is
  exact.
\<close>

fun Math_round :: "jsnum \<Rightarrow> jsnum" where
  "Math_round (Fin x) = Fin (of_int \<lfloor>x + 1 / 2\<rfloor>)"
| "Math_round v = v"

section \<open>Numeric conversion\<close>

text \<open>
  A quotation as the upstream API sends it and as \<^verbatim>\<open>floatToQuotation\<close> builds it:
  \<open>nano\<close> may be absent in a reply.
\<close>

record quotation =
  units :: jsnum
  nano :: "jsnum option"

text \<open>\<^verbatim>\<open>quotation.nano || 0\<close>\<close>

fun nano_or_0 :: "jsnum option \<Rightarrow> jsnum" where
  "nano_or_0 None = Fin 0"
| "nano_or_0 (Some n) = (if truthy_num n then n else Fin 0)"

text \<open>
  \<^verbatim>\<open>function quotationToFloat(quotation) {
    if (!quotation) return 0;
    return quotation.units + (quotation.nano || 0) / 1_000_000_000; }\<close>
  (the same in the three files; \<^verbatim>\<open>moneyValueToFloat\<close> has the same body).
\<close>

fun quotationToFloat :: "quotation option \<Rightarrow> jsnum" where
  "quotationToFloat None = Fin 0"
| "quotationToFloat (Some q) = js_add (units q) (js_over (nano_or_0 (nano q)) 1000000000)"

text \<open>
  \<^verbatim>\<open>function floatToQuotation(value) {
    const units = Math.trunc(value);
    const nano = Math.round((value - units) * 1_000_000_000);
    return { units, nano }; }\<close>
\<close>

definition floatToQuotation :: "jsnum \<Rightarrow> quotation" where
  "floatToQuotation v =
     (let u = Math_trunc v;
          n = Math_round (js_times (js_sub v u) 1000000000)
      in \<lparr>units = u, nano = Some n\<rparr>)"

section \<open>Errors, upstream calls and replies\<close>

text \<open>A thrown JavaScript error, with its \<^verbatim>\<open>message\<close>.\<close>

datatype error = Error (message: string)

record instrument =
  inst_ticker :: string
  inst_figi :: string
  inst_type :: string

record account =
  acc_id :: string
  acc_type :: string

datatype direction = ORDER_DIRECTION_BUY | ORDER_DIRECTION_SELL

text \<open>
  The body of a PostOrder call (\<^verbatim>\<open>orderType\<close> is always \<^verbatim>\<open>ORDER_TYPE_LIMIT\<close>).
  \<open>o_quantity\<close> is a value: \<^verbatim>\<open>parseInt(quantity)\<close> in the Deno variants, the request's
  own \<^verbatim>\<open>quantity\<close> in the Express variant.
\<close>

record order =
  o_figi :: string
  o_quantity :: jsval
  o_price :: quotation
  o_direction :: direction
  o_accountId :: string
  o_orderId :: string

record order_reply =
  r_orderId :: string
  r_executionReportStatus :: string

record last_price =
  lp_price :: "quotation option"

text \<open>A call to the upstream API, as it leaves the process.\<close>

datatype call =
    FindInstrument jsval
  | GetOrderBook string
  | GetLastPrices string
  | GetAccounts
  | PostOrder order

text \<open>
  What \<^verbatim>\<open>fetch\<close> gives for one call: the promise rejects (a network failure, with
  the host's message), or a response arrives with its status and a body that parses as
  JSON (\<open>Inr\<close>) or does not (\<open>Inl\<close>, the message of the parser's error). A reply is
  typed with the properties the code reads; a property that may be missing is an option.
  A reply of another shape (\<^verbatim>\<open>null\<close>, a quotation whose \<^verbatim>\<open>units\<close> is a string) is
  not modelled.
\<close>

datatype 'a fetched = NetworkError string | HttpReply nat "string + 'a"

record upstream =
  findInstrument :: "jsval \<Rightarrow> instrument list option fetched"
  getOrderBook :: "string \<Rightarrow> quotation option fetched"
  getAccounts :: "account list option fetched"
  postOrder :: "order \<Rightarrow> order_reply fetched"

text \<open>
  The vendor SDK of the Express variant (\<^verbatim>\<open>api.instruments.findInstrument\<close>,
  \<^verbatim>\<open>api.marketData.getLastPrices\<close>, \<^verbatim>\<open>api.users.getAccounts\<close>,
  \<^verbatim>\<open>api.orders.postOrder\<close>): a call throws (\<open>Inl\<close>) or returns (\<open>Inr\<close>).
\<close>

record sdk =
  sdk_findInstrument :: "jsval \<Rightarrow> error + instrument list option"
  sdk_getLastPrices :: "string \<Rightarrow> error + last_price list option"
  sdk_getAccounts :: "error + account list option"
  sdk_postOrder :: "order \<Rightarrow> error + order_reply"

text \<open>
  What the host gives one request besides the upstream replies: the clock at its first
  and at its second reading, \<^verbatim>\<open>Math.random()\<close>, the order id that
  \<^verbatim>\<open>generateOrderId()\<close> (or the template of \<^verbatim>\<open>main.js\<close>) builds from both, the
  built-ins \<^verbatim>\<open>parseInt\<close>, \<^verbatim>\<open>parseFloat\<close> and ToNumber, the text of a Number, the
  environment variable \<^verbatim>\<open>TINKOFF_API_TOKEN\<close>, and the test the Express variant builds
  from the SDK's account type constants.

  The three conversions are applied to a value that came out of \<^verbatim>\<open>JSON.parse\<close>. They
  return a Number, or they throw (\<open>None\<close>) the TypeError of a value that has no
  primitive: an object with an own property \<^verbatim>\<open>toString\<close>, which is never callable
  in a JSON value (\<^verbatim>\<open>{"toString": 1}\<close>), or an array holding one.
\<close>

record env =
  date_now :: int
  date_later :: int
  math_random :: real
  new_orderId :: string
  iso_time :: string
  parseInt :: "jsval \<Rightarrow> jsnum option"
  parseFloat :: "jsval \<Rightarrow> jsnum option"
  toNumber :: "jsval \<Rightarrow> jsnum option"
  number_text :: "jsnum \<Rightarrow> string"
  API_TOKEN :: "string option"
  main_account :: "account \<Rightarrow> bool"

definition NOT_PRIMITIVE :: string where
  "NOT_PRIMITIVE = ''Cannot convert object to primitive value''"

text \<open>
  ToString, which a template literal \<^verbatim>\<open>`${ticker}`\<close> applies to a value of the request:
  a string is itself; an array joins the texts of its elements, \<^verbatim>\<open>null\<close> giving the
  empty text; an object is \<^verbatim>\<open>[object Object]\<close>, unless it has an own property
  \<^verbatim>\<open>toString\<close>, and then the conversion throws a TypeError (\<open>None\<close>).
\<close>

fun join :: "string option list \<Rightarrow> string option" where
  "join [] = Some []"
| "join [x] = x"
| "join (x # y # ys) =
     (case x of
        None \<Rightarrow> None
      | Some a \<Rightarrow> (case join (y # ys) of None \<Rightarrow> None | Some r \<Rightarrow> Some (a @ '','' @ r)))"

fun toText :: "env \<Rightarrow> jsval \<Rightarrow> string option" where
  "toText e JUndefined = Some ''undefined''"
| "toText e JNull = Some ''null''"
| "toText e (JBool b) = Some (if b then ''true'' else ''false'')"
| "toText e (JNum n) = Some (number_text e n)"
| "toText e (JStr s) = Some s"
| "toText e (JArr xs) =
     join (map (\<lambda>x. if x = JNull \<or> x = JUndefined then Some [] else toText e x) xs)"
| "toText e (JObj kvs) = (if map_of kvs ''toString'' = None then Some ''[object Object]'' else None)"

text \<open>
  \<^verbatim>\<open>new Error(`prefix${v}`)\<close>: the error with that message, or the TypeError that the
  template literal throws.
\<close>

definition labelled :: "env \<Rightarrow> string \<Rightarrow> jsval \<Rightarrow> error" where
  "labelled e prefix v =
     (case toText e v of None \<Rightarrow> Error NOT_PRIMITIVE | Some t \<Rightarrow> Error (prefix @ t))"

text \<open>
  \<^verbatim>\<open>catch (error) { console.error(`Error finding FIGI for ${ticker}:`, error); throw error; }\<close>:
  the template literal is evaluated before the error is thrown again, so that a ticker
  without a text replaces the error by its TypeError.
\<close>

definition logged :: "env \<Rightarrow> jsval \<Rightarrow> error \<Rightarrow> error" where
  "logged e ticker err = (case toText e ticker of None \<Rightarrow> Error NOT_PRIMITIVE | Some t \<Rightarrow> err)"

fun digit :: "nat \<Rightarrow> char" where
  "digit d = ''0123456789'' ! d"

fun show_nat :: "nat \<Rightarrow> string" where
  "show_nat n = (if n < 10 then [digit n] else show_nat (n div 10) @ [digit (n mod 10)])"

declare show_nat.simps [simp del]

text \<open>
  \<^verbatim>\<open>tinkoffRequest\<close> of the Deno variants, after the \<^verbatim>\<open>fetch\<close>: it rethrows what it
  catches.
  \<^verbatim>\<open>if (!response.ok) throw new Error(`HTTP error! status: ${response.status}`);
  return await response.json();\<close>
\<close>

fun tinkoffRequest :: "'a fetched \<Rightarrow> error + 'a" where
  "tinkoffRequest (NetworkError m) = Inl (Error m)"
| "tinkoffRequest (HttpReply st body) =
     (if \<not> (200 \<le> st \<and> st \<le> 299) then Inl (Error (''HTTP error! status: '' @ show_nat st))
      else case body of Inl m \<Rightarrow> Inl (Error m) | Inr v \<Rightarrow> Inr v)"

section \<open>Responses and server state\<close>

record priceData =
  pd_price :: jsnum
  pd_timestamp :: int
  pd_figi :: "string option"
  pd_ticker :: "string option"
  pd_isMock :: bool

record statusData =
  sd_status :: string
  sd_timestamp :: string
  sd_hasToken :: bool
  sd_message :: "string option"
  sd_accountId :: "string option"
  sd_error :: "string option"

text \<open>
  A JSON response: \<^verbatim>\<open>{success: true, data}\<close> or \<^verbatim>\<open>{success: false, error}\<close>, with its
  HTTP status. \<open>OrderRaw\<close> is the upstream reply as \<^verbatim>\<open>main.js\<close> returns it,
  \<open>OrderPlaced\<close> the reply with \<^verbatim>\<open>message: "Order placed successfully"\<close>, and
  \<open>Omitted\<close> a \<^verbatim>\<open>data\<close> that is a function, which \<^verbatim>\<open>JSON.stringify\<close> leaves out.
  \<open>ErrorPage\<close> is no JSON: the page with which Express answers a request that its
  JSON middleware refuses.
\<close>

datatype data =
    PriceData priceData
  | OrderRaw order_reply
  | OrderPlaced order_reply
  | StatusData statusData
  | Omitted

datatype payload = Success data | Failure string | ErrorPage

datatype response = Response (http_status: nat) (http_body: payload)

text \<open>\<open>sent\<close> is the trace of the calls that left the process, oldest first.\<close>

record wire =
  sent :: "call list"

definition send :: "call \<Rightarrow> 'a wire_scheme \<Rightarrow> 'a wire_scheme" where
  "send c s = s\<lparr>sent := sent s @ [c]\<rparr>"

text \<open>
  \<^verbatim>\<open>let cache = { prices: {}, portfolio: null, lastUpdate: 0 };\<close> of \<^verbatim>\<open>main.js\<close>
  (\<^verbatim>\<open>portfolio\<close> is never assigned). \<open>prices\<close> holds the own properties of the plain
  object \<^verbatim>\<open>cache.prices\<close>.
\<close>

record cache = wire +
  prices :: "string \<rightharpoonup> priceData"
  lastUpdate :: int

text \<open>
  \<^verbatim>\<open>cache.prices[ticker]\<close> reads an own property or, when there is none, a member that
  the object inherits from \<^verbatim>\<open>Object.prototype\<close>: a function, which is truthy. (Deno
  removes \<^verbatim>\<open>__proto__\<close> from \<^verbatim>\<open>Object.prototype\<close>; these eleven are left.) An
  assignment \<^verbatim>\<open>cache.prices[ticker] = priceData\<close> writes an own property in either case.
\<close>

definition Object_prototype :: "string list" where
  "Object_prototype =
     [''constructor'', ''__defineGetter__'', ''__defineSetter__'', ''hasOwnProperty'',
      ''__lookupGetter__'', ''__lookupSetter__'', ''isPrototypeOf'', ''propertyIsEnumerable'',
      ''toString'', ''valueOf'', ''toLocaleString'']"

definition prices_get :: "cache \<Rightarrow> string \<Rightarrow> data option" where
  "prices_get s ticker =
     (case prices s ticker of
        Some p \<Rightarrow> Some (PriceData p)
      | None \<Rightarrow> if ticker \<in> set Object_prototype then Some Omitted else None)"

text \<open>The three caches of \<^verbatim>\<open>part_000\<close> and \<^verbatim>\<open>part_001\<close>.\<close>

record server = wire +
  cachedAccountId :: "string option"
  tickerFigiMap :: "jsval \<rightharpoonup> string"
  priceCache :: "string \<rightharpoonup> priceData"

text \<open>
  A \<^verbatim>\<open>Map\<close> compares an array or an object key by identity, and every request parses
  its own: such a key is found by no later lookup.
\<close>

fun is_reference :: "jsval \<Rightarrow> bool" where
  "is_reference (JArr xs) = True"
| "is_reference (JObj kvs) = True"
| "is_reference v = False"

definition map_has :: "(jsval \<rightharpoonup> 'v) \<Rightarrow> jsval \<Rightarrow> bool" where
  "map_has m k = (\<not> is_reference k \<and> m k \<noteq> None)"

definition map_set :: "(jsval \<rightharpoonup> 'v) \<Rightarrow> jsval \<Rightarrow> 'v \<Rightarrow> (jsval \<rightharpoonup> 'v)" where
  "map_set m k v = (if is_reference k then m else m(k \<mapsto> v))"

text \<open>
  A property of a request body, as the destructuring
  \<^verbatim>\<open>const { ticker, quantity, price, direction } = body\<close> reads it: undefined when the
  body is no object or has no such key.
\<close>

fun property :: "string \<Rightarrow> jsval \<Rightarrow> jsval" where
  "property k (JObj kvs) = (case map_of kvs k of None \<Rightarrow> JUndefined | Some v \<Rightarrow> v)"
| "property k v = JUndefined"

text \<open>\<^verbatim>\<open>String.prototype.toLowerCase\<close> on the letters A to Z; every other byte stays.\<close>

definition lower_char :: "char \<Rightarrow> char" where
  "lower_char c =
     (case map_of (zip ''ABCDEFGHIJKLMNOPQRSTUVWXYZ'' ''abcdefghijklmnopqrstuvwxyz'') c of
        Some l \<Rightarrow> l | None \<Rightarrow> c)"

definition toLowerCase :: "string \<Rightarrow> string" where
  "toLowerCase s = map lower_char s"

text \<open>\<^verbatim>\<open>url.searchParams.get('ticker') || 'SBER'\<close>\<close>

fun ticker_or_SBER :: "string option \<Rightarrow> string" where
  "ticker_or_SBER None = ''SBER''"
| "ticker_or_SBER (Some t) = (if t = [] then ''SBER'' else t)"

text \<open>\<^verbatim>\<open>!!API_TOKEN\<close>\<close>

fun hasToken :: "string option \<Rightarrow> bool" where
  "hasToken None = False"
| "hasToken (Some t) = (t \<noteq> [])"

definition CACHE_TTL_MS :: int where
  "CACHE_TTL_MS = 5000"

section \<open>\<^verbatim>\<open>src/main.js\<close>\<close>

text \<open>
  The fallback of the price routes:
  \<^verbatim>\<open>{ price: 190 + Math.random() * 2, ticker, timestamp: Date.now(), isMock: true }\<close>,
  with the reading of the clock that the route has come to.
\<close>

definition mock_price :: "env \<Rightarrow> string \<Rightarrow> int \<Rightarrow> priceData" where
  "mock_price e ticker stamp =
     \<lparr>pd_price = js_add (Fin 190) (js_times (Fin (math_random e)) 2), pd_timestamp = stamp,
      pd_figi = None, pd_ticker = Some ticker, pd_isMock = True\<rparr>"

text \<open>
  \<^verbatim>\<open>getCurrentPrice(ticker)\<close>: a hit when \<^verbatim>\<open>now - cache.lastUpdate < 5000 &&
  cache.prices[ticker]\<close>; otherwise FindInstrument, the first instrument's figi,
  GetOrderBook, and the entry stored with \<^verbatim>\<open>cache.lastUpdate = now\<close>. Whatever is
  thrown on the way is caught and answered with the fallback, stamped with a second
  reading of the clock.
\<close>

definition getCurrentPrice :: "upstream \<Rightarrow> env \<Rightarrow> string \<Rightarrow> cache \<Rightarrow> data \<times> cache" where
  "getCurrentPrice up e ticker s =
     (let now = date_now e in
      if now - lastUpdate s < 5000 \<and> prices_get s ticker \<noteq> None then (the (prices_get s ticker), s)
      else
        let s1 = send (FindInstrument (JStr ticker)) s in
        (case tinkoffRequest (findInstrument up (JStr ticker)) of
          Inl err \<Rightarrow> (PriceData (mock_price e ticker (date_later e)), s1)
        | Inr None \<Rightarrow> (PriceData (mock_price e ticker (date_later e)), s1)
        | Inr (Some []) \<Rightarrow> (PriceData (mock_price e ticker (date_later e)), s1)
        | Inr (Some (instrument # rest)) \<Rightarrow>
            let figi = inst_figi instrument;
                s2 = send (GetOrderBook figi) s1 in
            (case tinkoffRequest (getOrderBook up figi) of
               Inl err \<Rightarrow> (PriceData (mock_price e ticker (date_later e)), s2)
             | Inr lastPrice \<Rightarrow>
                 let priceData =
                       \<lparr>pd_price = quotationToFloat lastPrice, pd_timestamp = now,
                        pd_figi = Some figi, pd_ticker = Some ticker, pd_isMock = False\<rparr>
                 in (PriceData priceData,
                     s2\<lparr>prices := (prices s2)(ticker \<mapsto> priceData), lastUpdate := now\<rparr>))))"

text \<open>The route \<^verbatim>\<open>GET /api/price\<close> of \<^verbatim>\<open>handler\<close>.\<close>

definition price_main :: "upstream \<Rightarrow> env \<Rightarrow> string option \<Rightarrow> cache \<Rightarrow> response \<times> cache" where
  "price_main up e param s =
     (let ticker = ticker_or_SBER param;
          (priceData, s') = getCurrentPrice up e ticker s
      in (Response 200 (Success priceData), s'))"

text \<open>
  \<^verbatim>\<open>placeLimitOrder(ticker, quantity, price, direction)\<close>: FindInstrument, GetAccounts,
  PostOrder; it rethrows what it catches. \<^verbatim>\<open>accounts.accounts[0].id\<close> is a TypeError
  when the reply has no account. The body of PostOrder is built before the call leaves:
  \<^verbatim>\<open>parseInt(quantity)\<close>, then \<^verbatim>\<open>parseFloat(price)\<close>, and a conversion that throws
  ends the function with nothing posted.
\<close>

definition placeLimitOrder ::
  "upstream \<Rightarrow> env \<Rightarrow> jsval \<Rightarrow> jsval \<Rightarrow> jsval \<Rightarrow> jsval \<Rightarrow> cache \<Rightarrow> (error + order_reply) \<times> cache" where
  "placeLimitOrder up e ticker quantity price direction s =
     (let s1 = send (FindInstrument ticker) s in
      (case tinkoffRequest (findInstrument up ticker) of
        Inl err \<Rightarrow> (Inl err, s1)
      | Inr None \<Rightarrow> (Inl (labelled e ''Instrument not found: '' ticker), s1)
      | Inr (Some []) \<Rightarrow> (Inl (labelled e ''Instrument not found: '' ticker), s1)
      | Inr (Some (instrument # rest)) \<Rightarrow>
          let figi = inst_figi instrument;
              s2 = send GetAccounts s1 in
          (case tinkoffRequest (getAccounts up) of
             Inl err \<Rightarrow> (Inl err, s2)
           | Inr None \<Rightarrow> (Inl (Error ''Cannot read properties of undefined (reading '0')''), s2)
           | Inr (Some []) \<Rightarrow> (Inl (Error ''Cannot read properties of undefined (reading 'id')''), s2)
           | Inr (Some (acc # others)) \<Rightarrow>
               let accountId = acc_id acc in
               (case parseInt e quantity of
                  None \<Rightarrow> (Inl (Error NOT_PRIMITIVE), s2)
                | Some quantity' \<Rightarrow>
                    (case parseFloat e price of
                       None \<Rightarrow> (Inl (Error NOT_PRIMITIVE), s2)
                     | Some price' \<Rightarrow>
                         let ord = \<lparr>o_figi = figi,
                                    o_quantity = JNum quantity',
                                    o_price = floatToQuotation price',
                                    o_direction = (if direction = JStr ''buy'' then ORDER_DIRECTION_BUY
                                                   else ORDER_DIRECTION_SELL),
                                    o_accountId = accountId,
                                    o_orderId = new_orderId e\<rparr>;
                             s3 = send (PostOrder ord) s2
                         in (tinkoffRequest (postOrder up ord), s3))))))"

definition MISSING_FIELDS :: string where
  "MISSING_FIELDS = ''Missing required fields: ticker, quantity, price, direction''"

definition DESTRUCTURE_NULL :: string where
  "DESTRUCTURE_NULL = ''Cannot destructure property 'ticker' of 'body' as it is null.''"

definition DESTRUCTURE_UNDEFINED :: string where
  "DESTRUCTURE_UNDEFINED = ''Cannot destructure property 'ticker' of 'body' as it is undefined.''"

text \<open>
  The route \<^verbatim>\<open>POST /api/order/limit\<close> of \<^verbatim>\<open>handler\<close>. \<open>parsed\<close> is what
  \<^verbatim>\<open>await request.json()\<close> gives: it throws (\<open>Inl\<close>, the message) or returns the body.
  Destructuring a body that is \<^verbatim>\<open>null\<close> throws a TypeError. Whatever is thrown
  reaches the \<^verbatim>\<open>catch\<close> of \<^verbatim>\<open>handler\<close>: status 500 with \<^verbatim>\<open>error.message\<close>.
\<close>

definition order_main :: "upstream \<Rightarrow> env \<Rightarrow> string + jsval \<Rightarrow> cache \<Rightarrow> response \<times> cache" where
  "order_main up e parsed s =
     (case parsed of
        Inl m \<Rightarrow> (Response 500 (Failure m), s)
      | Inr body \<Rightarrow>
          if body = JNull then (Response 500 (Failure DESTRUCTURE_NULL), s)
          else if body = JUndefined then (Response 500 (Failure DESTRUCTURE_UNDEFINED), s)
          else
            let ticker = property ''ticker'' body;
                quantity = property ''quantity'' body;
                price = property ''price'' body;
                direction = property ''direction'' body in
            if \<not> truthy ticker \<or> \<not> truthy quantity \<or> \<not> truthy price \<or> \<not> truthy direction
            then (Response 400 (Failure MISSING_FIELDS), s)
            else
              (case placeLimitOrder up e ticker quantity price direction s of
                 (Inl err, s') \<Rightarrow> (Response 500 (Failure (message err)), s')
               | (Inr result, s') \<Rightarrow> (Response 200 (Success (OrderRaw result)), s')))"

text \<open>The route \<^verbatim>\<open>GET /api/status\<close> of \<^verbatim>\<open>handler\<close>: no upstream call.\<close>

definition status_main :: "env \<Rightarrow> cache \<Rightarrow> response \<times> cache" where
  "status_main e s =
     (Response 200 (Success (StatusData
        \<lparr>sd_status = ''online'', sd_timestamp = iso_time e, sd_hasToken = hasToken (API_TOKEN e),
         sd_message = Some ''Tinkoff API server is running'', sd_accountId = None,
         sd_error = None\<rparr>)), s)"

section \<open>\<^verbatim>\<open>src/unnamed/part_000\<close>\<close>

text \<open>
  \<^verbatim>\<open>getFigiForTicker(ticker)\<close>: the stored figi when \<^verbatim>\<open>tickerFigiMap.has(ticker)\<close>;
  otherwise FindInstrument, the first instrument with \<^verbatim>\<open>inst.ticker === ticker\<close>, and
  \<^verbatim>\<open>tickerFigiMap.set(ticker, instrument.figi)\<close>. Its \<^verbatim>\<open>catch\<close> logs the ticker in a
  template literal and rethrows.
\<close>

definition getFigiForTicker_deno :: "upstream \<Rightarrow> env \<Rightarrow> jsval \<Rightarrow> server \<Rightarrow> (error + string) \<times> server" where
  "getFigiForTicker_deno up e ticker s =
     (if map_has (tickerFigiMap s) ticker then (Inr (the (tickerFigiMap s ticker)), s)
      else
        let s1 = send (FindInstrument ticker) s in
        (case tinkoffRequest (findInstrument up ticker) of
           Inl err \<Rightarrow> (Inl (logged e ticker err), s1)
         | Inr None \<Rightarrow>
             (Inl (logged e ticker (Error ''Cannot read properties of undefined (reading 'find')'')), s1)
         | Inr (Some instruments) \<Rightarrow>
             (case find (\<lambda>inst. JStr (inst_ticker inst) = ticker) instruments of
                None \<Rightarrow>
                  (Inl (logged e ticker (labelled e ''Instrument not found for ticker: '' ticker)), s1)
              | Some instrument \<Rightarrow>
                  (Inr (inst_figi instrument),
                   s1\<lparr>tickerFigiMap := map_set (tickerFigiMap s1) ticker (inst_figi instrument)\<rparr>))))"

text \<open>
  \<^verbatim>\<open>getAccountId()\<close>: the cached id when \<^verbatim>\<open>cachedAccountId\<close> is truthy; otherwise
  GetAccounts and the first account's id.
\<close>

definition cached_account :: "server \<Rightarrow> bool" where
  "cached_account s = (case cachedAccountId s of None \<Rightarrow> False | Some a \<Rightarrow> a \<noteq> [])"

definition getAccountId_deno :: "upstream \<Rightarrow> server \<Rightarrow> (error + string) \<times> server" where
  "getAccountId_deno up s =
     (if cached_account s then (Inr (the (cachedAccountId s)), s)
      else
        let s1 = send GetAccounts s in
        (case tinkoffRequest (getAccounts up) of
           Inl err \<Rightarrow> (Inl err, s1)
         | Inr None \<Rightarrow> (Inl (Error ''No accounts found''), s1)
         | Inr (Some []) \<Rightarrow> (Inl (Error ''No accounts found''), s1)
         | Inr (Some (acc # others)) \<Rightarrow> (Inr (acc_id acc), s1\<lparr>cachedAccountId := Some (acc_id acc)\<rparr>)))"

text \<open>
  The stamp of a price that the routes of \<^verbatim>\<open>part_000\<close> and \<^verbatim>\<open>part_001\<close> build on a
  miss. The hit test \<^verbatim>\<open>cachedPrice && Date.now() - cachedPrice.timestamp < CACHE_TTL_MS\<close>
  reads the clock only when an entry is cached: with none, the \<^verbatim>\<open>Date.now()\<close> of the
  stamp is the first reading, with a stale one the second.
\<close>

definition stamp :: "env \<Rightarrow> priceData option \<Rightarrow> int" where
  "stamp e cachedPrice = (case cachedPrice of None \<Rightarrow> date_now e | Some p \<Rightarrow> date_later e)"

text \<open>
  The route \<^verbatim>\<open>GET /api/price\<close>: a hit when \<^verbatim>\<open>cachedPrice && Date.now() -
  cachedPrice.timestamp < CACHE_TTL_MS\<close>; otherwise the figi, GetOrderBook and
  \<^verbatim>\<open>priceCache.set(ticker, priceData)\<close>, the entry stamped with \<^verbatim>\<open>Date.now()\<close>. The
  inner \<^verbatim>\<open>catch\<close> answers with the mock price, status 200.
\<close>

definition price_deno :: "upstream \<Rightarrow> env \<Rightarrow> string option \<Rightarrow> server \<Rightarrow> response \<times> server" where
  "price_deno up e param s =
     (let ticker = ticker_or_SBER param;
          cachedPrice = priceCache s ticker in
      if cachedPrice \<noteq> None \<and> date_now e - pd_timestamp (the cachedPrice) < CACHE_TTL_MS
      then (Response 200 (Success (PriceData (the cachedPrice))), s)
      else
        (case getFigiForTicker_deno up e (JStr ticker) s of
           (Inl err, s1) \<Rightarrow>
             (Response 200 (Success (PriceData (mock_price e ticker (stamp e cachedPrice)))), s1)
         | (Inr figi, s1) \<Rightarrow>
             let s2 = send (GetOrderBook figi) s1 in
             (case tinkoffRequest (getOrderBook up figi) of
                Inl err \<Rightarrow>
                  (Response 200 (Success (PriceData (mock_price e ticker (stamp e cachedPrice)))), s2)
              | Inr lastPrice \<Rightarrow>
                  let priceData =
                        \<lparr>pd_price = quotationToFloat lastPrice, pd_timestamp = stamp e cachedPrice,
                         pd_figi = Some figi, pd_ticker = Some ticker, pd_isMock = False\<rparr>
                  in (Response 200 (Success (PriceData priceData)),
                      s2\<lparr>priceCache := (priceCache s2)(ticker \<mapsto> priceData)\<rparr>))))"

text \<open>
  \<^verbatim>\<open>direction.toLowerCase() === 'buy' ? 'ORDER_DIRECTION_BUY' : 'ORDER_DIRECTION_SELL'\<close>:
  a TypeError when \<^verbatim>\<open>direction\<close> is no string.
\<close>

fun direction_deno :: "jsval \<Rightarrow> error + direction" where
  "direction_deno (JStr d) =
     Inr (if toLowerCase d = ''buy'' then ORDER_DIRECTION_BUY else ORDER_DIRECTION_SELL)"
| "direction_deno v = Inl (Error ''direction.toLowerCase is not a function'')"

text \<open>
  The route \<^verbatim>\<open>POST /api/order/limit\<close>, all of it inside one \<^verbatim>\<open>try\<close> whose
  \<^verbatim>\<open>catch\<close> answers status 500 with \<^verbatim>\<open>error.message\<close>. The body of PostOrder is
  built before the call leaves: \<^verbatim>\<open>parseInt(quantity)\<close>, \<^verbatim>\<open>parseFloat(price)\<close>,
  \<^verbatim>\<open>direction.toLowerCase()\<close>, in this order.
\<close>

definition order_deno :: "upstream \<Rightarrow> env \<Rightarrow> string + jsval \<Rightarrow> server \<Rightarrow> response \<times> server" where
  "order_deno up e parsed s =
     (case parsed of
        Inl m \<Rightarrow> (Response 500 (Failure m), s)
      | Inr body \<Rightarrow>
          if body = JNull then (Response 500 (Failure DESTRUCTURE_NULL), s)
          else if body = JUndefined then (Response 500 (Failure DESTRUCTURE_UNDEFINED), s)
          else
            let ticker = property ''ticker'' body;
                quantity = property ''quantity'' body;
                price = property ''price'' body;
                direction = property ''direction'' body in
            if \<not> truthy ticker \<or> \<not> truthy quantity \<or> \<not> truthy price \<or> \<not> truthy direction
            then (Response 400 (Failure MISSING_FIELDS), s)
            else
              (case getFigiForTicker_deno up e ticker s of
                 (Inl err, s1) \<Rightarrow> (Response 500 (Failure (message err)), s1)
               | (Inr figi, s1) \<Rightarrow>
                   (case getAccountId_deno up s1 of
                      (Inl err, s2) \<Rightarrow> (Response 500 (Failure (message err)), s2)
                    | (Inr accountId, s2) \<Rightarrow>
                        (case parseInt e quantity of
                           None \<Rightarrow> (Response 500 (Failure NOT_PRIMITIVE), s2)
                         | Some quantity' \<Rightarrow>
                             (case parseFloat e price of
                                None \<Rightarrow> (Response 500 (Failure NOT_PRIMITIVE), s2)
                              | Some price' \<Rightarrow>
                                  (case direction_deno direction of
                                     Inl err \<Rightarrow> (Response 500 (Failure (message err)), s2)
                                   | Inr dir \<Rightarrow>
                                       let ord = \<lparr>o_figi = figi,
                                                  o_quantity = JNum quantity',
                                                  o_price = floatToQuotation price',
                                                  o_direction = dir,
                                                  o_accountId = accountId,
                                                  o_orderId = new_orderId e\<rparr>;
                                           s3 = send (PostOrder ord) s2 in
                                       (case tinkoffRequest (postOrder up ord) of
                                          Inl err \<Rightarrow> (Response 500 (Failure (message err)), s3)
                                        | Inr orderResponse \<Rightarrow>
                                            (Response 200 (Success (OrderPlaced orderResponse)), s3))))))))"

text \<open>
  The route \<^verbatim>\<open>GET /api/status\<close>: \<^verbatim>\<open>await getAccountId()\<close> inside a \<^verbatim>\<open>try\<close> whose
  \<^verbatim>\<open>catch\<close> answers \<^verbatim>\<open>status: "limited"\<close>, status 200.
\<close>

definition status_deno :: "upstream \<Rightarrow> env \<Rightarrow> server \<Rightarrow> response \<times> server" where
  "status_deno up e s =
     (case getAccountId_deno up s of
        (Inr accountId, s1) \<Rightarrow>
          (Response 200 (Success (StatusData
             \<lparr>sd_status = ''online'', sd_timestamp = iso_time e, sd_hasToken = hasToken (API_TOKEN e),
              sd_message = Some ''Tinkoff API connected successfully'', sd_accountId = None,
              sd_error = None\<rparr>)), s1)
      | (Inl err, s1) \<Rightarrow>
          (Response 200 (Success (StatusData
             \<lparr>sd_status = ''limited'', sd_timestamp = iso_time e, sd_hasToken = hasToken (API_TOKEN e),
              sd_message = Some ''API available in limited mode'', sd_accountId = None,
              sd_error = Some (message err)\<rparr>)), s1))"

section \<open>\<^verbatim>\<open>src/unnamed/part_001\<close>\<close>

text \<open>
  \<^verbatim>\<open>getFigiForTicker(ticker)\<close> of the Express variant: as above, over the SDK, and the
  instrument must be an ETF (\<^verbatim>\<open>inst.ticker === ticker && inst.instrumentType === 'etf'\<close>).
\<close>

definition getFigiForTicker_express :: "sdk \<Rightarrow> env \<Rightarrow> jsval \<Rightarrow> server \<Rightarrow> (error + string) \<times> server" where
  "getFigiForTicker_express api e ticker s =
     (if map_has (tickerFigiMap s) ticker then (Inr (the (tickerFigiMap s ticker)), s)
      else
        let s1 = send (FindInstrument ticker) s in
        (case sdk_findInstrument api ticker of
           Inl err \<Rightarrow> (Inl (logged e ticker err), s1)
         | Inr None \<Rightarrow>
             (Inl (logged e ticker (Error ''Cannot read properties of undefined (reading 'find')'')), s1)
         | Inr (Some instruments) \<Rightarrow>
             (case find (\<lambda>inst. JStr (inst_ticker inst) = ticker \<and> inst_type inst = ''etf'') instruments of
                None \<Rightarrow> (Inl (logged e ticker (labelled e ''FIGI not found for ticker: '' ticker)), s1)
              | Some instrument \<Rightarrow>
                  (Inr (inst_figi instrument),
                   s1\<lparr>tickerFigiMap := map_set (tickerFigiMap s1) ticker (inst_figi instrument)\<rparr>))))"

text \<open>
  \<^verbatim>\<open>getAccountId()\<close> of the Express variant: the first account whose type is one of the
  SDK's two constants (the test \<open>main_account\<close> of the environment).
\<close>

definition getAccountId_express :: "sdk \<Rightarrow> env \<Rightarrow> server \<Rightarrow> (error + string) \<times> server" where
  "getAccountId_express api e s =
     (if cached_account s then (Inr (the (cachedAccountId s)), s)
      else
        let s1 = send GetAccounts s in
        (case sdk_getAccounts api of
           Inl err \<Rightarrow> (Inl err, s1)
         | Inr None \<Rightarrow> (Inl (Error ''Cannot read properties of undefined (reading 'find')''), s1)
         | Inr (Some accounts) \<Rightarrow>
             (case find (main_account e) accounts of
                None \<Rightarrow> (Inl (Error ''No suitable investment account found.''), s1)
              | Some mainAccount \<Rightarrow>
                  (Inr (acc_id mainAccount), s1\<lparr>cachedAccountId := Some (acc_id mainAccount)\<rparr>))))"

text \<open>
  \<^verbatim>\<open>app.get('/api/price')\<close>: status 400 without a ticker; a hit as in \<^verbatim>\<open>part_000\<close>;
  otherwise the figi, GetLastPrices and the entry \<^verbatim>\<open>{ price, timestamp: Date.now() }\<close>.
  The \<^verbatim>\<open>catch\<close> answers status 500 with \<^verbatim>\<open>error.message\<close>. The query parameter is
  read as a string (absent: \<open>None\<close>).
\<close>

definition price_express :: "sdk \<Rightarrow> env \<Rightarrow> string option \<Rightarrow> server \<Rightarrow> response \<times> server" where
  "price_express api e param s =
     (if param = None \<or> param = Some [] then (Response 400 (Failure ''Missing 'ticker' parameter''), s)
      else
        let ticker = the param;
            cachedPrice = priceCache s ticker in
        if cachedPrice \<noteq> None \<and> date_now e - pd_timestamp (the cachedPrice) < CACHE_TTL_MS
        then (Response 200 (Success (PriceData (the cachedPrice))), s)
        else
          (case getFigiForTicker_express api e (JStr ticker) s of
             (Inl err, s1) \<Rightarrow> (Response 500 (Failure (message err)), s1)
           | (Inr figi, s1) \<Rightarrow>
               let s2 = send (GetLastPrices figi) s1 in
               (case sdk_getLastPrices api figi of
                  Inl err \<Rightarrow> (Response 500 (Failure (message err)), s2)
                | Inr None \<Rightarrow> (Response 500 (Failure (''No price data for '' @ ticker)), s2)
                | Inr (Some []) \<Rightarrow> (Response 500 (Failure (''No price data for '' @ ticker)), s2)
                | Inr (Some (lp # others)) \<Rightarrow>
                    let result =
                          \<lparr>pd_price = quotationToFloat (lp_price lp), pd_timestamp = stamp e cachedPrice,
                           pd_figi = None, pd_ticker = None, pd_isMock = False\<rparr>
                    in (Response 200 (Success (PriceData result)),
                        s2\<lparr>priceCache := (priceCache s2)(ticker \<mapsto> result)\<rparr>))))"

text \<open>
  \<^verbatim>\<open>app.post('/api/order/limit')\<close>: \<open>body\<close> is the JSON value of the request's body
  (\<^verbatim>\<open>{}\<close> when the request has none). The middleware \<^verbatim>\<open>express.json()\<close> lets an
  object or an array through as \<^verbatim>\<open>req.body\<close> and refuses every other body: Express
  answers it with status 400 before the route runs. \<^verbatim>\<open>quantity\<close> goes upstream as it
  came; \<^verbatim>\<open>floatToQuotation(price)\<close> applies ToNumber to \<^verbatim>\<open>price\<close> while the body of
  PostOrder is built, before the call leaves.
\<close>

definition order_express :: "sdk \<Rightarrow> env \<Rightarrow> jsval \<Rightarrow> server \<Rightarrow> response \<times> server" where
  "order_express api e body s =
     (if \<not> is_reference body then (Response 400 ErrorPage, s)
      else
        let ticker = property ''ticker'' body;
            quantity = property ''quantity'' body;
            price = property ''price'' body;
            direction = property ''direction'' body in
        if \<not> truthy ticker \<or> \<not> truthy quantity \<or> \<not> truthy price \<or> \<not> truthy direction
        then (Response 400 (Failure ''Missing required fields''), s)
        else
          (case getFigiForTicker_express api e ticker s of
             (Inl err, s1) \<Rightarrow> (Response 500 (Failure (message err)), s1)
           | (Inr figi, s1) \<Rightarrow>
               (case getAccountId_express api e s1 of
                  (Inl err, s2) \<Rightarrow> (Response 500 (Failure (message err)), s2)
                | (Inr accountId, s2) \<Rightarrow>
                    let orderDir = (if direction = JStr ''buy'' then ORDER_DIRECTION_BUY
                                    else ORDER_DIRECTION_SELL) in
                    (case toNumber e price of
                       None \<Rightarrow> (Response 500 (Failure NOT_PRIMITIVE), s2)
                     | Some price' \<Rightarrow>
                         let ord = \<lparr>o_figi = figi,
                                    o_quantity = quantity,
                                    o_price = floatToQuotation price',
                                    o_direction = orderDir,
                                    o_accountId = accountId,
                                    o_orderId = new_orderId e\<rparr>;
                             s3 = send (PostOrder ord) s2 in
                         (case sdk_postOrder api ord of
                            Inl err \<Rightarrow> (Response 500 (Failure (message err)), s3)
                          | Inr reply \<Rightarrow> (Response 200 (Success (OrderPlaced reply)), s3))))))"

text \<open>
  \<^verbatim>\<open>app.get('/api/status')\<close>: the \<^verbatim>\<open>catch\<close> answers status 500 with
  \<^verbatim>\<open>error.message\<close>.
\<close>

definition status_express :: "sdk \<Rightarrow> env \<Rightarrow> server \<Rightarrow> response \<times> server" where
  "status_express api e s =
     (case getAccountId_express api e s of
        (Inr accountId, s1) \<Rightarrow>
          (Response 200 (Success (StatusData
             \<lparr>sd_status = ''online'', sd_timestamp = iso_time e, sd_hasToken = hasToken (API_TOKEN e),
              sd_message = None, sd_accountId = Some accountId, sd_error = None\<rparr>)), s1)
      | (Inl err, s1) \<Rightarrow> (Response 500 (Failure (message err)), s1))"

section \<open>Vocabulary of the properties\<close>

text \<open>
  A value that a Number holds exactly is one that rounding leaves as it is; a float
  value is such a finite value, an infinity or NaN.
\<close>

definition double :: "real \<Rightarrow> bool" where
  "double x = (binary64 x = Fin x)"

fun float_value :: "jsnum \<Rightarrow> bool" where
  "float_value (Fin x) = double x"
| "float_value v = True"

text \<open>
  "\<open>a\<close> equals \<open>b\<close> to within an absolute error of \<open>eps\<close>": both are finite and differ by
  at most \<open>eps\<close>, or both are the same infinity. NaN is close to nothing, itself
  included.
\<close>

fun close_to :: "real \<Rightarrow> jsnum \<Rightarrow> jsnum \<Rightarrow> bool" where
  "close_to eps (Fin a) (Fin b) = (\<bar>a - b\<bar> \<le> eps)"
| "close_to eps PInf PInf = True"
| "close_to eps NInf NInf = True"
| "close_to eps a b = False"

text \<open>The calls that left the process between the state \<open>s\<close> and the later state \<open>s'\<close>.\<close>

definition issued :: "'a wire_scheme \<Rightarrow> 'b wire_scheme \<Rightarrow> call list" where
  "issued s s' = drop (length (sent s)) (sent s')"

text \<open>
  The error an upstream call ends in, if it fails: what \<^verbatim>\<open>tinkoffRequest\<close> throws in the
  Deno variants, what the SDK throws in the Express variant.
\<close>

definition thrown :: "'a fetched \<Rightarrow> error option" where
  "thrown r = (case tinkoffRequest r of Inl err \<Rightarrow> Some err | Inr v \<Rightarrow> None)"

fun thrown_deno :: "upstream \<Rightarrow> call \<Rightarrow> error option" where
  "thrown_deno up (FindInstrument q) = thrown (findInstrument up q)"
| "thrown_deno up (GetOrderBook f) = thrown (getOrderBook up f)"
| "thrown_deno up GetAccounts = thrown (getAccounts up)"
| "thrown_deno up (PostOrder ord) = thrown (postOrder up ord)"
| "thrown_deno up (GetLastPrices f) = None"

fun thrown_sdk :: "error + 'a \<Rightarrow> error option" where
  "thrown_sdk (Inl err) = Some err"
| "thrown_sdk (Inr v) = None"

fun thrown_express :: "sdk \<Rightarrow> call \<Rightarrow> error option" where
  "thrown_express api (FindInstrument q) = thrown_sdk (sdk_findInstrument api q)"
| "thrown_express api (GetLastPrices f) = thrown_sdk (sdk_getLastPrices api f)"
| "thrown_express api GetAccounts = thrown_sdk (sdk_getAccounts api)"
| "thrown_express api (PostOrder ord) = thrown_sdk (sdk_postOrder api ord)"
| "thrown_express api (GetOrderBook f) = None"

text \<open>
  \<open>wordless r\<close>: the call fails with a message of the host's own (of \<^verbatim>\<open>fetch\<close> or of
  the JSON parser) and that message is empty. The message for a status outside
  200..299 is built by \<^verbatim>\<open>tinkoffRequest\<close>.
\<close>

fun wordless :: "'a fetched \<Rightarrow> bool" where
  "wordless (NetworkError m) = (m = [])"
| "wordless (HttpReply st (Inl m)) = (200 \<le> st \<and> st \<le> 299 \<and> m = [])"
| "wordless (HttpReply st (Inr v)) = False"

fun wordless_deno :: "upstream \<Rightarrow> call \<Rightarrow> bool" where
  "wordless_deno up (FindInstrument q) = wordless (findInstrument up q)"
| "wordless_deno up (GetOrderBook f) = wordless (getOrderBook up f)"
| "wordless_deno up GetAccounts = wordless (getAccounts up)"
| "wordless_deno up (PostOrder ord) = wordless (postOrder up ord)"
| "wordless_deno up (GetLastPrices f) = False"

text \<open>The same of an SDK call: it throws an error whose message is empty.\<close>

definition wordless_express :: "sdk \<Rightarrow> call \<Rightarrow> bool" where
  "wordless_express api c = (case thrown_express api c of None \<Rightarrow> False | Some err \<Rightarrow> message err = [])"


definition order_fields :: "string list" where
  "order_fields = [''ticker'', ''quantity'', ''price'', ''direction'']"

text \<open>An order body that passes the presence check of the three order routes.\<close>

definition valid_order :: "jsval \<Rightarrow> bool" where
  "valid_order b =
     (b \<noteq> JNull \<and> b \<noteq> JUndefined \<and> truthy (property ''ticker'' b) \<and>
      truthy (property ''quantity'' b) \<and> truthy (property ''price'' b) \<and>
      truthy (property ''direction'' b))"

text \<open>
  The hit tests of the price routes: of \<^verbatim>\<open>part_000\<close> and \<^verbatim>\<open>part_001\<close> on the entry's
  own timestamp, of \<^verbatim>\<open>main.js\<close> on \<^verbatim>\<open>cache.lastUpdate\<close>.
\<close>

definition fresh :: "(string \<rightharpoonup> priceData) \<Rightarrow> string \<Rightarrow> int \<Rightarrow> bool" where
  "fresh m k now = (case m k of None \<Rightarrow> False | Some p \<Rightarrow> now - pd_timestamp p < CACHE_TTL_MS)"

definition hit_main :: "cache \<Rightarrow> string \<Rightarrow> int \<Rightarrow> bool" where
  "hit_main s k now = (now - lastUpdate s < 5000 \<and> prices_get s k \<noteq> None)"

subsection \<open>Sample states, hosts and upstreams\<close>

definition cache0 :: cache where
  "cache0 = \<lparr>sent = [], prices = Map.empty, lastUpdate = 0\<rparr>"

definition server0 :: server where
  "server0 = \<lparr>sent = [], cachedAccountId = None, tickerFigiMap = Map.empty, priceCache = Map.empty\<rparr>"

text \<open>The number that a non-empty string of decimal digits denotes.\<close>

definition digit_value :: "char \<Rightarrow> nat option" where
  "digit_value c = map_of (zip ''0123456789'' [0, 1, 2, 3, 4, 5, 6, 7, 8, 9]) c"

definition decimal :: "string \<Rightarrow> nat option" where
  "decimal s =
     (if s \<noteq> [] \<and> list_all (\<lambda>c. digit_value c \<noteq> None) s
      then Some (foldl (\<lambda>n c. 10 * n + the (digit_value c)) 0 s)
      else None)"

text \<open>
  Conversions for the samples. On a number and on a non-empty string of decimal
  digits, \<open>sample_number\<close> is what \<^verbatim>\<open>parseFloat\<close> and ToNumber give; on an integer
  and on such a string it is what \<^verbatim>\<open>parseInt\<close> gives; on an object it is what the
  three give. The samples apply it to such values only. \<open>sample_text\<close> is the text of
  a whole number from 0 on, of an infinity and of NaN; the samples apply it to no
  other number.
\<close>

fun sample_number :: "jsval \<Rightarrow> jsnum option" where
  "sample_number (JNum n) = Some n"
| "sample_number (JStr s) = Some (case decimal s of Some n \<Rightarrow> Fin (of_nat n) | None \<Rightarrow> NaN)"
| "sample_number (JObj kvs) = (if map_of kvs ''toString'' = None then Some NaN else None)"
| "sample_number v = Some NaN"

fun sample_text :: "jsnum \<Rightarrow> string" where
  "sample_text (Fin x) = (if 0 \<le> x \<and> of_int \<lfloor>x\<rfloor> = x then show_nat (nat \<lfloor>x\<rfloor>) else ''NaN'')"
| "sample_text PInf = ''Infinity''"
| "sample_text NInf = ''-Infinity''"
| "sample_text NaN = ''NaN''"

text \<open>A host whose clock reads \<open>t\<close>, then \<open>t + 1\<close>.\<close>

definition sample_env :: "int \<Rightarrow> env" where
  "sample_env t =
     \<lparr>date_now = t, date_later = t + 1, math_random = 1 / 2,
      new_orderId = ''order_1000000_k3j9x2m1p'', iso_time = ''2024-01-01T00:00:00.000Z'',
      parseInt = sample_number, parseFloat = sample_number, toNumber = sample_number,
      number_text = sample_text, API_TOKEN = Some ''t.token'', main_account = (\<lambda>acc. True)\<rparr>"

definition sample_instrument :: "string \<Rightarrow> instrument" where
  "sample_instrument t = \<lparr>inst_ticker = t, inst_figi = ''FIGI-'' @ t, inst_type = ''etf''\<rparr>"

text \<open>A search finds one instrument for a query that is a string, none for another.\<close>

fun found :: "jsval \<Rightarrow> instrument list" where
  "found (JStr t) = [sample_instrument t]"
| "found v = []"

definition sample_quotation :: quotation where
  "sample_quotation = \<lparr>units = Fin 190, nano = Some (Fin 250000000)\<rparr>"

definition sample_account :: account where
  "sample_account = \<lparr>acc_id = ''2000123456'', acc_type = ''ACCOUNT_TYPE_TINKOFF''\<rparr>"

definition sample_reply :: "order \<Rightarrow> order_reply" where
  "sample_reply ord = \<lparr>r_orderId = o_orderId ord, r_executionReportStatus = ''EXECUTION_REPORT_STATUS_NEW''\<rparr>"

text \<open>
  An upstream that answers every call, one that answers none (status 503), and one that
  cannot be reached, \<^verbatim>\<open>fetch\<close> rejecting with an error whose message is empty.
\<close>

definition up_ok :: upstream where
  "up_ok =
     \<lparr>findInstrument = (\<lambda>q. HttpReply 200 (Inr (Some (found q)))),
      getOrderBook = (\<lambda>f. HttpReply 200 (Inr (Some sample_quotation))),
      getAccounts = HttpReply 200 (Inr (Some [sample_account])),
      postOrder = (\<lambda>ord. HttpReply 200 (Inr (sample_reply ord)))\<rparr>"

definition up_down :: upstream where
  "up_down =
     \<lparr>findInstrument = (\<lambda>q. HttpReply 503 (Inl ''Unexpected token < in JSON at position 0'')),
      getOrderBook = (\<lambda>f. HttpReply 503 (Inl ''Unexpected token < in JSON at position 0'')),
      getAccounts = HttpReply 503 (Inl ''Unexpected token < in JSON at position 0''),
      postOrder = (\<lambda>ord. HttpReply 503 (Inl ''Unexpected token < in JSON at position 0''))\<rparr>"


definition api_ok :: sdk where
  "api_ok =
     \<lparr>sdk_findInstrument = (\<lambda>q. Inr (Some (found q))),
      sdk_getLastPrices = (\<lambda>f. Inr (Some [\<lparr>lp_price = Some sample_quotation\<rparr>])),
      sdk_getAccounts = Inr (Some [sample_account]),
      sdk_postOrder = (\<lambda>ord. Inr (sample_reply ord))\<rparr>"

definition api_down :: sdk where
  "api_down =
     \<lparr>sdk_findInstrument = (\<lambda>q. Inl (Error ''14 UNAVAILABLE: No connection established'')),
      sdk_getLastPrices = (\<lambda>f. Inl (Error ''14 UNAVAILABLE: No connection established'')),
      sdk_getAccounts = Inl (Error ''14 UNAVAILABLE: No connection established''),
      sdk_postOrder = (\<lambda>ord. Inl (Error ''14 UNAVAILABLE: No connection established''))\<rparr>"

definition sample_order :: "jsval \<Rightarrow> jsval" where
  "sample_order direction =
     JObj [(''ticker'', JStr ''SBER''), (''quantity'', JNum (Fin 10)),
           (''price'', JNum (Fin (19025 / 100))), (''direction'', direction)]"

definition order_without_price :: jsval where
  "order_without_price =
     JObj [(''ticker'', JStr ''SBER''), (''quantity'', JNum (Fin 10)), (''direction'', JStr ''buy'')]"

definition order_zero_quantity :: jsval where
  "order_zero_quantity =
     JObj [(''ticker'', JStr ''SBER''), (''quantity'', JNum (Fin 0)),
           (''price'', JNum (Fin 190)), (''direction'', JStr ''buy'')]"

definition order_text_zero :: jsval where
  "order_text_zero =
     JObj [(''ticker'', JStr ''SBER''), (''quantity'', JStr ''0''),
           (''price'', JStr ''190''), (''direction'', JStr ''buy'')]"

text \<open>An order whose quantity is \<^verbatim>\<open>{"toString": 1}\<close>, an object without a primitive.\<close>

definition order_object_quantity :: jsval where
  "order_object_quantity =
     JObj [(''ticker'', JStr ''SBER''), (''quantity'', JObj [(''toString'', JNum (Fin 1))]),
           (''price'', JNum (Fin 190)), (''direction'', JStr ''sell'')]"

section \<open>Properties of the rounding\<close>

text \<open>
  \<open>exponent x\<close> is the exponent of \<open>x\<close>, so that \<open>nearest x\<close> is a multiple of
  \<open>2^quantum x\<close> at most half of it away from \<open>x\<close>, and no value that binary64 holds is
  nearer to \<open>x\<close>.
\<close>

lemma pow2_less_iff [simp]: "(2::real) powi m < 2 powi n \<longleftrightarrow> m < n"
proof
  assume a: "(2::real) powi m < 2 powi n"
  show "m < n"
  proof (rule ccontr)
    assume "\<not> m < n"
    then have "n \<le> m" by simp
    then have "(2::real) powi n \<le> 2 powi m" by (rule power_int_increasing) simp
    with a show False by simp
  qed
next
  assume "m < n"
  then show "(2::real) powi m < 2 powi n" by (rule power_int_strict_increasing) simp
qed

lemma pow2_le_iff [simp]: "(2::real) powi m \<le> 2 powi n \<longleftrightarrow> m \<le> n"
  using pow2_less_iff [of n m] by (simp only: not_less [symmetric])

lemma bitlen_pos: "0 < n \<Longrightarrow> 1 \<le> bitlen n"
  using bitlen_eq_zero_iff [of n] bitlen_nonneg [of n] by linarith

lemma exponent_bounds:
  assumes "x \<noteq> 0"
  shows "2 powi exponent x \<le> \<bar>x\<bar> \<and> \<bar>x\<bar> < 2 powi (exponent x + 1)"
proof (cases "1 \<le> \<bar>x\<bar>")
  case True
  define n where "n = \<lfloor>\<bar>x\<bar>\<rfloor>"
  have n: "0 < n" using True by (simp add: n_def)
  have e: "exponent x = bitlen n - 1" using True by (simp add: exponent_def n_def)
  from bitlen_bounds [OF n] have b1: "2 ^ nat (bitlen n - 1) \<le> n" and b2: "n < 2 ^ nat (bitlen n)"
    by auto
  have bl: "1 \<le> bitlen n" using n by (rule bitlen_pos)
  have p1: "2 powi (bitlen n - 1) = (2::real) ^ nat (bitlen n - 1)"
    using bl by (simp add: power_int_def)
  have p2: "2 powi (bitlen n - 1 + 1) = (2::real) ^ nat (bitlen n)"
    using bl by (simp add: power_int_def)
  have l: "real_of_int n \<le> \<bar>x\<bar>" by (simp add: n_def)
  have u: "\<bar>x\<bar> < real_of_int (n + 1)" by (simp add: n_def)
  have "n + 1 \<le> 2 ^ nat (bitlen n)" using b2 by simp
  then have "real_of_int (n + 1) \<le> real_of_int (2 ^ nat (bitlen n))" by (rule of_int_le_iff [THEN iffD2])
  moreover have "real_of_int (2 ^ nat (bitlen n)) = 2 ^ nat (bitlen n)" by simp
  ultimately have u': "\<bar>x\<bar> < 2 ^ nat (bitlen n)" using u by linarith
  have "real_of_int (2 ^ nat (bitlen n - 1)) \<le> real_of_int n" using b1 by (rule of_int_le_iff [THEN iffD2])
  moreover have "real_of_int (2 ^ nat (bitlen n - 1)) = 2 ^ nat (bitlen n - 1)" by simp
  ultimately have l': "2 ^ nat (bitlen n - 1) \<le> \<bar>x\<bar>" using l by linarith
  show ?thesis unfolding e p1 p2 using l' u' by simp
next
  case False
  with assms have x: "0 < \<bar>x\<bar>" "\<bar>x\<bar> < 1" by auto
  define y where "y = 1 / \<bar>x\<bar>"
  have y: "1 < y" using x by (simp add: y_def)
  define m where "m = \<lceil>y\<rceil> - 1"
  have m: "0 < m" using y by (simp add: m_def) 
  have e: "exponent x = - bitlen m" using False by (simp add: exponent_def m_def y_def)
  from bitlen_bounds [OF m] have b1: "2 ^ nat (bitlen m - 1) \<le> m" and b2: "m < 2 ^ nat (bitlen m)"
    by auto
  have bl: "1 \<le> bitlen m" using m by (rule bitlen_pos)
  have p1: "2 powi (- bitlen m) = 1 / (2::real) ^ nat (bitlen m)"
    using bl by (simp add: power_int_def field_simps)
  have p2: "2 powi (- bitlen m + 1) = 1 / (2::real) ^ nat (bitlen m - 1)"
    using bl by (simp add: power_int_def field_simps)
  have l: "real_of_int m < y" unfolding m_def by linarith
  have u: "y \<le> real_of_int (m + 1)" unfolding m_def by simp
  have "m + 1 \<le> 2 ^ nat (bitlen m)" using b2 by simp
  then have "real_of_int (m + 1) \<le> real_of_int (2 ^ nat (bitlen m))" by (rule of_int_le_iff [THEN iffD2])
  moreover have "real_of_int (2 ^ nat (bitlen m)) = 2 ^ nat (bitlen m)" by simp
  ultimately have u': "y \<le> 2 ^ nat (bitlen m)" using u by linarith
  have "real_of_int (2 ^ nat (bitlen m - 1)) \<le> real_of_int m" using b1 by (rule of_int_le_iff [THEN iffD2])
  moreover have "real_of_int (2 ^ nat (bitlen m - 1)) = 2 ^ nat (bitlen m - 1)" by simp
  ultimately have l': "2 ^ nat (bitlen m - 1) < y" using l by linarith
  have xy: "\<bar>x\<bar> = 1 / y" using x by (simp add: y_def)
  have "1 / (2::real) ^ nat (bitlen m) \<le> 1 / y" using u' y by (simp add: frac_le)
  moreover have "1 / y < 1 / (2::real) ^ nat (bitlen m - 1)" using l' by (simp add: frac_less2)
  ultimately show ?thesis unfolding e p1 p2 xy by simp
qed

lemma exponent_ge:
  assumes "2 powi k \<le> \<bar>x\<bar>"
  shows "k \<le> exponent x"
proof -
  have "0 < (2::real) powi k" by simp
  with assms have "0 < \<bar>x\<bar>" by linarith
  then have x: "x \<noteq> 0" by simp
  from exponent_bounds [OF x] assms have "(2::real) powi k < 2 powi (exponent x + 1)" by linarith
  then have "k < exponent x + 1" by simp
  then show ?thesis by simp
qed

lemma exponent_le:
  assumes "x \<noteq> 0" "\<bar>x\<bar> < 2 powi (k + 1)"
  shows "exponent x \<le> k"
proof -
  from exponent_bounds [OF assms(1)] assms(2) have "(2::real) powi exponent x < 2 powi (k + 1)" by linarith
  then have "exponent x < k + 1" by simp
  then show ?thesis by simp
qed

lemma ties_to_even_error: "\<bar>real_of_int (ties_to_even y) - y\<bar> \<le> 1 / 2"
  unfolding ties_to_even_def Let_def by (auto simp: abs_if) linarith+

lemma ties_to_even_of_int [simp]: "ties_to_even (of_int j) = j"
  unfolding ties_to_even_def Let_def by simp

lemma ties_to_even_best: "\<bar>real_of_int (ties_to_even y) - y\<bar> \<le> \<bar>real_of_int j - y\<bar>"
proof (cases "real_of_int j = real_of_int (ties_to_even y)")
  case True then show ?thesis by simp
next
  case False
  then have "j \<noteq> ties_to_even y" by auto
  then have "1 \<le> \<bar>j - ties_to_even y\<bar>" by linarith
  then have "1 \<le> \<bar>real_of_int j - real_of_int (ties_to_even y)\<bar>"
    by (metis of_int_1 of_int_abs of_int_diff of_int_le_iff)
  with ties_to_even_error [of y] show ?thesis by linarith
qed

lemma nearest_0 [simp]: "nearest 0 = 0"
  by (simp add: nearest_def)

lemma abs_scale: "0 < Q \<Longrightarrow> \<bar>a * Q - x\<bar> = \<bar>a - x / Q\<bar> * (Q::real)"
proof -
  assume Q: "0 < Q"
  then have "a * Q - x = (a - x / Q) * Q" by (simp add: field_simps)
  then have "\<bar>a * Q - x\<bar> = \<bar>a - x / Q\<bar> * \<bar>Q\<bar>" by (simp only: abs_mult)
  with Q show ?thesis by simp
qed

lemma int_bound_real: "\<bar>m\<bar> < 2 ^ 53 \<Longrightarrow> real_of_int \<bar>m\<bar> < 2 ^ 53"
proof -
  assume "\<bar>m\<bar> < 2 ^ 53"
  then have "real_of_int \<bar>m\<bar> < real_of_int (2 ^ 53)" by (rule of_int_less_iff [THEN iffD2])
  then show ?thesis by simp
qed

lemma nearest_best: "\<bar>nearest x - x\<bar> \<le> \<bar>real_of_int j * 2 powi quantum x - x\<bar>"
proof (cases "x = 0")
  case True then show ?thesis by simp
next
  case False
  define Q :: real where "Q = 2 powi quantum x"
  have Q: "0 < Q" by (simp add: Q_def)
  have "\<bar>nearest x - x\<bar> = \<bar>real_of_int (ties_to_even (x / Q)) - x / Q\<bar> * Q"
    using False abs_scale [OF Q] by (simp add: nearest_def Q_def [symmetric])
  also have "\<dots> \<le> \<bar>real_of_int j - x / Q\<bar> * Q"
    using ties_to_even_best [of "x / Q" j] Q by (simp add: mult_right_mono)
  also have "\<dots> = \<bar>real_of_int j * Q - x\<bar>"
    using abs_scale [OF Q] by simp
  finally show ?thesis by (simp add: Q_def)
qed

lemma nearest_error: "\<bar>nearest x - x\<bar> \<le> 2 powi (quantum x - 1)"
proof (cases "x = 0")
  case True then show ?thesis by simp
next
  case False
  define Q :: real where "Q = 2 powi quantum x"
  have Q: "0 < Q" by (simp add: Q_def)
  have "\<bar>nearest x - x\<bar> = \<bar>real_of_int (ties_to_even (x / Q)) - x / Q\<bar> * Q"
    using False abs_scale [OF Q] by (simp add: nearest_def Q_def [symmetric])
  also have "\<dots> \<le> 1 / 2 * Q"
    using ties_to_even_error [of "x / Q"] Q by (simp add: mult_right_mono)
  also have "\<dots> = 2 powi (quantum x - 1)"
    by (simp add: Q_def power_int_diff)
  finally show ?thesis .
qed

lemma nearest_grid: "\<exists>j. nearest x = real_of_int j * 2 powi quantum x"
  by (cases "x = 0") (auto simp: nearest_def intro: exI [of _ 0])

lemma coarser_grid:
  assumes "q' \<le> q"
  shows "\<exists>j. real_of_int J * 2 powi q = real_of_int j * 2 powi q'"
proof -
  have "(2::real) powi q = 2 powi (q - q') * 2 powi q'"
    by (simp add: power_int_add [symmetric])
  also have "(2::real) powi (q - q') = real_of_int (2 ^ nat (q - q'))"
    using assms by (simp add: power_int_def)
  finally have "real_of_int J * 2 powi q = real_of_int (J * 2 ^ nat (q - q')) * 2 powi q'"
    by simp
  then show ?thesis ..
qed

lemma quantum_ge: "2 powi k \<le> \<bar>x\<bar> \<Longrightarrow> k - 52 \<le> quantum x"
  using exponent_ge [of k x] by (simp add: quantum_def)

lemma quantum_le: "x \<noteq> 0 \<Longrightarrow> \<bar>x\<bar> < 2 powi (k + 1) \<Longrightarrow> - 1022 \<le> k \<Longrightarrow> quantum x \<le> k - 52"
  using exponent_le [of x k] by (simp add: quantum_def)

lemma nearest_error_below:
  assumes "\<bar>x\<bar> < 2 powi (k + 1)" "- 1022 \<le> k"
  shows "\<bar>nearest x - x\<bar> \<le> 2 powi (k - 53)"
proof (cases "x = 0")
  case True then show ?thesis by simp
next
  case False
  from quantum_le [OF False assms] have "quantum x - 1 \<le> k - 53" by simp
  then have "(2::real) powi (quantum x - 1) \<le> 2 powi (k - 53)" by simp
  with nearest_error [of x] show ?thesis by linarith
qed

lemma nearest_grid_above:
  assumes "2 powi k \<le> \<bar>x\<bar>"
  shows "\<exists>j. nearest x = real_of_int j * 2 powi (k - 52)"
proof -
  obtain J where "nearest x = real_of_int J * 2 powi quantum x" using nearest_grid by blast
  with coarser_grid [OF quantum_ge [OF assms], of J] show ?thesis by simp
qed

lemma double_iff: "double x \<longleftrightarrow> nearest x = x \<and> \<bar>x\<bar> < 2 ^ 1024"
  unfolding double_def binary64_def Let_def by (auto simp: abs_if)

lemma double_grid: "double x \<Longrightarrow> \<exists>j. x = real_of_int j * 2 powi quantum x"
  using nearest_grid [of x] by (simp add: double_iff)

lemma double_grid_above:
  assumes "double x" "2 powi k \<le> \<bar>x\<bar>"
  shows "\<exists>j. x = real_of_int j * 2 powi (k - 52)"
  using nearest_grid_above [OF assms(2)] assms(1) by (simp add: double_iff)

lemma quantum_low: "- 1074 \<le> quantum x"
  by (simp add: quantum_def)

lemma nearest_closest:
  assumes "double y"
  shows "\<bar>nearest x - x\<bar> \<le> \<bar>y - x\<bar>"
proof (cases "quantum x \<le> quantum y")
  case True
  obtain J where J: "y = real_of_int J * 2 powi quantum y" using double_grid [OF assms] by blast
  from coarser_grid [OF True, of J] J obtain j where "y = real_of_int j * 2 powi quantum x" by auto
  with nearest_best [of x j] show ?thesis by simp
next
  case False
  then have lt: "quantum y < quantum x" by simp
  show ?thesis
  proof (cases "x = 0 \<or> y = 0")
    case True
    then show ?thesis
    proof
      assume "x = 0" then show ?thesis by simp
    next
      assume "y = 0" with nearest_best [of x 0] show ?thesis by simp
    qed
  next
    case nz: False
    then have x: "x \<noteq> 0" and y: "y \<noteq> 0" by auto
    from lt quantum_low [of y] have qx: "quantum x = exponent x - 52" unfolding quantum_def by linarith
    have "exponent y - 52 \<le> quantum y" by (simp add: quantum_def)
    with lt qx have "exponent y + 1 \<le> exponent x" by simp
    then have "(2::real) powi (exponent y + 1) \<le> 2 powi exponent x" by simp
    with exponent_bounds [OF y] have yb: "\<bar>y\<bar> < 2 powi exponent x" by linarith
    from exponent_bounds [OF x] have xb: "2 powi exponent x \<le> \<bar>x\<bar>" by simp
    define s :: int where "s = (if 0 < x then 1 else - 1)"
    have "(2::real) powi exponent x = 2 powi 52 * 2 powi quantum x"
      unfolding qx by (simp add: power_int_diff)
    then have g: "real_of_int (s * 2 ^ 52) * 2 powi quantum x = real_of_int s * 2 powi exponent x"
      by simp
    have "\<bar>real_of_int s * 2 powi exponent x - x\<bar> = \<bar>x\<bar> - 2 powi exponent x"
      using xb x by (auto simp: s_def abs_if)
    also have "\<dots> \<le> \<bar>y - x\<bar>" using yb by linarith
    finally show ?thesis using nearest_best [of x "s * 2 ^ 52"] unfolding g by linarith
  qed
qed

lemma nearest_between:
  assumes "double a" "double b" "a \<le> x" "x \<le> b"
  shows "a \<le> nearest x \<and> nearest x \<le> b"
  using nearest_closest [OF assms(1), of x] nearest_closest [OF assms(2), of x] assms(3,4)
  by linarith

lemma nearest_exact:
  assumes "\<bar>m\<bar> < 2 ^ 53" "- 1074 \<le> e"
  shows "nearest (real_of_int m * 2 powi e) = real_of_int m * 2 powi e"
proof (cases "m = 0")
  case True then show ?thesis by simp
next
  case False
  define x where "x = real_of_int m * 2 powi e"
  have x: "x \<noteq> 0" using False by (simp add: x_def)
  have "\<bar>x\<bar> = real_of_int \<bar>m\<bar> * 2 powi e" by (simp add: x_def abs_mult)
  also have "\<dots> < 2 ^ 53 * 2 powi e"
    using int_bound_real [OF assms(1)] by (intro mult_strict_right_mono) simp_all
  also have "\<dots> = 2 powi (e + 52 + 1)" by (simp add: power_int_add)
  finally have "exponent x \<le> e + 52" using exponent_le [OF x] by simp
  with assms(2) have "quantum x \<le> e" by (simp add: quantum_def)
  from coarser_grid [OF this, of m] obtain j where j: "x = real_of_int j * 2 powi quantum x"
    by (auto simp: x_def)
  have "x / 2 powi quantum x = real_of_int j" by (subst j) simp
  then have "nearest x = real_of_int j * 2 powi quantum x" using x by (simp add: nearest_def)
  with j show ?thesis by (simp add: x_def)
qed

lemma double_exact:
  assumes "\<bar>m\<bar> < 2 ^ 53" "- 1074 \<le> e" "e \<le> 971"
  shows "double (real_of_int m * 2 powi e)"
proof -
  have "\<bar>real_of_int m * 2 powi e\<bar> = real_of_int \<bar>m\<bar> * 2 powi e" by (simp add: abs_mult)
  also have "\<dots> < 2 ^ 53 * 2 powi e"
    using int_bound_real [OF assms(1)] by (intro mult_strict_right_mono) simp_all
  also have "\<dots> = 2 powi (e + 53)" by (simp add: power_int_add)
  also have "\<dots> \<le> 2 powi 1024" using assms(3) by (simp only: pow2_le_iff)
  finally have "\<bar>real_of_int m * 2 powi e\<bar> < 2 ^ 1024" by simp
  with nearest_exact [OF assms(1,2)] show ?thesis by (simp only: double_iff)
qed

section \<open>Properties of the numeric conversion\<close>

lemma same_grid_point:
  assumes "\<bar>real_of_int j * Q - real_of_int i * Q\<bar> < Q"
  shows "j = i"
proof -
  have Q: "0 < Q" using assms by linarith
  have "real_of_int j * Q - real_of_int i * Q = real_of_int (j - i) * Q" by (simp add: left_diff_distrib)
  with assms have "\<bar>real_of_int (j - i) * Q\<bar> < Q" by simp
  then have "\<bar>real_of_int (j - i)\<bar> * Q < 1 * Q" using Q by (simp add: abs_mult)
  then have "\<bar>real_of_int (j - i)\<bar> < 1" using Q by (simp only: mult_less_cancel_right_pos)
  then show ?thesis by linarith
qed

lemma binary64_0 [simp]: "binary64 0 = Fin 0"
  by (simp add: binary64_def)

lemma binary64_Fin: "\<bar>nearest x\<bar> < 2 ^ 1024 \<Longrightarrow> binary64 x = Fin (nearest x)"
  unfolding binary64_def Let_def by (auto simp: abs_if)

lemma double_of_int: "\<bar>m\<bar> < 2 ^ 53 \<Longrightarrow> double (real_of_int m)"
  using double_exact [of m 0] by simp

lemma trunc_fraction: "\<bar>x - real_of_int (trunc x)\<bar> < 1"
  unfolding trunc_def by (auto simp: abs_if) linarith+

lemma nearest_within:
  assumes "\<bar>x\<bar> \<le> real_of_int m" "\<bar>m\<bar> < 2 ^ 53"
  shows "\<bar>nearest x\<bar> \<le> real_of_int m"
proof -
  have "double (real_of_int m)" using assms(2) by (rule double_of_int)
  moreover have "double (real_of_int (- m))" using assms(2) by (intro double_of_int) simp
  ultimately have "real_of_int (- m) \<le> nearest x \<and> nearest x \<le> real_of_int m"
    using assms(1) by (intro nearest_between) auto
  then show ?thesis by auto
qed

lemma roundtrip_nearest:
  assumes x: "double x"
  defines "u \<equiv> real_of_int (trunc x)"
  defines "d \<equiv> nearest (x - u)"
  defines "p \<equiv> nearest (d * 1000000000)"
  defines "n \<equiv> \<lfloor>p + 1 / 2\<rfloor>"
  defines "q \<equiv> nearest (real_of_int n / 1000000000)"
  defines "r \<equiv> nearest (u + q)"
  shows "\<bar>d\<bar> \<le> 1" "\<bar>p\<bar> \<le> 1000000000" "\<bar>q\<bar> \<le> 1" "\<bar>r\<bar> < 2 ^ 1024" "\<bar>r - x\<bar> \<le> 1 / 10 ^ 9"
proof -
  have a: "\<bar>x - u\<bar> < 1" unfolding u_def by (rule trunc_fraction)
  show d: "\<bar>d\<bar> \<le> 1" unfolding d_def using nearest_within [of "x - u" 1] a by simp
  have "\<bar>x - u\<bar> < 2 powi (- 1 + 1)" using a by simp
  from nearest_error_below [OF this] have da: "\<bar>d - (x - u)\<bar> \<le> 2 powi (- 54)"
    unfolding d_def by simp
  have b: "\<bar>d * 1000000000\<bar> \<le> 1000000000" using d by (simp add: abs_mult)
  show p: "\<bar>p\<bar> \<le> 1000000000" unfolding p_def using nearest_within [of "d * 1000000000" 1000000000] b by simp
  have "\<bar>d * 1000000000\<bar> < 2 powi (29 + 1)" using b by simp
  from nearest_error_below [OF this] have pb: "\<bar>p - d * 1000000000\<bar> \<le> 2 powi (- 24)"
    unfolding p_def by simp
  have np: "\<bar>real_of_int n - p\<bar> \<le> 1 / 2" unfolding n_def by linarith
  have "- 1000000000 \<le> n \<and> n \<le> 1000000000" using p unfolding n_def by (auto simp: le_floor_iff floor_le_iff abs_if split: if_splits)
  then have n: "\<bar>real_of_int n\<bar> \<le> 1000000000" by (auto simp: abs_if)
  then have c: "\<bar>real_of_int n / 1000000000\<bar> \<le> 1" by simp
  show q: "\<bar>q\<bar> \<le> 1" unfolding q_def using nearest_within [of "real_of_int n / 1000000000" 1] c by simp
  have "\<bar>real_of_int n / 1000000000\<bar> < 2 powi (0 + 1)" using c by simp
  from nearest_error_below [OF this] have qc: "\<bar>q - real_of_int n / 1000000000\<bar> \<le> 2 powi (- 53)"
    unfolding q_def by simp
  define \<delta> :: real where "\<delta> = 2 powi (- 53) + 1 / 2 / 1000000000 + 2 powi (- 24) / 1000000000 + 2 powi (- 54)"
  have "\<bar>real_of_int n / 1000000000 - d\<bar> \<le> 1 / 2 / 1000000000 + 2 powi (- 24) / 1000000000"
  proof -
    have "\<bar>real_of_int n - d * 1000000000\<bar> \<le> 1 / 2 + 2 powi (- 24)" using np pb by linarith
    then have "\<bar>(real_of_int n - d * 1000000000) / 1000000000\<bar> \<le> (1 / 2 + 2 powi (- 24)) / 1000000000"
      by (simp only: abs_divide abs_numeral divide_le_cancel) simp
    then show ?thesis by (simp add: diff_divide_distrib add_divide_distrib)
  qed
  with qc da have qa: "\<bar>q - (x - u)\<bar> \<le> \<delta>" unfolding \<delta>_def by linarith
  then have xx: "\<bar>(u + q) - x\<bar> \<le> \<delta>" by (simp add: abs_if split: if_splits)
  have \<delta>1: "\<delta> + 2 powi (- 31) \<le> 1 / 10 ^ 9" unfolding \<delta>_def by simp
  have \<delta>2: "2 * \<delta> < 2 powi (- 29)" unfolding \<delta>_def by simp
  have \<delta>3: "\<delta> < 2 powi (- 30)" unfolding \<delta>_def by simp
  have \<delta>0: "0 \<le> \<delta>" using xx by linarith
  have "\<bar>r\<bar> < 2 ^ 1024 \<and> \<bar>r - x\<bar> \<le> 1 / 10 ^ 9"
  proof (cases "\<bar>u + q\<bar> < 2 powi (22 + 1)")
    case True
    from nearest_error_below [OF True] have rx: "\<bar>r - (u + q)\<bar> \<le> 2 powi (- 31)" unfolding r_def by simp
    with xx \<delta>1 have "\<bar>r - x\<bar> \<le> 1 / 10 ^ 9" by linarith
    moreover have "\<bar>r\<bar> < 2 ^ 23 + 1"
    proof -
      have "2 powi (- 31) \<le> (1::real)" "2 powi (22 + 1) = (2::real) ^ 23" by simp_all
      with rx True show ?thesis by linarith
    qed
    moreover have "(2::real) ^ 23 + 1 < 2 ^ 1024" by simp
    ultimately show ?thesis by linarith
  next
    case False
    then have big: "2 powi 23 \<le> \<bar>u + q\<bar>" by simp
    have rc: "\<bar>r - (u + q)\<bar> \<le> \<bar>x - (u + q)\<bar>" unfolding r_def using x by (rule nearest_closest)
    from nearest_grid_above [OF big] obtain j where j: "r = real_of_int j * 2 powi (- 29)"
      unfolding r_def by auto
    have xbig: "2 powi 23 \<le> \<bar>x\<bar>"
    proof (rule ccontr)
      assume "\<not> 2 powi 23 \<le> \<bar>x\<bar>"
      then have small: "\<bar>x\<bar> < 2 powi 23" by simp
      have "2 powi 22 \<le> \<bar>x\<bar>" using big xx \<delta>3 by simp
      from double_grid_above [OF x this] obtain i where i: "x = real_of_int i * 2 powi (- 30)" by auto
      then have "\<bar>x\<bar> = real_of_int \<bar>i\<bar> * 2 powi (- 30)" by (simp add: abs_mult)
      with small have "real_of_int \<bar>i\<bar> < 2 ^ 53" by simp
      then have "real_of_int \<bar>i\<bar> < real_of_int (2 ^ 53)" by simp
      then have "\<bar>i\<bar> < 2 ^ 53" by (simp only: of_int_less_iff)
      then have "\<bar>i\<bar> \<le> 2 ^ 53 - 1" by simp
      then have "real_of_int \<bar>i\<bar> \<le> real_of_int (2 ^ 53 - 1)" by (simp only: of_int_le_iff)
      then have "real_of_int \<bar>i\<bar> * 2 powi (- 30) \<le> (2 ^ 53 - 1) * 2 powi (- 30)" by simp
      with \<open>\<bar>x\<bar> = real_of_int \<bar>i\<bar> * 2 powi (- 30)\<close> have "\<bar>x\<bar> \<le> 2 powi 23 - 2 powi (- 30)" by simp
      with xx \<delta>3 have "\<bar>u + q\<bar> < 2 powi 23" by linarith
      with big show False by simp
    qed
    from double_grid_above [OF x xbig] obtain i where i: "x = real_of_int i * 2 powi (- 29)" by auto
    have "\<bar>r - x\<bar> \<le> 2 * \<delta>" using rc xx by linarith
    with \<delta>2 have "\<bar>r - x\<bar> < 2 powi (- 29)" by linarith
    then have "j = i" unfolding i j by (rule same_grid_point)
    then have "r = x" using i j by simp
    moreover have "\<bar>x\<bar> < 2 ^ 1024" using x by (simp add: double_iff)
    ultimately show ?thesis by simp
  qed
  then show "\<bar>r\<bar> < 2 ^ 1024" "\<bar>r - x\<bar> \<le> 1 / 10 ^ 9" by simp_all
qed

lemma roundtrip_double:
  assumes "double x"
  shows "close_to (1 / 10 ^ 9) (quotationToFloat (Some (floatToQuotation (Fin x)))) (Fin x)"
proof -
  define u where "u = real_of_int (trunc x)"
  define d where "d = nearest (x - u)"
  define p where "p = nearest (d * 1000000000)"
  define n where "n = \<lfloor>p + 1 / 2\<rfloor>"
  define q where "q = nearest (real_of_int n / 1000000000)"
  define r where "r = nearest (u + q)"
  note rt = roundtrip_nearest [OF assms, folded u_def, folded d_def, folded p_def, folded n_def, folded q_def, folded r_def]
  have 1: "binary64 (x - u) = Fin d"
    using rt(1) by (simp add: d_def binary64_Fin)
  have 2: "binary64 (d * 1000000000) = Fin p"
    using rt(2) by (simp add: p_def binary64_Fin)
  have 3: "floatToQuotation (Fin x) = \<lparr>units = Fin u, nano = Some (Fin (real_of_int n))\<rparr>"
    by (simp add: floatToQuotation_def Let_def js_sub_def u_def [symmetric] 1 2 n_def)
  have 5: "binary64 (real_of_int n / 1000000000) = Fin q"
    using rt(3) by (simp add: q_def binary64_Fin)
  have 6: "binary64 (u + q) = Fin r"
    using rt(4) by (simp add: r_def binary64_Fin)
  have 4: "nano_or_0 (Some (Fin (real_of_int n))) = Fin (real_of_int n)" by simp
  have "quotationToFloat (Some (floatToQuotation (Fin x))) = Fin r"
    unfolding 3 by (simp only: quotationToFloat.simps quotation.select_convs 4 js_over.simps 5 js_add.simps 6)
  with rt(5) show ?thesis by simp
qed

lemma binary64_exact:
  assumes "\<bar>m\<bar> < 2 ^ 53" "- 1074 \<le> e" "e \<le> 971"
  shows "binary64 (real_of_int m * 2 powi e) = Fin (real_of_int m * 2 powi e)"
  using double_exact [OF assms] by (simp add: double_def)

lemma exponent_eq:
  assumes "2 powi k \<le> \<bar>x\<bar>" "\<bar>x\<bar> < 2 powi (k + 1)"
  shows "exponent x = k"
proof -
  have "0 < (2::real) powi k" by simp
  with assms(1) have "0 < \<bar>x\<bar>" by linarith
  then have "x \<noteq> 0" by simp
  from exponent_le [OF this assms(2)] exponent_ge [OF assms(1)] show ?thesis by simp
qed

lemma nearest_eval:
  assumes "2 powi k \<le> \<bar>x\<bar>" "\<bar>x\<bar> < 2 powi (k + 1)" "- 1022 \<le> k"
  shows "nearest x = real_of_int (ties_to_even (x / 2 powi (k - 52))) * 2 powi (k - 52)"
proof -
  have "0 < (2::real) powi k" by simp
  with assms(1) have "0 < \<bar>x\<bar>" by linarith
  then have "x \<noteq> 0" by simp
  moreover have "quantum x = k - 52"
    using exponent_eq [OF assms(1,2)] assms(3) by (simp add: quantum_def)
  ultimately show ?thesis by (simp add: nearest_def)
qed

text \<open>
  C3, as stated, at NaN: the round trip of NaN is NaN, which equals nothing to within
  any error (\<^verbatim>\<open>Math.abs(NaN - NaN) <= 1e-9\<close> is false).
\<close>

theorem roundtrip_NaN_counterexample:
  "float_value NaN \<and>
   quotationToFloat (Some (floatToQuotation NaN)) = NaN \<and>
   \<not> close_to (1 / 1000000000) (quotationToFloat (Some (floatToQuotation NaN))) NaN"
  by (simp add: floatToQuotation_def js_sub_def)

text \<open>
  C3, amended: for every float value \<open>v\<close> other than NaN,
  \<^verbatim>\<open>quotationToFloat(floatToQuotation(v))\<close> equals \<open>v\<close> to within \<open>1e-9\<close>, each of
  the four operations (the difference, the product, the quotient and the sum) rounding
  to binary64. An infinity comes back as itself. For a finite \<open>v\<close> the rounding to whole
  nanos costs up to \<open>5e-10\<close> and the rounding of the final sum up to \<open>2^-31\<close> below
  \<open>2^23\<close>; from \<open>2^23\<close> on, the sum rounds back to \<open>v\<close> itself.
\<close>

theorem roundtrip_float:
  assumes "float_value v" and "v \<noteq> NaN"
  shows "close_to (1 / 1000000000) (quotationToFloat (Some (floatToQuotation v))) v"
proof (cases v)
  case (Fin x)
  with assms(1) have "double x" by simp
  from roundtrip_double [OF this] show ?thesis unfolding Fin by simp
next
  case PInf
  then show ?thesis by (simp add: floatToQuotation_def js_sub_def)
next
  case NInf
  then show ?thesis by (simp add: floatToQuotation_def js_sub_def)
next
  case NaN
  with assms(2) show ?thesis by simp
qed

theorem roundtrip_float_witness:
  "float_value (Fin (3990730846617131 / 536870912)) \<and>
   Fin (3990730846617131 / 536870912) \<noteq> NaN \<and>
   close_to (1 / 1000000000)
     (quotationToFloat (Some (floatToQuotation (Fin (3990730846617131 / 536870912)))))
     (Fin (3990730846617131 / 536870912))"
proof -
  have d: "float_value (Fin (3990730846617131 / 536870912))"
    using double_exact [of 3990730846617131 "- 29"] by simp
  have n: "Fin (3990730846617131 / 536870912) \<noteq> NaN"
    by simp
  from roundtrip_float [OF d n] d n show ?thesis by blast
qed

text \<open>
  C4 at \<open>v = 1 - 2^-31 = 0.9999999995343387126922607421875\<close>, a value that binary64
  holds and whose product with \<open>1e9\<close> it holds too, so that no operation of
  \<^verbatim>\<open>floatToQuotation\<close> rounds: \<open>units\<close> is 0 and \<open>nano\<close> is 1,000,000,000, outside
  \<open>-999,999,999..999,999,999\<close>.
\<close>

theorem floatToQuotation_nano_carry:
  "floatToQuotation (Fin (2147483647 / 2147483648)) = \<lparr>units = Fin 0, nano = Some (Fin 1000000000)\<rparr>"
proof -
  have 1: "binary64 (2147483647 / 2147483648) = Fin (2147483647 / 2147483648)"
    using binary64_exact [of 2147483647 "- 31"] by simp
  have 2: "binary64 (4194303998046875 / 4194304) = Fin (4194303998046875 / 4194304)"
    using binary64_exact [of 4194303998046875 "- 22"] by simp
  show ?thesis
    by (simp add: floatToQuotation_def js_sub_def trunc_def Let_def 1 2)
qed

text \<open>
  The same at the binary64 value next to \<open>0.9999999995\<close>, which is a little below it:
  the product with \<open>1e9\<close> is \<open>999999999.49999997\<dots>\<close> and rounds to \<open>999999999.5\<close>, which
  \<^verbatim>\<open>Math.round\<close> takes up to 1,000,000,000. And at the value next to \<open>-5e-10\<close>, a little
  below it: the product rounds to \<open>-0.5\<close>, which \<^verbatim>\<open>Math.round\<close> takes up to 0.
\<close>

lemma floatToQuotation_rounded_product:
  "floatToQuotation (Fin (562949953139837 / 562949953421312))
     = \<lparr>units = Fin 0, nano = Some (Fin 1000000000)\<rparr> \<and>
   floatToQuotation (Fin (- (4835703278458517 / 9671406556917033397649408)))
     = \<lparr>units = Fin 0, nano = Some (Fin 0)\<rparr>"
proof -
  have 1: "binary64 (562949953139837 / 562949953421312) = Fin (562949953139837 / 562949953421312)"
    using binary64_exact [of 562949953139837 "- 49"] by simp
  have "nearest (562949953139837 / 562949953421312 * 1000000000) = 1999999999 / 2"
    by (subst nearest_eval [where k = 29]) (simp_all add: ties_to_even_def Let_def)
  then have 2: "binary64 (562949953139837 / 562949953421312 * 1000000000) = Fin (1999999999 / 2)"
    by (simp add: binary64_def)
  have 3: "binary64 (- (4835703278458517 / 9671406556917033397649408))
             = Fin (- (4835703278458517 / 9671406556917033397649408))"
    using binary64_exact [of "- 4835703278458517" "- 83"] by simp
  have "nearest (- (4835703278458517 / 9671406556917033397649408) * 1000000000) = - (1 / 2)"
    by (subst nearest_eval [where k = "- 1"]) (simp_all add: ties_to_even_def Let_def)
  then have 4: "binary64 (- (4835703278458517 / 9671406556917033397649408) * 1000000000) = Fin (- (1 / 2))"
    by (simp add: binary64_def)
  have a: "floatToQuotation (Fin (562949953139837 / 562949953421312))
     = \<lparr>units = Fin 0, nano = Some (Fin 1000000000)\<rparr>"
    using 1 2 by (simp add: floatToQuotation_def js_sub_def trunc_def Let_def)
  have b: "floatToQuotation (Fin (- (4835703278458517 / 9671406556917033397649408)))
     = \<lparr>units = Fin 0, nano = Some (Fin 0)\<rparr>"
    using 3 4 by (simp add: floatToQuotation_def js_sub_def trunc_def Let_def)
  from a b show ?thesis by simp
qed

text \<open>
  What does hold of every finite value: \<open>units\<close> is the truncation and \<open>nano\<close> is a
  whole number between \<open>-1,000,000,000\<close> and \<open>1,000,000,000\<close>, both ends included.
\<close>

lemma floatToQuotation_nano_bound:
  "\<exists>n. floatToQuotation (Fin x) = \<lparr>units = Fin (of_int (trunc x)), nano = Some (Fin (of_int n))\<rparr> \<and>
       - 1000000000 \<le> n \<and> n \<le> 1000000000"
proof -
  define u where "u = real_of_int (trunc x)"
  define d where "d = nearest (x - u)"
  define p where "p = nearest (d * 1000000000)"
  have a: "\<bar>x - u\<bar> < 1" unfolding u_def by (rule trunc_fraction)
  have d: "\<bar>d\<bar> \<le> 1" unfolding d_def using nearest_within [of "x - u" 1] a by simp
  have b: "\<bar>d * 1000000000\<bar> \<le> 1000000000" using d by (simp add: abs_mult)
  have p: "\<bar>p\<bar> \<le> 1000000000"
    unfolding p_def using nearest_within [of "d * 1000000000" 1000000000] b by simp
  have n: "- 1000000000 \<le> \<lfloor>p + 1 / 2\<rfloor> \<and> \<lfloor>p + 1 / 2\<rfloor> \<le> 1000000000"
    using p by (auto simp: le_floor_iff floor_le_iff abs_if split: if_splits)
  have 1: "binary64 (x - u) = Fin d"
    using d by (simp add: d_def binary64_Fin)
  have 2: "binary64 (d * 1000000000) = Fin p"
    using p by (simp add: p_def binary64_Fin)
  have "floatToQuotation (Fin x) = \<lparr>units = Fin u, nano = Some (Fin (real_of_int \<lfloor>p + 1 / 2\<rfloor>))\<rparr>"
    by (simp add: floatToQuotation_def Let_def js_sub_def u_def [symmetric] 1 2)
  with n show ?thesis unfolding u_def by blast
qed

text \<open>The fallback price lies in \<open>[190, 192]\<close> when \<^verbatim>\<open>Math.random()\<close> lies in \<open>[0, 1)\<close>.\<close>

lemma mock_price_range:
  assumes "0 \<le> math_random e" and "math_random e < 1"
  shows "pd_isMock (mock_price e k t) \<and>
         (\<exists>x. pd_price (mock_price e k t) = Fin x \<and> 190 \<le> x \<and> x \<le> 192)"
proof -
  define y where "y = nearest (math_random e * 2)"
  define z where "z = nearest (190 + y)"
  have y: "0 \<le> y \<and> y \<le> 2"
    unfolding y_def
    using nearest_between [of 0 2 "math_random e * 2"] double_of_int [of 0] double_of_int [of 2] assms
    by simp
  have z: "190 \<le> z \<and> z \<le> 192"
    unfolding z_def
    using nearest_between [of 190 192 "190 + y"] double_of_int [of 190] double_of_int [of 192] y
    by simp
  have 1: "binary64 (math_random e * 2) = Fin y"
    unfolding y_def using y by (intro binary64_Fin) (simp add: y_def abs_if)
  have 2: "binary64 (190 + y) = Fin z"
    unfolding z_def using z by (intro binary64_Fin) (simp add: z_def abs_if)
  from z show ?thesis by (simp add: mock_price_def 1 2)
qed

section \<open>What the helpers send and when they fail\<close>

lemma sent_send: "sent (send c s) = sent s @ [c]"
  by (simp add: send_def)

lemma issued_self: "issued s s = []"
  by (simp add: issued_def)

lemma issued_append: "sent s' = sent s @ cs \<Longrightarrow> issued s s' = cs"
  by (simp add: issued_def)

lemma thrown_Some_iff: "thrown r = Some err \<longleftrightarrow> tinkoffRequest r = Inl err"
  by (simp add: thrown_def split: sum.splits)

lemma thrown_None_iff: "thrown r = None \<longleftrightarrow> (\<exists>v. tinkoffRequest r = Inr v)"
  by (simp add: thrown_def split: sum.splits)

lemma thrown_sdk_Some_iff: "thrown_sdk r = Some err \<longleftrightarrow> r = Inl err"
  by (cases r) auto

lemma thrown_sdk_None_iff: "thrown_sdk r = None \<longleftrightarrow> (\<exists>v. r = Inr v)"
  by (cases r) auto

lemma show_nat_nonempty: "show_nat n \<noteq> []"
  by (subst show_nat.simps) simp

lemma thrown_wordless:
  assumes "thrown r = Some err"
  shows "message err = [] \<longleftrightarrow> wordless r"
proof (cases r)
  case (NetworkError m)
  with assms show ?thesis by (auto simp: thrown_def)
next
  case (HttpReply st body)
  with assms show ?thesis
    by (cases body) (auto simp: thrown_def show_nat_nonempty split: if_splits)
qed

lemma thrown_deno_wordless:
  assumes "thrown_deno up c = Some err"
  shows "message err = [] \<longleftrightarrow> wordless_deno up c"
  using assms by (cases c) (auto dest: thrown_wordless)

lemma thrown_express_wordless:
  assumes "thrown_express api c = Some err"
  shows "message err = [] \<longleftrightarrow> wordless_express api c"
  using assms by (simp add: wordless_express_def)

lemma NOT_PRIMITIVE_nonempty: "NOT_PRIMITIVE \<noteq> []"
  by (simp add: NOT_PRIMITIVE_def)

lemma labelled_nonempty: "prefix \<noteq> [] \<Longrightarrow> message (labelled e prefix v) \<noteq> []"
  by (simp add: labelled_def NOT_PRIMITIVE_def split: option.splits)

lemma logged_nonempty: "message err \<noteq> [] \<Longrightarrow> message (logged e k err) \<noteq> []"
  by (simp add: logged_def NOT_PRIMITIVE_def split: option.splits)


lemma logged_text: "toText e k \<noteq> None \<Longrightarrow> logged e k err = err"
  by (auto simp: logged_def)

lemma logged_string [simp]: "logged e (JStr t) err = err"
  by (simp add: logged_def)

text \<open>
  The four ways \<^verbatim>\<open>getFigiForTicker\<close> of \<^verbatim>\<open>part_000\<close> ends: the ticker is stored; the
  search fails; the search returns and no instrument matches; one matches.
\<close>

lemma getFigi_deno_cases [case_names hit thrown absent found]:
  obtains
    (hit) f where "map_has (tickerFigiMap s) k"
      and "getFigiForTicker_deno up e k s = (Inr f, s)"
  | (thrown) err where "\<not> map_has (tickerFigiMap s) k"
      and "thrown (findInstrument up k) = Some err"
      and "getFigiForTicker_deno up e k s = (Inl (logged e k err), send (FindInstrument k) s)"
  | (absent) err where "\<not> map_has (tickerFigiMap s) k"
      and "thrown (findInstrument up k) = None" and "message err \<noteq> []"
      and "getFigiForTicker_deno up e k s = (Inl err, send (FindInstrument k) s)"
  | (found) instruments inst where "\<not> map_has (tickerFigiMap s) k"
      and "tinkoffRequest (findInstrument up k) = Inr (Some instruments)"
      and "find (\<lambda>inst. JStr (inst_ticker inst) = k) instruments = Some inst"
      and "getFigiForTicker_deno up e k s
             = (Inr (inst_figi inst),
                (send (FindInstrument k) s)\<lparr>tickerFigiMap := map_set (tickerFigiMap s) k (inst_figi inst)\<rparr>)"
proof (cases "map_has (tickerFigiMap s) k")
  case True
  then show ?thesis by (intro hit) (simp_all add: getFigiForTicker_deno_def)
next
  case miss: False
  show ?thesis
  proof (cases "tinkoffRequest (findInstrument up k)")
    case (Inl err)
    with miss show ?thesis
      by (intro thrown [of err]) (simp_all add: getFigiForTicker_deno_def Let_def thrown_Some_iff)
  next
    case r: (Inr v)
    show ?thesis
    proof (cases v)
      case None
      with miss r show ?thesis
        by (intro absent [of "logged e k (Error ''Cannot read properties of undefined (reading 'find')'')"])
          (simp_all add: getFigiForTicker_deno_def Let_def thrown_None_iff logged_nonempty)
    next
      case (Some instruments)
      show ?thesis
      proof (cases "find (\<lambda>inst. JStr (inst_ticker inst) = k) instruments")
        case None
        with miss r Some show ?thesis
          by (intro absent [of "logged e k (labelled e ''Instrument not found for ticker: '' k)"])
            (simp_all add: getFigiForTicker_deno_def Let_def thrown_None_iff logged_nonempty
              labelled_nonempty)
      next
        case (Some inst)
        with miss r \<open>v = Some instruments\<close> show ?thesis
          by (intro found [of instruments inst])
            (simp_all add: getFigiForTicker_deno_def Let_def send_def)
      qed
    qed
  qed
qed

lemma getAccountId_deno_cases [case_names hit thrown absent found]:
  obtains
    (hit) a where "cached_account s"
      and "getAccountId_deno up s = (Inr a, s)"
  | (thrown) err where "\<not> cached_account s"
      and "thrown (getAccounts up) = Some err"
      and "getAccountId_deno up s = (Inl err, send GetAccounts s)"
  | (absent) err where "\<not> cached_account s"
      and "thrown (getAccounts up) = None" and "message err \<noteq> []"
      and "getAccountId_deno up s = (Inl err, send GetAccounts s)"
  | (found) acc others where "\<not> cached_account s"
      and "tinkoffRequest (getAccounts up) = Inr (Some (acc # others))"
      and "getAccountId_deno up s
             = (Inr (acc_id acc), (send GetAccounts s)\<lparr>cachedAccountId := Some (acc_id acc)\<rparr>)"
proof (cases "cached_account s")
  case True
  then show ?thesis by (intro hit) (simp_all add: getAccountId_deno_def)
next
  case miss: False
  show ?thesis
  proof (cases "tinkoffRequest (getAccounts up)")
    case (Inl err)
    with miss show ?thesis
      by (intro thrown [of err]) (simp_all add: getAccountId_deno_def Let_def thrown_Some_iff)
  next
    case r: (Inr v)
    show ?thesis
    proof (cases "\<exists>acc others. v = Some (acc # others)")
      case False
      with miss r show ?thesis
        by (intro absent [of "Error ''No accounts found''"])
          (auto simp: getAccountId_deno_def Let_def thrown_None_iff split: option.splits list.splits)
    next
      case True
      then obtain acc others where "v = Some (acc # others)" by blast
      with miss r show ?thesis
        by (intro found [of acc others]) (simp_all add: getAccountId_deno_def Let_def send_def)
    qed
  qed
qed

lemma getFigi_express_cases [case_names hit thrown absent found]:
  obtains
    (hit) f where "map_has (tickerFigiMap s) k"
      and "getFigiForTicker_express api e k s = (Inr f, s)"
  | (thrown) err where "\<not> map_has (tickerFigiMap s) k"
      and "sdk_findInstrument api k = Inl err"
      and "getFigiForTicker_express api e k s = (Inl (logged e k err), send (FindInstrument k) s)"
  | (absent) err where "\<not> map_has (tickerFigiMap s) k"
      and "thrown_sdk (sdk_findInstrument api k) = None" and "message err \<noteq> []"
      and "getFigiForTicker_express api e k s = (Inl err, send (FindInstrument k) s)"
  | (found) instruments inst where "\<not> map_has (tickerFigiMap s) k"
      and "sdk_findInstrument api k = Inr (Some instruments)"
      and "find (\<lambda>inst. JStr (inst_ticker inst) = k \<and> inst_type inst = ''etf'') instruments = Some inst"
      and "getFigiForTicker_express api e k s
             = (Inr (inst_figi inst),
                (send (FindInstrument k) s)\<lparr>tickerFigiMap := map_set (tickerFigiMap s) k (inst_figi inst)\<rparr>)"
proof (cases "map_has (tickerFigiMap s) k")
  case True
  then show ?thesis by (intro hit) (simp_all add: getFigiForTicker_express_def)
next
  case miss: False
  show ?thesis
  proof (cases "sdk_findInstrument api k")
    case (Inl err)
    with miss show ?thesis
      by (intro thrown [of err]) (simp_all add: getFigiForTicker_express_def Let_def)
  next
    case r: (Inr v)
    show ?thesis
    proof (cases v)
      case None
      with miss r show ?thesis
        by (intro absent [of "logged e k (Error ''Cannot read properties of undefined (reading 'find')'')"])
          (simp_all add: getFigiForTicker_express_def Let_def logged_nonempty)
    next
      case (Some instruments)
      show ?thesis
      proof (cases "find (\<lambda>inst. JStr (inst_ticker inst) = k \<and> inst_type inst = ''etf'') instruments")
        case None
        with miss r Some show ?thesis
          by (intro absent [of "logged e k (labelled e ''FIGI not found for ticker: '' k)"])
            (simp_all add: getFigiForTicker_express_def Let_def logged_nonempty labelled_nonempty)
      next
        case (Some inst)
        with miss r \<open>v = Some instruments\<close> show ?thesis
          by (intro found [of instruments inst])
            (simp_all add: getFigiForTicker_express_def Let_def send_def)
      qed
    qed
  qed
qed

lemma getAccountId_express_cases [case_names hit thrown absent found]:
  obtains
    (hit) a where "cached_account s"
      and "getAccountId_express api e s = (Inr a, s)"
  | (thrown) err where "\<not> cached_account s"
      and "sdk_getAccounts api = Inl err"
      and "getAccountId_express api e s = (Inl err, send GetAccounts s)"
  | (absent) err where "\<not> cached_account s"
      and "thrown_sdk (sdk_getAccounts api) = None" and "message err \<noteq> []"
      and "getAccountId_express api e s = (Inl err, send GetAccounts s)"
  | (found) accounts mainAccount where "\<not> cached_account s"
      and "sdk_getAccounts api = Inr (Some accounts)"
      and "find (main_account e) accounts = Some mainAccount"
      and "getAccountId_express api e s
             = (Inr (acc_id mainAccount),
                (send GetAccounts s)\<lparr>cachedAccountId := Some (acc_id mainAccount)\<rparr>)"
proof (cases "cached_account s")
  case True
  then show ?thesis by (intro hit) (simp_all add: getAccountId_express_def)
next
  case miss: False
  show ?thesis
  proof (cases "sdk_getAccounts api")
    case (Inl err)
    with miss show ?thesis
      by (intro thrown [of err]) (simp_all add: getAccountId_express_def Let_def)
  next
    case r: (Inr v)
    show ?thesis
    proof (cases v)
      case None
      with miss r show ?thesis
        by (intro absent [of "Error ''Cannot read properties of undefined (reading 'find')''"])
          (simp_all add: getAccountId_express_def Let_def)
    next
      case (Some accounts)
      show ?thesis
      proof (cases "find (main_account e) accounts")
        case None
        with miss r Some show ?thesis
          by (intro absent [of "Error ''No suitable investment account found.''"])
            (simp_all add: getAccountId_express_def Let_def)
      next
        case (Some mainAccount)
        with miss r \<open>v = Some accounts\<close> show ?thesis
          by (intro found [of accounts mainAccount])
            (simp_all add: getAccountId_express_def Let_def send_def)
      qed
    qed
  qed
qed

text \<open>The six ways \<^verbatim>\<open>placeLimitOrder\<close> of \<^verbatim>\<open>main.js\<close> ends.\<close>

lemma placeLimitOrder_cases
  [case_names find_thrown find_absent account_thrown account_absent unconverted posted]:
  obtains
    (find_thrown) err where "thrown (findInstrument up k) = Some err"
      and "placeLimitOrder up e k q p d s = (Inl err, send (FindInstrument k) s)"
  | (find_absent) err where "thrown (findInstrument up k) = None" and "message err \<noteq> []"
      and "\<nexists>i rest. tinkoffRequest (findInstrument up k) = Inr (Some (i # rest))"
      and "placeLimitOrder up e k q p d s = (Inl err, send (FindInstrument k) s)"
  | (account_thrown) i rest err where "tinkoffRequest (findInstrument up k) = Inr (Some (i # rest))"
      and "thrown (getAccounts up) = Some err"
      and "placeLimitOrder up e k q p d s = (Inl err, send GetAccounts (send (FindInstrument k) s))"
  | (account_absent) i rest err where "tinkoffRequest (findInstrument up k) = Inr (Some (i # rest))"
      and "thrown (getAccounts up) = None" and "message err \<noteq> []"
      and "\<nexists>acc others. tinkoffRequest (getAccounts up) = Inr (Some (acc # others))"
      and "placeLimitOrder up e k q p d s = (Inl err, send GetAccounts (send (FindInstrument k) s))"
  | (unconverted) i rest acc others where "tinkoffRequest (findInstrument up k) = Inr (Some (i # rest))"
      and "tinkoffRequest (getAccounts up) = Inr (Some (acc # others))"
      and "parseInt e q = None \<or> parseFloat e p = None"
      and "placeLimitOrder up e k q p d s
             = (Inl (Error NOT_PRIMITIVE), send GetAccounts (send (FindInstrument k) s))"
  | (posted) i rest acc others q' p' where "tinkoffRequest (findInstrument up k) = Inr (Some (i # rest))"
      and "tinkoffRequest (getAccounts up) = Inr (Some (acc # others))"
      and "parseInt e q = Some q'" and "parseFloat e p = Some p'"
      and "placeLimitOrder up e k q p d s
             = (tinkoffRequest (postOrder up
                  \<lparr>o_figi = inst_figi i, o_quantity = JNum q', o_price = floatToQuotation p',
                   o_direction = (if d = JStr ''buy'' then ORDER_DIRECTION_BUY else ORDER_DIRECTION_SELL),
                   o_accountId = acc_id acc, o_orderId = new_orderId e\<rparr>),
                send (PostOrder
                  \<lparr>o_figi = inst_figi i, o_quantity = JNum q', o_price = floatToQuotation p',
                   o_direction = (if d = JStr ''buy'' then ORDER_DIRECTION_BUY else ORDER_DIRECTION_SELL),
                   o_accountId = acc_id acc, o_orderId = new_orderId e\<rparr>)
                  (send GetAccounts (send (FindInstrument k) s)))"
proof (cases "tinkoffRequest (findInstrument up k)")
  case (Inl err)
  then show ?thesis
    by (intro find_thrown [of err]) (simp_all add: placeLimitOrder_def Let_def thrown_Some_iff)
next
  case f: (Inr v)
  show ?thesis
  proof (cases "\<exists>i rest. v = Some (i # rest)")
    case False
    with f show ?thesis
      by (intro find_absent [of "labelled e ''Instrument not found: '' k"])
        (auto simp: placeLimitOrder_def Let_def thrown_None_iff labelled_nonempty
          split: option.splits list.splits)
  next
    case True
    then obtain i rest where v: "v = Some (i # rest)" by blast
    show ?thesis
    proof (cases "tinkoffRequest (getAccounts up)")
      case (Inl err)
      with f v show ?thesis
        by (intro account_thrown [of i rest err])
          (simp_all add: placeLimitOrder_def Let_def thrown_Some_iff)
    next
      case a: (Inr w)
      show ?thesis
      proof (cases "\<exists>acc others. w = Some (acc # others)")
        case False
        then have "w = None \<or> w = Some []"
          by (cases w; cases "the w") auto
        then consider "w = None" | "w = Some []"
          by blast
        then show ?thesis
        proof cases
          case 1
          with f v a show ?thesis
            by (intro account_absent [of i rest "Error ''Cannot read properties of undefined (reading '0')''"])
              (simp_all add: placeLimitOrder_def Let_def thrown_None_iff)
        next
          case 2
          with f v a show ?thesis
            by (intro account_absent [of i rest "Error ''Cannot read properties of undefined (reading 'id')''"])
              (simp_all add: placeLimitOrder_def Let_def thrown_None_iff)
        qed
      next
        case True
        then obtain acc others where w: "w = Some (acc # others)" by blast
        show ?thesis
        proof (cases "parseInt e q")
          case None
          with f v a w show ?thesis
            by (intro unconverted [of i rest acc others]) (simp_all add: placeLimitOrder_def Let_def)
        next
          case q': (Some q')
          show ?thesis
          proof (cases "parseFloat e p")
            case None
            with f v a w q' show ?thesis
              by (intro unconverted [of i rest acc others]) (simp_all add: placeLimitOrder_def Let_def)
          next
            case (Some p')
            with f v a w q' show ?thesis
              by (intro posted [of i rest acc others q' p'])
                (simp_all add: placeLimitOrder_def Let_def)
          qed
        qed
      qed
    qed
  qed
qed

lemma order_main_valid:
  assumes "valid_order b"
  shows "order_main up e (Inr b) s =
     (case placeLimitOrder up e (property ''ticker'' b) (property ''quantity'' b)
             (property ''price'' b) (property ''direction'' b) s of
        (Inl err, s') \<Rightarrow> (Response 500 (Failure (message err)), s')
      | (Inr result, s') \<Rightarrow> (Response 200 (Success (OrderRaw result)), s'))"
  using assms by (simp add: order_main_def valid_order_def Let_def)

lemma valid_order_reference: "valid_order b \<Longrightarrow> is_reference b"
  by (cases b) (simp_all add: valid_order_def)

text \<open>
  What the order route of \<^verbatim>\<open>part_000\<close> does with a body that passes the presence
  check, once the instrument and the account are resolved.
\<close>

lemma order_deno_resolved:
  assumes "valid_order b"
    and "getFigiForTicker_deno up e (property ''ticker'' b) s = (Inr figi, s1)"
    and "getAccountId_deno up s1 = (Inr accountId, s2)"
  shows "order_deno up e (Inr b) s =
     (case parseInt e (property ''quantity'' b) of
        None \<Rightarrow> (Response 500 (Failure NOT_PRIMITIVE), s2)
      | Some quantity' \<Rightarrow>
          (case parseFloat e (property ''price'' b) of
             None \<Rightarrow> (Response 500 (Failure NOT_PRIMITIVE), s2)
           | Some price' \<Rightarrow>
               (case direction_deno (property ''direction'' b) of
                  Inl err \<Rightarrow> (Response 500 (Failure (message err)), s2)
                | Inr dir \<Rightarrow>
                    (case tinkoffRequest (postOrder up
                            \<lparr>o_figi = figi, o_quantity = JNum quantity',
                             o_price = floatToQuotation price', o_direction = dir,
                             o_accountId = accountId, o_orderId = new_orderId e\<rparr>) of
                       Inl err \<Rightarrow>
                         (Response 500 (Failure (message err)),
                          send (PostOrder
                            \<lparr>o_figi = figi, o_quantity = JNum quantity',
                             o_price = floatToQuotation price', o_direction = dir,
                             o_accountId = accountId, o_orderId = new_orderId e\<rparr>) s2)
                     | Inr orderResponse \<Rightarrow>
                         (Response 200 (Success (OrderPlaced orderResponse)),
                          send (PostOrder
                            \<lparr>o_figi = figi, o_quantity = JNum quantity',
                             o_price = floatToQuotation price', o_direction = dir,
                             o_accountId = accountId, o_orderId = new_orderId e\<rparr>) s2)))))"
  using assms by (simp add: order_deno_def valid_order_def Let_def split: option.splits sum.splits)

lemma order_deno_figi_failed:
  assumes "valid_order b"
    and "getFigiForTicker_deno up e (property ''ticker'' b) s = (Inl err, s1)"
  shows "order_deno up e (Inr b) s = (Response 500 (Failure (message err)), s1)"
  using assms by (simp add: order_deno_def valid_order_def Let_def)

lemma order_deno_account_failed:
  assumes "valid_order b"
    and "getFigiForTicker_deno up e (property ''ticker'' b) s = (Inr figi, s1)"
    and "getAccountId_deno up s1 = (Inl err, s2)"
  shows "order_deno up e (Inr b) s = (Response 500 (Failure (message err)), s2)"
  using assms by (simp add: order_deno_def valid_order_def Let_def)

lemma order_express_resolved:
  assumes "valid_order b"
    and "getFigiForTicker_express api e (property ''ticker'' b) s = (Inr figi, s1)"
    and "getAccountId_express api e s1 = (Inr accountId, s2)"
  shows "order_express api e b s =
     (case toNumber e (property ''price'' b) of
        None \<Rightarrow> (Response 500 (Failure NOT_PRIMITIVE), s2)
      | Some price' \<Rightarrow>
          (case sdk_postOrder api
                  \<lparr>o_figi = figi, o_quantity = property ''quantity'' b,
                   o_price = floatToQuotation price',
                   o_direction = (if property ''direction'' b = JStr ''buy'' then ORDER_DIRECTION_BUY
                                  else ORDER_DIRECTION_SELL),
                   o_accountId = accountId, o_orderId = new_orderId e\<rparr> of
             Inl err \<Rightarrow>
               (Response 500 (Failure (message err)),
                send (PostOrder
                  \<lparr>o_figi = figi, o_quantity = property ''quantity'' b,
                   o_price = floatToQuotation price',
                   o_direction = (if property ''direction'' b = JStr ''buy'' then ORDER_DIRECTION_BUY
                                  else ORDER_DIRECTION_SELL),
                   o_accountId = accountId, o_orderId = new_orderId e\<rparr>) s2)
           | Inr reply \<Rightarrow>
               (Response 200 (Success (OrderPlaced reply)),
                send (PostOrder
                  \<lparr>o_figi = figi, o_quantity = property ''quantity'' b,
                   o_price = floatToQuotation price',
                   o_direction = (if property ''direction'' b = JStr ''buy'' then ORDER_DIRECTION_BUY
                                  else ORDER_DIRECTION_SELL),
                   o_accountId = accountId, o_orderId = new_orderId e\<rparr>) s2)))"
  using assms valid_order_reference [OF assms(1)]
  by (simp add: order_express_def valid_order_def Let_def split: option.splits sum.splits)

lemma order_express_figi_failed:
  assumes "valid_order b"
    and "getFigiForTicker_express api e (property ''ticker'' b) s = (Inl err, s1)"
  shows "order_express api e b s = (Response 500 (Failure (message err)), s1)"
  using assms valid_order_reference [OF assms(1)]
  by (simp add: order_express_def valid_order_def Let_def)

lemma order_express_account_failed:
  assumes "valid_order b"
    and "getFigiForTicker_express api e (property ''ticker'' b) s = (Inr figi, s1)"
    and "getAccountId_express api e s1 = (Inl err, s2)"
  shows "order_express api e b s = (Response 500 (Failure (message err)), s2)"
  using assms valid_order_reference [OF assms(1)]
  by (simp add: order_express_def valid_order_def Let_def)

text \<open>
  The ticker and the account of an order in \<^verbatim>\<open>part_000\<close>: the calls \<open>F\<close> that
  resolve the ticker and the calls \<open>A\<close> that resolve the account are none (the value is
  cached) or one, and a call that came back did not fail.
\<close>

lemma resolve_deno_cases
  [case_names figi_thrown figi_absent account_thrown account_absent resolved]:
  obtains
    (figi_thrown) err where "thrown (findInstrument up k) = Some err"
      and "getFigiForTicker_deno up e k s = (Inl (logged e k err), send (FindInstrument k) s)"
  | (figi_absent) err where "thrown (findInstrument up k) = None" and "message err \<noteq> []"
      and "getFigiForTicker_deno up e k s = (Inl err, send (FindInstrument k) s)"
  | (account_thrown) F figi s1 err where "getFigiForTicker_deno up e k s = (Inr figi, s1)"
      and "sent s1 = sent s @ F" and "set F \<subseteq> {FindInstrument k}"
      and "\<forall>c \<in> set F. thrown_deno up c = None"
      and "thrown (getAccounts up) = Some err"
      and "getAccountId_deno up s1 = (Inl err, send GetAccounts s1)"
  | (account_absent) F figi s1 err where "getFigiForTicker_deno up e k s = (Inr figi, s1)"
      and "sent s1 = sent s @ F" and "set F \<subseteq> {FindInstrument k}"
      and "\<forall>c \<in> set F. thrown_deno up c = None"
      and "thrown (getAccounts up) = None" and "message err \<noteq> []"
      and "getAccountId_deno up s1 = (Inl err, send GetAccounts s1)"
  | (resolved) F A figi s1 accountId s2 where "getFigiForTicker_deno up e k s = (Inr figi, s1)"
      and "getAccountId_deno up s1 = (Inr accountId, s2)"
      and "sent s2 = sent s @ F @ A" and "set F \<subseteq> {FindInstrument k}" and "set A \<subseteq> {GetAccounts}"
      and "\<forall>c \<in> set (F @ A). thrown_deno up c = None"
proof -
  have step: thesis
    if g: "getFigiForTicker_deno up e k s = (Inr figi, s1)" and F: "sent s1 = sent s @ F"
      and sub: "set F \<subseteq> {FindInstrument k}" and ok: "\<forall>c \<in> set F. thrown_deno up c = None"
    for figi s1 F
  proof (cases rule: getAccountId_deno_cases [of s1 up])
    case (hit a)
    from g hit(2) F sub ok show ?thesis
      by (intro resolved [of figi s1 a s1 F "[]"]) simp_all
  next
    case (thrown err)
    from g F sub ok thrown(2,3) show ?thesis
      by (intro account_thrown [of figi s1 F err]) simp_all
  next
    case (absent err)
    from g F sub ok absent(2,3,4) show ?thesis
      by (intro account_absent [of figi s1 F err]) simp_all
  next
    case (found acc others)
    from g found(3) F sub ok found(2) show ?thesis
      by (intro resolved [of figi s1 "acc_id acc"
            "(send GetAccounts s1)\<lparr>cachedAccountId := Some (acc_id acc)\<rparr>" F "[GetAccounts]"])
        (simp_all add: send_def thrown_None_iff)
  qed
  show ?thesis
  proof (cases rule: getFigi_deno_cases [of s k up e])
    case (hit f)
    from step [of f s "[]"] hit(2) show ?thesis by simp
  next
    case (thrown err)
    from figi_thrown [of err] thrown(2,3) show ?thesis by simp
  next
    case (absent err)
    from figi_absent [of err] absent(2,3,4) show ?thesis by simp
  next
    case (found instruments inst)
    from found(2) have "thrown (findInstrument up k) = None"
      by (simp add: thrown_None_iff)
    with step [of "inst_figi inst"
        "(send (FindInstrument k) s)\<lparr>tickerFigiMap := map_set (tickerFigiMap s) k (inst_figi inst)\<rparr>"
        "[FindInstrument k]"] found(4)
    show ?thesis by (simp add: send_def)
  qed
qed

lemma resolve_express_cases
  [case_names figi_thrown figi_absent account_thrown account_absent resolved]:
  obtains
    (figi_thrown) err where "sdk_findInstrument api k = Inl err"
      and "getFigiForTicker_express api e k s = (Inl (logged e k err), send (FindInstrument k) s)"
  | (figi_absent) err where "thrown_sdk (sdk_findInstrument api k) = None" and "message err \<noteq> []"
      and "getFigiForTicker_express api e k s = (Inl err, send (FindInstrument k) s)"
  | (account_thrown) F figi s1 err where "getFigiForTicker_express api e k s = (Inr figi, s1)"
      and "sent s1 = sent s @ F" and "set F \<subseteq> {FindInstrument k}"
      and "\<forall>c \<in> set F. thrown_express api c = None"
      and "sdk_getAccounts api = Inl err"
      and "getAccountId_express api e s1 = (Inl err, send GetAccounts s1)"
  | (account_absent) F figi s1 err where "getFigiForTicker_express api e k s = (Inr figi, s1)"
      and "sent s1 = sent s @ F" and "set F \<subseteq> {FindInstrument k}"
      and "\<forall>c \<in> set F. thrown_express api c = None"
      and "thrown_sdk (sdk_getAccounts api) = None" and "message err \<noteq> []"
      and "getAccountId_express api e s1 = (Inl err, send GetAccounts s1)"
  | (resolved) F A figi s1 accountId s2 where "getFigiForTicker_express api e k s = (Inr figi, s1)"
      and "getAccountId_express api e s1 = (Inr accountId, s2)"
      and "sent s2 = sent s @ F @ A" and "set F \<subseteq> {FindInstrument k}" and "set A \<subseteq> {GetAccounts}"
      and "\<forall>c \<in> set (F @ A). thrown_express api c = None"
proof -
  have step: thesis
    if g: "getFigiForTicker_express api e k s = (Inr figi, s1)" and F: "sent s1 = sent s @ F"
      and sub: "set F \<subseteq> {FindInstrument k}" and ok: "\<forall>c \<in> set F. thrown_express api c = None"
    for figi s1 F
  proof (cases rule: getAccountId_express_cases [of s1 api e])
    case (hit a)
    from g hit(2) F sub ok show ?thesis
      by (intro resolved [of figi s1 a s1 F "[]"]) simp_all
  next
    case (thrown err)
    from g F sub ok thrown(2,3) show ?thesis
      by (intro account_thrown [of figi s1 F err]) simp_all
  next
    case (absent err)
    from g F sub ok absent(2,3,4) show ?thesis
      by (intro account_absent [of figi s1 F err]) simp_all
  next
    case (found accounts mainAccount)
    from g found(4) F sub ok found(2) show ?thesis
      by (intro resolved [of figi s1 "acc_id mainAccount"
            "(send GetAccounts s1)\<lparr>cachedAccountId := Some (acc_id mainAccount)\<rparr>" F "[GetAccounts]"])
        (simp_all add: send_def)
  qed
  show ?thesis
  proof (cases rule: getFigi_express_cases [of s k api e])
    case (hit f)
    from step [of f s "[]"] hit(2) show ?thesis by simp
  next
    case (thrown err)
    from figi_thrown [of err] thrown(2,3) show ?thesis by simp
  next
    case (absent err)
    from figi_absent [of err] absent(2,3,4) show ?thesis by simp
  next
    case (found instruments inst)
    with step [of "inst_figi inst"
        "(send (FindInstrument k) s)\<lparr>tickerFigiMap := map_set (tickerFigiMap s) k (inst_figi inst)\<rparr>"
        "[FindInstrument k]"]
    show ?thesis by (simp add: send_def)
  qed
qed

text \<open>
  What follows in \<^verbatim>\<open>part_000\<close> once both are resolved: a conversion or
  \<^verbatim>\<open>direction.toLowerCase()\<close> throws and nothing is posted, or the order is posted
  and the call fails or returns.
\<close>

lemma order_deno_tail:
  assumes "valid_order b"
    and "getFigiForTicker_deno up e (property ''ticker'' b) s = (Inr figi, s1)"
    and "getAccountId_deno up s1 = (Inr accountId, s2)"
  obtains
    (unposted) m where "m \<noteq> []"
      and "parseInt e (property ''quantity'' b) = None \<or> parseFloat e (property ''price'' b) = None
           \<or> (\<forall>y. property ''direction'' b \<noteq> JStr y)"
      and "order_deno up e (Inr b) s = (Response 500 (Failure m), s2)"
  | (post_thrown) q' p' y ord err where "parseInt e (property ''quantity'' b) = Some q'"
      and "parseFloat e (property ''price'' b) = Some p'"
      and "property ''direction'' b = JStr y"
      and "ord = \<lparr>o_figi = figi, o_quantity = JNum q', o_price = floatToQuotation p',
                  o_direction = (if toLowerCase y = ''buy'' then ORDER_DIRECTION_BUY
                                 else ORDER_DIRECTION_SELL),
                  o_accountId = accountId, o_orderId = new_orderId e\<rparr>"
      and "thrown (postOrder up ord) = Some err"
      and "order_deno up e (Inr b) s = (Response 500 (Failure (message err)), send (PostOrder ord) s2)"
  | (post_ok) q' p' y ord reply where "parseInt e (property ''quantity'' b) = Some q'"
      and "parseFloat e (property ''price'' b) = Some p'"
      and "property ''direction'' b = JStr y"
      and "ord = \<lparr>o_figi = figi, o_quantity = JNum q', o_price = floatToQuotation p',
                  o_direction = (if toLowerCase y = ''buy'' then ORDER_DIRECTION_BUY
                                 else ORDER_DIRECTION_SELL),
                  o_accountId = accountId, o_orderId = new_orderId e\<rparr>"
      and "tinkoffRequest (postOrder up ord) = Inr reply"
      and "order_deno up e (Inr b) s
             = (Response 200 (Success (OrderPlaced reply)), send (PostOrder ord) s2)"
proof -
  note R = order_deno_resolved [OF assms]
  show ?thesis
  proof (cases "parseInt e (property ''quantity'' b)")
    case None
    then show ?thesis
      by (intro unposted [of NOT_PRIMITIVE]) (simp_all add: R NOT_PRIMITIVE_nonempty)
  next
    case q': (Some q')
    show ?thesis
    proof (cases "parseFloat e (property ''price'' b)")
      case None
      with q' show ?thesis
        by (intro unposted [of NOT_PRIMITIVE]) (simp_all add: R NOT_PRIMITIVE_nonempty)
    next
      case p': (Some p')
      show ?thesis
      proof (cases "\<exists>y. property ''direction'' b = JStr y")
        case False
        then have "direction_deno (property ''direction'' b)
                     = Inl (Error ''direction.toLowerCase is not a function'')"
          by (cases "property ''direction'' b") simp_all
        with q' p' False show ?thesis
          by (intro unposted [of "''direction.toLowerCase is not a function''"]) (simp_all add: R)
      next
        case True
        then obtain y where y: "property ''direction'' b = JStr y" by blast
        define ord where "ord = \<lparr>o_figi = figi, o_quantity = JNum q', o_price = floatToQuotation p',
                  o_direction = (if toLowerCase y = ''buy'' then ORDER_DIRECTION_BUY
                                 else ORDER_DIRECTION_SELL),
                  o_accountId = accountId, o_orderId = new_orderId e\<rparr>"
        show ?thesis
        proof (cases "tinkoffRequest (postOrder up ord)")
          case (Inl err)
          with q' p' y show ?thesis
            by (intro post_thrown [of q' p' y ord err])
              (simp_all add: R ord_def thrown_Some_iff split del: if_split)
        next
          case (Inr reply)
          with q' p' y show ?thesis
            by (intro post_ok [of q' p' y ord reply])
              (simp_all add: R ord_def split del: if_split)
        qed
      qed
    qed
  qed
qed

lemma order_express_tail:
  assumes "valid_order b"
    and "getFigiForTicker_express api e (property ''ticker'' b) s = (Inr figi, s1)"
    and "getAccountId_express api e s1 = (Inr accountId, s2)"
  obtains
    (unposted) "toNumber e (property ''price'' b) = None"
      and "order_express api e b s = (Response 500 (Failure NOT_PRIMITIVE), s2)"
  | (post_thrown) p' ord err where "toNumber e (property ''price'' b) = Some p'"
      and "ord = \<lparr>o_figi = figi, o_quantity = property ''quantity'' b,
                  o_price = floatToQuotation p',
                  o_direction = (if property ''direction'' b = JStr ''buy'' then ORDER_DIRECTION_BUY
                                 else ORDER_DIRECTION_SELL),
                  o_accountId = accountId, o_orderId = new_orderId e\<rparr>"
      and "sdk_postOrder api ord = Inl err"
      and "order_express api e b s = (Response 500 (Failure (message err)), send (PostOrder ord) s2)"
  | (post_ok) p' ord reply where "toNumber e (property ''price'' b) = Some p'"
      and "ord = \<lparr>o_figi = figi, o_quantity = property ''quantity'' b,
                  o_price = floatToQuotation p',
                  o_direction = (if property ''direction'' b = JStr ''buy'' then ORDER_DIRECTION_BUY
                                 else ORDER_DIRECTION_SELL),
                  o_accountId = accountId, o_orderId = new_orderId e\<rparr>"
      and "sdk_postOrder api ord = Inr reply"
      and "order_express api e b s
             = (Response 200 (Success (OrderPlaced reply)), send (PostOrder ord) s2)"
proof -
  note R = order_express_resolved [OF assms]
  show ?thesis
  proof (cases "toNumber e (property ''price'' b)")
    case None
    then show ?thesis
      by (intro unposted) (simp_all add: R)
  next
    case p': (Some p')
    define ord where "ord = \<lparr>o_figi = figi, o_quantity = property ''quantity'' b,
                  o_price = floatToQuotation p',
                  o_direction = (if property ''direction'' b = JStr ''buy'' then ORDER_DIRECTION_BUY
                                 else ORDER_DIRECTION_SELL),
                  o_accountId = accountId, o_orderId = new_orderId e\<rparr>"
    show ?thesis
    proof (cases "sdk_postOrder api ord")
      case (Inl err)
      with p' show ?thesis
        by (intro post_thrown [of p' ord err]) (simp_all add: R ord_def split del: if_split)
    next
      case (Inr reply)
      with p' show ?thesis
        by (intro post_ok [of p' ord reply]) (simp_all add: R ord_def split del: if_split)
    qed
  qed
qed

section \<open>The order route of \<^verbatim>\<open>main.js\<close>\<close>



lemma order_main_sell:
  assumes valid: "valid_order b"
  shows "(property ''direction'' b \<noteq> JStr ''buy'' \<longrightarrow>
            (PostOrder ord \<in> set (issued s (snd (order_main up e (Inr b) s))) \<longrightarrow>
               o_direction ord = ORDER_DIRECTION_SELL) \<and>
            (tinkoffRequest (findInstrument up (property ''ticker'' b)) = Inr (Some (i # rest)) \<and>
             tinkoffRequest (getAccounts up) = Inr (Some (acc # others)) \<and>
             parseInt e (property ''quantity'' b) \<noteq> None \<and>
             parseFloat e (property ''price'' b) \<noteq> None \<longrightarrow>
               (\<exists>ord'. PostOrder ord' \<in> set (issued s (snd (order_main up e (Inr b) s))) \<and>
                       o_direction ord' = ORDER_DIRECTION_SELL))) \<and>
         (parseInt e (property ''quantity'' b) = None \<or> parseFloat e (property ''price'' b) = None \<longrightarrow>
            PostOrder ord \<notin> set (issued s (snd (order_main up e (Inr b) s))) \<and>
            http_status (fst (order_main up e (Inr b) s)) = 500)"
proof (cases rule: placeLimitOrder_cases [of up "property ''ticker'' b" e "property ''quantity'' b"
      "property ''price'' b" "property ''direction'' b" s])
  case (find_thrown e1)
  then show ?thesis
    by (auto simp: order_main_valid [OF valid] issued_def sent_send thrown_def)
next
  case (find_absent e1)
  then show ?thesis
    by (auto simp: order_main_valid [OF valid] issued_def sent_send thrown_def)
next
  case (account_thrown i' rest' e1)
  then show ?thesis
    by (auto simp: order_main_valid [OF valid] issued_def sent_send thrown_def)
next
  case (account_absent i' rest' e1)
  then show ?thesis
    by (auto simp: order_main_valid [OF valid] issued_def sent_send thrown_def)
next
  case (unconverted i' rest' acc' others')
  then show ?thesis
    by (auto simp: order_main_valid [OF valid] issued_def sent_send)
next
  case (posted i' rest' acc' others' q' p')
  define ord0 where "ord0 = \<lparr>o_figi = inst_figi i', o_quantity = JNum q', o_price = floatToQuotation p',
                   o_direction = (if property ''direction'' b = JStr ''buy'' then ORDER_DIRECTION_BUY
                                  else ORDER_DIRECTION_SELL),
                   o_accountId = acc_id acc', o_orderId = new_orderId e\<rparr>"
  note p = posted(5) [folded ord0_def]
  have L: "issued s (snd (order_main up e (Inr b) s))
             = [FindInstrument (property ''ticker'' b), GetAccounts, PostOrder ord0]"
    using p by (cases "tinkoffRequest (postOrder up ord0)")
      (simp_all add: order_main_valid [OF valid] issued_def sent_send)
  have d: "o_direction ord0 = (if property ''direction'' b = JStr ''buy'' then ORDER_DIRECTION_BUY
                                  else ORDER_DIRECTION_SELL)"
    by (simp add: ord0_def)
  from L d posted(3,4) show ?thesis by auto
qed

section \<open>The order route of \<^verbatim>\<open>part_000\<close>\<close>

text \<open>
  The answer and the calls of the route for a body that passes the presence check, in
  each of the ways it ends.
\<close>

lemma order_deno_cases:
  assumes valid: "valid_order b"
  obtains
    (figi_thrown) err where "thrown (findInstrument up (property ''ticker'' b)) = Some err"
      and "fst (order_deno up e (Inr b) s)
             = Response 500 (Failure (message (logged e (property ''ticker'' b) err)))"
      and "issued s (snd (order_deno up e (Inr b) s)) = [FindInstrument (property ''ticker'' b)]"
      and "isl (fst (getFigiForTicker_deno up e (property ''ticker'' b) s))"
  | (figi_absent) m where "thrown (findInstrument up (property ''ticker'' b)) = None" and "m \<noteq> []"
      and "fst (order_deno up e (Inr b) s) = Response 500 (Failure m)"
      and "issued s (snd (order_deno up e (Inr b) s)) = [FindInstrument (property ''ticker'' b)]"
      and "isl (fst (getFigiForTicker_deno up e (property ''ticker'' b) s))"
  | (account_thrown) F err where "set F \<subseteq> {FindInstrument (property ''ticker'' b)}"
      and "\<forall>c \<in> set F. thrown_deno up c = None"
      and "thrown (getAccounts up) = Some err"
      and "fst (order_deno up e (Inr b) s) = Response 500 (Failure (message err))"
      and "issued s (snd (order_deno up e (Inr b) s)) = F @ [GetAccounts]"
      and "isl (fst (getAccountId_deno up (snd (getFigiForTicker_deno up e (property ''ticker'' b) s))))"
  | (account_absent) F m where "set F \<subseteq> {FindInstrument (property ''ticker'' b)}"
      and "\<forall>c \<in> set F. thrown_deno up c = None"
      and "thrown (getAccounts up) = None" and "m \<noteq> []"
      and "fst (order_deno up e (Inr b) s) = Response 500 (Failure m)"
      and "issued s (snd (order_deno up e (Inr b) s)) = F @ [GetAccounts]"
      and "isl (fst (getAccountId_deno up (snd (getFigiForTicker_deno up e (property ''ticker'' b) s))))"
  | (unposted) F A m where "set F \<subseteq> {FindInstrument (property ''ticker'' b)}"
      and "set A \<subseteq> {GetAccounts}"
      and "\<forall>c \<in> set (F @ A). thrown_deno up c = None"
      and "parseInt e (property ''quantity'' b) = None \<or> parseFloat e (property ''price'' b) = None
           \<or> (\<forall>y. property ''direction'' b \<noteq> JStr y)"
      and "m \<noteq> []"
      and "fst (order_deno up e (Inr b) s) = Response 500 (Failure m)"
      and "issued s (snd (order_deno up e (Inr b) s)) = F @ A"
  | (post_thrown) F A y ord err where "set F \<subseteq> {FindInstrument (property ''ticker'' b)}"
      and "set A \<subseteq> {GetAccounts}"
      and "\<forall>c \<in> set (F @ A). thrown_deno up c = None"
      and "parseInt e (property ''quantity'' b) \<noteq> None" and "parseFloat e (property ''price'' b) \<noteq> None"
      and "property ''direction'' b = JStr y"
      and "o_direction ord = (if toLowerCase y = ''buy'' then ORDER_DIRECTION_BUY else ORDER_DIRECTION_SELL)"
      and "thrown (postOrder up ord) = Some err"
      and "fst (order_deno up e (Inr b) s) = Response 500 (Failure (message err))"
      and "issued s (snd (order_deno up e (Inr b) s)) = F @ A @ [PostOrder ord]"
  | (post_ok) F A y ord reply where "set F \<subseteq> {FindInstrument (property ''ticker'' b)}"
      and "set A \<subseteq> {GetAccounts}"
      and "\<forall>c \<in> set (F @ A). thrown_deno up c = None"
      and "parseInt e (property ''quantity'' b) \<noteq> None" and "parseFloat e (property ''price'' b) \<noteq> None"
      and "property ''direction'' b = JStr y"
      and "o_direction ord = (if toLowerCase y = ''buy'' then ORDER_DIRECTION_BUY else ORDER_DIRECTION_SELL)"
      and "tinkoffRequest (postOrder up ord) = Inr reply"
      and "fst (order_deno up e (Inr b) s) = Response 200 (Success (OrderPlaced reply))"
      and "issued s (snd (order_deno up e (Inr b) s)) = F @ A @ [PostOrder ord]"
proof (cases rule: resolve_deno_cases [of up "property ''ticker'' b" e s])
  case (figi_thrown err)
  note R = order_deno_figi_failed [OF valid figi_thrown(2)]
  from figi_thrown(1,2) show ?thesis
    by (intro that(1) [of err]) (simp_all add: R issued_def sent_send)
next
  case (figi_absent err)
  note R = order_deno_figi_failed [OF valid figi_absent(3)]
  from figi_absent show ?thesis
    by (intro that(2) [of "message err"]) (simp_all add: R issued_def sent_send)
next
  case (account_thrown F figi s1 err)
  note R = order_deno_account_failed [OF valid account_thrown(1,6)]
  from account_thrown show ?thesis
    by (intro that(3) [of F err]) (simp_all add: R issued_def sent_send)
next
  case (account_absent F figi s1 err)
  note R = order_deno_account_failed [OF valid account_absent(1,7)]
  from account_absent show ?thesis
    by (intro that(4) [of F "message err"]) (simp_all add: R issued_def sent_send)
next
  case (resolved F A figi s1 accountId s2)
  from valid resolved(1,2) show ?thesis
  proof (cases rule: order_deno_tail)
    case (unposted m)
    with resolved(3-6) show ?thesis
      by (intro that(5) [of F A m]) (simp_all add: issued_def)
  next
    case (post_thrown q' p' y ord err)
    with resolved(3-6) show ?thesis
      by (intro that(6) [of F A y ord err]) (simp_all add: issued_def sent_send)
  next
    case (post_ok q' p' y ord reply)
    with resolved(3-6) show ?thesis
      by (intro that(7) [of F A y ord reply]) (simp_all add: issued_def sent_send)
  qed
qed



lemma order_deno_sell:
  assumes valid: "valid_order b"
  shows "(property ''direction'' b = JStr x \<and> toLowerCase x \<noteq> ''buy'' \<longrightarrow>
            (PostOrder ord \<in> set (issued t (snd (order_deno up e (Inr b) t))) \<longrightarrow>
               o_direction ord = ORDER_DIRECTION_SELL) \<and>
            (getFigiForTicker_deno up e (property ''ticker'' b) t = (Inr figi, ta) \<and>
             getAccountId_deno up ta = (Inr accountId, tb) \<and>
             parseInt e (property ''quantity'' b) \<noteq> None \<and>
             parseFloat e (property ''price'' b) \<noteq> None \<longrightarrow>
               (\<exists>ord'. PostOrder ord' \<in> set (issued t (snd (order_deno up e (Inr b) t))) \<and>
                       o_direction ord' = ORDER_DIRECTION_SELL))) \<and>
         ((\<forall>y. property ''direction'' b \<noteq> JStr y) \<or>
          parseInt e (property ''quantity'' b) = None \<or> parseFloat e (property ''price'' b) = None \<longrightarrow>
            PostOrder ord \<notin> set (issued t (snd (order_deno up e (Inr b) t))) \<and>
            http_status (fst (order_deno up e (Inr b) t)) = 500)"
  using valid
  by (cases rule: order_deno_cases [where up = up and e = e and s = t]) auto

section \<open>The order route of \<^verbatim>\<open>part_001\<close>\<close>

lemma order_express_cases:
  assumes valid: "valid_order b"
  obtains
    (figi_thrown) err where "sdk_findInstrument api (property ''ticker'' b) = Inl err"
      and "fst (order_express api e b s)
             = Response 500 (Failure (message (logged e (property ''ticker'' b) err)))"
      and "issued s (snd (order_express api e b s)) = [FindInstrument (property ''ticker'' b)]"
      and "isl (fst (getFigiForTicker_express api e (property ''ticker'' b) s))"
  | (figi_absent) m where "thrown_sdk (sdk_findInstrument api (property ''ticker'' b)) = None"
      and "m \<noteq> []"
      and "fst (order_express api e b s) = Response 500 (Failure m)"
      and "issued s (snd (order_express api e b s)) = [FindInstrument (property ''ticker'' b)]"
      and "isl (fst (getFigiForTicker_express api e (property ''ticker'' b) s))"
  | (account_thrown) F err where "set F \<subseteq> {FindInstrument (property ''ticker'' b)}"
      and "\<forall>c \<in> set F. thrown_express api c = None"
      and "sdk_getAccounts api = Inl err"
      and "fst (order_express api e b s) = Response 500 (Failure (message err))"
      and "issued s (snd (order_express api e b s)) = F @ [GetAccounts]"
      and "isl (fst (getAccountId_express api e
                  (snd (getFigiForTicker_express api e (property ''ticker'' b) s))))"
  | (account_absent) F m where "set F \<subseteq> {FindInstrument (property ''ticker'' b)}"
      and "\<forall>c \<in> set F. thrown_express api c = None"
      and "thrown_sdk (sdk_getAccounts api) = None" and "m \<noteq> []"
      and "fst (order_express api e b s) = Response 500 (Failure m)"
      and "issued s (snd (order_express api e b s)) = F @ [GetAccounts]"
      and "isl (fst (getAccountId_express api e
                  (snd (getFigiForTicker_express api e (property ''ticker'' b) s))))"
  | (unposted) F A where "set F \<subseteq> {FindInstrument (property ''ticker'' b)}"
      and "set A \<subseteq> {GetAccounts}"
      and "\<forall>c \<in> set (F @ A). thrown_express api c = None"
      and "toNumber e (property ''price'' b) = None"
      and "fst (order_express api e b s) = Response 500 (Failure NOT_PRIMITIVE)"
      and "issued s (snd (order_express api e b s)) = F @ A"
  | (post_thrown) F A ord err where "set F \<subseteq> {FindInstrument (property ''ticker'' b)}"
      and "set A \<subseteq> {GetAccounts}"
      and "\<forall>c \<in> set (F @ A). thrown_express api c = None"
      and "toNumber e (property ''price'' b) \<noteq> None"
      and "o_direction ord = (if property ''direction'' b = JStr ''buy'' then ORDER_DIRECTION_BUY
                              else ORDER_DIRECTION_SELL)"
      and "sdk_postOrder api ord = Inl err"
      and "fst (order_express api e b s) = Response 500 (Failure (message err))"
      and "issued s (snd (order_express api e b s)) = F @ A @ [PostOrder ord]"
  | (post_ok) F A ord reply where "set F \<subseteq> {FindInstrument (property ''ticker'' b)}"
      and "set A \<subseteq> {GetAccounts}"
      and "\<forall>c \<in> set (F @ A). thrown_express api c = None"
      and "toNumber e (property ''price'' b) \<noteq> None"
      and "o_direction ord = (if property ''direction'' b = JStr ''buy'' then ORDER_DIRECTION_BUY
                              else ORDER_DIRECTION_SELL)"
      and "sdk_postOrder api ord = Inr reply"
      and "fst (order_express api e b s) = Response 200 (Success (OrderPlaced reply))"
      and "issued s (snd (order_express api e b s)) = F @ A @ [PostOrder ord]"
proof (cases rule: resolve_express_cases [of api "property ''ticker'' b" e s])
  case (figi_thrown err)
  note R = order_express_figi_failed [OF valid figi_thrown(2)]
  from figi_thrown(1,2) show ?thesis
    by (intro that(1) [of err]) (simp_all add: R issued_def sent_send)
next
  case (figi_absent err)
  note R = order_express_figi_failed [OF valid figi_absent(3)]
  from figi_absent show ?thesis
    by (intro that(2) [of "message err"]) (simp_all add: R issued_def sent_send)
next
  case (account_thrown F figi s1 err)
  note R = order_express_account_failed [OF valid account_thrown(1,6)]
  from account_thrown show ?thesis
    by (intro that(3) [of F err]) (simp_all add: R issued_def sent_send)
next
  case (account_absent F figi s1 err)
  note R = order_express_account_failed [OF valid account_absent(1,7)]
  from account_absent show ?thesis
    by (intro that(4) [of F "message err"]) (simp_all add: R issued_def sent_send)
next
  case (resolved F A figi s1 accountId s2)
  from valid resolved(1,2) show ?thesis
  proof (cases rule: order_express_tail)
    case unposted
    with resolved(3-6) show ?thesis
      by (intro that(5) [of F A]) (simp_all add: issued_def)
  next
    case (post_thrown p' ord err)
    with resolved(3-6) show ?thesis
      by (intro that(6) [of F A ord err]) (simp_all add: issued_def sent_send)
  next
    case (post_ok p' ord reply)
    with resolved(3-6) show ?thesis
      by (intro that(7) [of F A ord reply]) (simp_all add: issued_def sent_send)
  qed
qed



lemma order_express_sell:
  assumes valid: "valid_order b"
  shows "(property ''direction'' b \<noteq> JStr ''buy'' \<longrightarrow>
            (PostOrder ord \<in> set (issued t (snd (order_express api e b t))) \<longrightarrow>
               o_direction ord = ORDER_DIRECTION_SELL) \<and>
            (getFigiForTicker_express api e (property ''ticker'' b) t = (Inr figi', ta') \<and>
             getAccountId_express api e ta' = (Inr accountId', tb') \<and>
             toNumber e (property ''price'' b) \<noteq> None \<longrightarrow>
               (\<exists>ord'. PostOrder ord' \<in> set (issued t (snd (order_express api e b t))) \<and>
                       o_direction ord' = ORDER_DIRECTION_SELL))) \<and>
         (toNumber e (property ''price'' b) = None \<longrightarrow>
            PostOrder ord \<notin> set (issued t (snd (order_express api e b t))) \<and>
            http_status (fst (order_express api e b t)) = 500)"
  using valid
  by (cases rule: order_express_cases [where api = api and e = e and s = t]) auto

section \<open>The presence check of the order routes\<close>

text \<open>
  C5, as stated, on \<^verbatim>\<open>main.js\<close> and \<^verbatim>\<open>part_000\<close>: the body \<^verbatim>\<open>null\<close> has none of
  the four fields, and the answer is status 500, not 400: the destructuring throws
  before the presence check, and the \<^verbatim>\<open>catch\<close> answers. No call leaves the process.
\<close>

theorem order_null_body_counterexample:
  "property ''ticker'' JNull = JUndefined \<and> property ''quantity'' JNull = JUndefined \<and>
   property ''price'' JNull = JUndefined \<and> property ''direction'' JNull = JUndefined \<and>
   order_main up_ok (sample_env 1000000) (Inr JNull) cache0
     = (Response 500 (Failure DESTRUCTURE_NULL), cache0) \<and>
   order_deno up_ok (sample_env 1000000) (Inr JNull) server0
     = (Response 500 (Failure DESTRUCTURE_NULL), server0)"
  by (simp add: order_main_def order_deno_def)

text \<open>
  C5, amended: a body that is a JSON value other than \<^verbatim>\<open>null\<close> and lacks one of
  \<^verbatim>\<open>ticker\<close>, \<^verbatim>\<open>quantity\<close>, \<^verbatim>\<open>price\<close>, \<^verbatim>\<open>direction\<close> is answered with status 400
  by \<^verbatim>\<open>main.js\<close> and \<^verbatim>\<open>part_000\<close>; the body \<^verbatim>\<open>null\<close> and a body that is no JSON
  are answered with status 500. In \<^verbatim>\<open>part_001\<close> a body without one of the fields is
  answered with status 400, by the route when it is an object or an array and by the
  JSON middleware when it is not. In every case the state (the caches and the trace of
  calls) stays as it was.
\<close>

theorem order_missing_field_400:
  assumes "k \<in> set order_fields" and "property k b = JUndefined"
  shows "(b \<noteq> JNull \<and> b \<noteq> JUndefined \<longrightarrow>
            order_main up e (Inr b) s = (Response 400 (Failure MISSING_FIELDS), s) \<and>
            order_deno up e (Inr b) t = (Response 400 (Failure MISSING_FIELDS), t)) \<and>
         order_main up e (Inr JNull) s = (Response 500 (Failure DESTRUCTURE_NULL), s) \<and>
         order_deno up e (Inr JNull) t = (Response 500 (Failure DESTRUCTURE_NULL), t) \<and>
         order_main up e (Inl m) s = (Response 500 (Failure m), s) \<and>
         order_deno up e (Inl m) t = (Response 500 (Failure m), t) \<and>
         (is_reference b \<longrightarrow>
            order_express api e b t = (Response 400 (Failure ''Missing required fields''), t)) \<and>
         (\<not> is_reference b \<longrightarrow> order_express api e b t = (Response 400 ErrorPage, t))"
  using assms
  by (auto simp: order_fields_def order_main_def order_deno_def order_express_def Let_def)

theorem order_missing_field_400_witness:
  "''price'' \<in> set order_fields \<and> property ''price'' order_without_price = JUndefined \<and>
   order_without_price \<noteq> JNull \<and> order_without_price \<noteq> JUndefined \<and>
   is_reference order_without_price \<and>
   order_main up_ok (sample_env 1000000) (Inr order_without_price) cache0
     = (Response 400 (Failure MISSING_FIELDS), cache0) \<and>
   order_deno up_ok (sample_env 1000000) (Inr order_without_price) server0
     = (Response 400 (Failure MISSING_FIELDS), server0) \<and>
   order_express api_ok (sample_env 1000000) order_without_price server0
     = (Response 400 (Failure ''Missing required fields''), server0)"
  using order_missing_field_400 [of "''price''" order_without_price up_ok "sample_env 1000000"
      cache0 server0 "[]" api_ok]
  by (simp add: order_fields_def order_without_price_def)

text \<open>
  C9, as stated, on \<^verbatim>\<open>main.js\<close> and \<^verbatim>\<open>part_000\<close>: the presence check does not
  keep every zero from the upstream order call. A \<^verbatim>\<open>quantity\<close> that is the string
  \<^verbatim>\<open>"0"\<close> is truthy, and \<^verbatim>\<open>parseInt(quantity)\<close> posts it upstream as the number 0.
\<close>

theorem order_text_zero_counterexample:
  "valid_order order_text_zero \<and>
   property ''quantity'' order_text_zero = JStr ''0'' \<and>
   sent (snd (order_main up_ok (sample_env 1000000) (Inr order_text_zero) cache0))
     = [FindInstrument (JStr ''SBER''), GetAccounts,
        PostOrder \<lparr>o_figi = ''FIGI-SBER'', o_quantity = JNum (Fin 0),
                   o_price = \<lparr>units = Fin 190, nano = Some (Fin 0)\<rparr>,
                   o_direction = ORDER_DIRECTION_BUY, o_accountId = ''2000123456'',
                   o_orderId = ''order_1000000_k3j9x2m1p''\<rparr>] \<and>
   http_status (fst (order_main up_ok (sample_env 1000000) (Inr order_text_zero) cache0)) = 200 \<and>
   sent (snd (order_deno up_ok (sample_env 1000000) (Inr order_text_zero) server0))
     = [FindInstrument (JStr ''SBER''), GetAccounts,
        PostOrder \<lparr>o_figi = ''FIGI-SBER'', o_quantity = JNum (Fin 0),
                   o_price = \<lparr>units = Fin 190, nano = Some (Fin 0)\<rparr>,
                   o_direction = ORDER_DIRECTION_BUY, o_accountId = ''2000123456'',
                   o_orderId = ''order_1000000_k3j9x2m1p''\<rparr>] \<and>
   http_status (fst (order_deno up_ok (sample_env 1000000) (Inr order_text_zero) server0)) = 200"
  by (simp add: valid_order_def order_text_zero_def order_main_def placeLimitOrder_def
      order_deno_def getFigiForTicker_deno_def getAccountId_deno_def cached_account_def
      map_has_def map_set_def toLowerCase_def lower_char_def up_ok_def
      sample_env_def sample_instrument_def sample_account_def sample_reply_def cache0_def server0_def
      send_def Let_def decimal_def digit_value_def floatToQuotation_def js_sub_def trunc_def)

text \<open>
  C9, amended: a body whose \<^verbatim>\<open>quantity\<close> is the number 0, whose \<^verbatim>\<open>price\<close> is the
  number 0 or whose \<^verbatim>\<open>ticker\<close> is the empty string gets the response of a missing
  field from each order route, and no call leaves the process: the state stays as it
  was.
\<close>

theorem order_zero_or_empty_400:
  assumes "b \<noteq> JNull" and "b \<noteq> JUndefined"
    and "property ''quantity'' b = JNum (Fin 0) \<or> property ''price'' b = JNum (Fin 0)
         \<or> property ''ticker'' b = JStr []"
  shows "order_main up e (Inr b) s = (Response 400 (Failure MISSING_FIELDS), s) \<and>
         order_deno up e (Inr b) t = (Response 400 (Failure MISSING_FIELDS), t) \<and>
         order_express api e b t = (Response 400 (Failure ''Missing required fields''), t)"
proof -
  from assms(3) have "is_reference b"
    by (cases b) auto
  with assms show ?thesis
    by (auto simp: order_main_def order_deno_def order_express_def Let_def)
qed

theorem order_zero_or_empty_400_witness:
  "order_zero_quantity \<noteq> JNull \<and> order_zero_quantity \<noteq> JUndefined \<and>
   property ''quantity'' order_zero_quantity = JNum (Fin 0) \<and>
   order_main up_ok (sample_env 1000000) (Inr order_zero_quantity) cache0
     = (Response 400 (Failure MISSING_FIELDS), cache0) \<and>
   order_deno up_ok (sample_env 1000000) (Inr order_zero_quantity) server0
     = (Response 400 (Failure MISSING_FIELDS), server0) \<and>
   order_express api_ok (sample_env 1000000) order_zero_quantity server0
     = (Response 400 (Failure ''Missing required fields''), server0)"
  using order_zero_or_empty_400 [of order_zero_quantity up_ok "sample_env 1000000"
      cache0 server0 api_ok]
  by (simp add: order_zero_quantity_def)

section \<open>Upstream failure on the order routes\<close>




section \<open>The direction of an order\<close>

text \<open>
  C10, as stated, on \<^verbatim>\<open>part_000\<close>: a direction that is the number 1 passes the
  presence check and is not \<^verbatim>\<open>'buy'\<close>, yet no order is sent: after FindInstrument
  and GetAccounts, \<^verbatim>\<open>direction.toLowerCase()\<close> throws, and the answer is status 500.
  And on \<^verbatim>\<open>main.js\<close> and \<^verbatim>\<open>part_000\<close>: with the direction \<^verbatim>\<open>'sell'\<close> and the
  quantity \<^verbatim>\<open>{"toString": 1}\<close>, \<^verbatim>\<open>parseInt(quantity)\<close> throws after the same two
  calls, no order is sent and the answer is status 500.
\<close>

theorem order_direction_number_counterexample:
  "valid_order (sample_order (JNum (Fin 1))) \<and>
   property ''direction'' (sample_order (JNum (Fin 1))) \<noteq> JStr ''buy'' \<and>
   fst (order_deno up_ok (sample_env 1000000) (Inr (sample_order (JNum (Fin 1)))) server0)
     = Response 500 (Failure ''direction.toLowerCase is not a function'') \<and>
   sent (snd (order_deno up_ok (sample_env 1000000) (Inr (sample_order (JNum (Fin 1)))) server0))
     = [FindInstrument (JStr ''SBER''), GetAccounts] \<and>
   valid_order order_object_quantity \<and>
   property ''direction'' order_object_quantity = JStr ''sell'' \<and>
   fst (order_main up_ok (sample_env 1000000) (Inr order_object_quantity) cache0)
     = Response 500 (Failure NOT_PRIMITIVE) \<and>
   sent (snd (order_main up_ok (sample_env 1000000) (Inr order_object_quantity) cache0))
     = [FindInstrument (JStr ''SBER''), GetAccounts] \<and>
   fst (order_deno up_ok (sample_env 1000000) (Inr order_object_quantity) server0)
     = Response 500 (Failure NOT_PRIMITIVE) \<and>
   sent (snd (order_deno up_ok (sample_env 1000000) (Inr order_object_quantity) server0))
     = [FindInstrument (JStr ''SBER''), GetAccounts]"
  by (simp add: valid_order_def sample_order_def order_object_quantity_def order_main_def
      placeLimitOrder_def order_deno_def getFigiForTicker_deno_def
      getAccountId_deno_def cached_account_def up_ok_def sample_env_def sample_instrument_def
      sample_account_def cache0_def server0_def map_has_def map_set_def send_def Let_def)

text \<open>
  C10, amended: for a body that passes the presence check,
  \<^item> in \<^verbatim>\<open>main.js\<close> and in the Express variant, when \<^verbatim>\<open>direction\<close> is not the
    string \<^verbatim>\<open>'buy'\<close>, every order the route posts has direction
    \<^verbatim>\<open>ORDER_DIRECTION_SELL\<close>, and the route does post one once the instrument and the
    account are found and the conversions of the order's numbers return
    (\<^verbatim>\<open>parseInt(quantity)\<close> and \<^verbatim>\<open>parseFloat(price)\<close> in \<^verbatim>\<open>main.js\<close>, ToNumber of
    \<^verbatim>\<open>price\<close> in the Express variant);
  \<^item> in \<^verbatim>\<open>part_000\<close> the same holds when \<^verbatim>\<open>direction\<close> is a string whose lower
    case is not \<^verbatim>\<open>'buy'\<close>;
  \<^item> when a conversion throws, or when in \<^verbatim>\<open>part_000\<close> \<^verbatim>\<open>direction\<close> is no string,
    no order is posted and the answer is status 500.
\<close>

theorem order_direction_sell:
  assumes "valid_order b"
  shows "(property ''direction'' b \<noteq> JStr ''buy'' \<longrightarrow>
            (PostOrder ord \<in> set (issued s (snd (order_main up e (Inr b) s))) \<longrightarrow>
               o_direction ord = ORDER_DIRECTION_SELL) \<and>
            (tinkoffRequest (findInstrument up (property ''ticker'' b)) = Inr (Some (i # rest)) \<and>
             tinkoffRequest (getAccounts up) = Inr (Some (acc # others)) \<and>
             parseInt e (property ''quantity'' b) \<noteq> None \<and>
             parseFloat e (property ''price'' b) \<noteq> None \<longrightarrow>
               (\<exists>ord'. PostOrder ord' \<in> set (issued s (snd (order_main up e (Inr b) s))) \<and>
                       o_direction ord' = ORDER_DIRECTION_SELL))) \<and>
         (parseInt e (property ''quantity'' b) = None \<or> parseFloat e (property ''price'' b) = None \<longrightarrow>
            PostOrder ord \<notin> set (issued s (snd (order_main up e (Inr b) s))) \<and>
            http_status (fst (order_main up e (Inr b) s)) = 500) \<and>
         (property ''direction'' b = JStr x \<and> toLowerCase x \<noteq> ''buy'' \<longrightarrow>
            (PostOrder ord \<in> set (issued t (snd (order_deno up e (Inr b) t))) \<longrightarrow>
               o_direction ord = ORDER_DIRECTION_SELL) \<and>
            (getFigiForTicker_deno up e (property ''ticker'' b) t = (Inr figi, ta) \<and>
             getAccountId_deno up ta = (Inr accountId, tb) \<and>
             parseInt e (property ''quantity'' b) \<noteq> None \<and>
             parseFloat e (property ''price'' b) \<noteq> None \<longrightarrow>
               (\<exists>ord'. PostOrder ord' \<in> set (issued t (snd (order_deno up e (Inr b) t))) \<and>
                       o_direction ord' = ORDER_DIRECTION_SELL))) \<and>
         ((\<forall>y. property ''direction'' b \<noteq> JStr y) \<or>
          parseInt e (property ''quantity'' b) = None \<or> parseFloat e (property ''price'' b) = None \<longrightarrow>
            PostOrder ord \<notin> set (issued t (snd (order_deno up e (Inr b) t))) \<and>
            http_status (fst (order_deno up e (Inr b) t)) = 500) \<and>
         (property ''direction'' b \<noteq> JStr ''buy'' \<longrightarrow>
            (PostOrder ord \<in> set (issued t (snd (order_express api e b t))) \<longrightarrow>
               o_direction ord = ORDER_DIRECTION_SELL) \<and>
            (getFigiForTicker_express api e (property ''ticker'' b) t = (Inr figi', ta') \<and>
             getAccountId_express api e ta' = (Inr accountId', tb') \<and>
             toNumber e (property ''price'' b) \<noteq> None \<longrightarrow>
               (\<exists>ord'. PostOrder ord' \<in> set (issued t (snd (order_express api e b t))) \<and>
                       o_direction ord' = ORDER_DIRECTION_SELL))) \<and>
         (toNumber e (property ''price'' b) = None \<longrightarrow>
            PostOrder ord \<notin> set (issued t (snd (order_express api e b t))) \<and>
            http_status (fst (order_express api e b t)) = 500)"
proof -
  note M = order_main_sell [OF assms, where ord = ord and s = s and up = up and e = e and i = i
      and rest = rest and acc = acc and others = others]
  note D = order_deno_sell [OF assms, where x = x and ord = ord and t = t and up = up and e = e
      and figi = figi and ta = ta and accountId = accountId and tb = tb]
  note E = order_express_sell [OF assms, where ord = ord and t = t and api = api and e = e
      and figi' = figi' and ta' = ta' and accountId' = accountId' and tb' = tb']
  from M [THEN conjunct1] M [THEN conjunct2] D [THEN conjunct1] D [THEN conjunct2]
    E [THEN conjunct1] E [THEN conjunct2]
  show ?thesis by (intro conjI) assumption+
qed

theorem order_direction_sell_witness:
  "valid_order (sample_order (JStr ''sel'')) \<and>
   property ''direction'' (sample_order (JStr ''sel'')) = JStr ''sel'' \<and>
   toLowerCase ''sel'' \<noteq> ''buy'' \<and>
   parseInt (sample_env 1000000) (property ''quantity'' (sample_order (JStr ''sel''))) \<noteq> None \<and>
   parseFloat (sample_env 1000000) (property ''price'' (sample_order (JStr ''sel''))) \<noteq> None \<and>
   toNumber (sample_env 1000000) (property ''price'' (sample_order (JStr ''sel''))) \<noteq> None \<and>
   (\<exists>ord'. PostOrder ord'
             \<in> set (issued cache0 (snd (order_main up_ok (sample_env 1000000) (Inr (sample_order (JStr ''sel''))) cache0))) \<and>
           o_direction ord' = ORDER_DIRECTION_SELL) \<and>
   (\<exists>ord'. PostOrder ord'
             \<in> set (issued server0 (snd (order_deno up_ok (sample_env 1000000) (Inr (sample_order (JStr ''sel''))) server0))) \<and>
           o_direction ord' = ORDER_DIRECTION_SELL) \<and>
   (\<exists>ord'. PostOrder ord'
             \<in> set (issued server0 (snd (order_express api_ok (sample_env 1000000) (sample_order (JStr ''sel'')) server0))) \<and>
           o_direction ord' = ORDER_DIRECTION_SELL)"
proof -
  let ?b = "sample_order (JStr ''sel'')"
  let ?e = "sample_env 1000000"
  let ?t1 = "snd (getFigiForTicker_deno up_ok ?e (JStr ''SBER'') server0)"
  let ?t2 = "snd (getAccountId_deno up_ok ?t1)"
  let ?u1 = "snd (getFigiForTicker_express api_ok ?e (JStr ''SBER'') server0)"
  let ?u2 = "snd (getAccountId_express api_ok ?e ?u1)"
  have v: "valid_order ?b"
    by (simp add: valid_order_def sample_order_def)
  have k: "property ''ticker'' ?b = JStr ''SBER''"
    and d: "property ''direction'' ?b = JStr ''sel''" "property ''direction'' ?b \<noteq> JStr ''buy''"
    by (simp_all add: sample_order_def)
  have n: "parseInt ?e (property ''quantity'' ?b) \<noteq> None"
    "parseFloat ?e (property ''price'' ?b) \<noteq> None" "toNumber ?e (property ''price'' ?b) \<noteq> None"
    by (simp_all add: sample_order_def sample_env_def)
  have l: "toLowerCase ''sel'' \<noteq> ''buy''"
    by (simp add: toLowerCase_def lower_char_def)
  have f: "tinkoffRequest (findInstrument up_ok (JStr ''SBER'')) = Inr (Some (sample_instrument ''SBER'' # []))"
    and a: "tinkoffRequest (getAccounts up_ok) = Inr (Some (sample_account # []))"
    by (simp_all add: up_ok_def)
  have g1: "getFigiForTicker_deno up_ok ?e (JStr ''SBER'') server0 = (Inr ''FIGI-SBER'', ?t1)"
    by (simp add: getFigiForTicker_deno_def up_ok_def sample_instrument_def server0_def map_has_def Let_def)
  have g2: "getAccountId_deno up_ok ?t1 = (Inr ''2000123456'', ?t2)"
    by (simp add: getAccountId_deno_def getFigiForTicker_deno_def cached_account_def up_ok_def
        sample_instrument_def sample_account_def server0_def map_has_def send_def Let_def)
  have h1: "getFigiForTicker_express api_ok ?e (JStr ''SBER'') server0 = (Inr ''FIGI-SBER'', ?u1)"
    by (simp add: getFigiForTicker_express_def api_ok_def sample_instrument_def server0_def map_has_def Let_def)
  have h2: "getAccountId_express api_ok ?e ?u1 = (Inr ''2000123456'', ?u2)"
    by (simp add: getAccountId_express_def getFigiForTicker_express_def cached_account_def api_ok_def
        sample_instrument_def sample_account_def sample_env_def server0_def map_has_def send_def Let_def)
  show ?thesis
    using order_direction_sell [OF v, where x = "''sel''" and up = up_ok and e = ?e and s = cache0
        and t = server0 and api = api_ok and i = "sample_instrument ''SBER''" and rest = "[]"
        and acc = sample_account and others = "[]" and figi = "''FIGI-SBER''" and ta = ?t1
        and accountId = "''2000123456''" and tb = ?t2 and figi' = "''FIGI-SBER''" and ta' = ?u1
        and accountId' = "''2000123456''" and tb' = ?u2]
      v k d n l f a g1 g2 h1 h2
    by simp
qed

section \<open>Upstream failure on the price routes\<close>

lemma issued_mem_send:
  assumes "sent s1 = sent s @ a" and "c \<in> set (issued s (send d s1))"
  shows "c \<in> set (issued s s1) \<or> c = d"
  using assms by (auto simp: issued_def sent_send)

lemma getFigi_deno_sent: "\<exists>cs. sent (snd (getFigiForTicker_deno up e k s)) = sent s @ cs"
  by (cases rule: getFigi_deno_cases [of s k up e]) (simp_all add: sent_send send_def)

lemma getFigi_express_sent: "\<exists>cs. sent (snd (getFigiForTicker_express api e k s)) = sent s @ cs"
  by (cases rule: getFigi_express_cases [of s k api e]) (simp_all add: sent_send send_def)

lemma getFigi_deno_failure:
  assumes "getFigiForTicker_deno up e k s = (r, s1)"
    and "c \<in> set (issued s s1)" and "thrown_deno up c = Some err"
  shows "r = Inl (logged e k err)"
  using assms
  by (cases rule: getFigi_deno_cases [of s k up e])
    (auto simp: issued_def sent_send send_def thrown_def)

lemma getFigi_express_failure:
  assumes "getFigiForTicker_express api e k s = (r, s1)"
    and "c \<in> set (issued s s1)" and "thrown_express api c = Some err"
  shows "r = Inl (logged e k err)"
  using assms
  by (cases rule: getFigi_express_cases [of s k api e])
    (auto simp: issued_def sent_send send_def)

lemma getAccountId_deno_failure:
  assumes "getAccountId_deno up s = (r, s1)"
    and "c \<in> set (issued s s1)" and "thrown_deno up c = Some err"
  shows "r = Inl err"
  using assms
  by (cases rule: getAccountId_deno_cases [of s up])
    (auto simp: issued_def sent_send send_def thrown_def)

lemma getAccountId_express_failure:
  assumes "getAccountId_express api e s = (r, s1)"
    and "c \<in> set (issued s s1)" and "thrown_express api c = Some err"
  shows "r = Inl err"
  using assms
  by (cases rule: getAccountId_express_cases [of s api e])
    (auto simp: issued_def sent_send send_def)

lemma getCurrentPrice_unfold:
  "getCurrentPrice up e k s =
     (if hit_main s k (date_now e) then (the (prices_get s k), s)
      else
        (case tinkoffRequest (findInstrument up (JStr k)) of
          Inl err \<Rightarrow> (PriceData (mock_price e k (date_later e)), send (FindInstrument (JStr k)) s)
        | Inr None \<Rightarrow> (PriceData (mock_price e k (date_later e)), send (FindInstrument (JStr k)) s)
        | Inr (Some []) \<Rightarrow> (PriceData (mock_price e k (date_later e)), send (FindInstrument (JStr k)) s)
        | Inr (Some (instrument # rest)) \<Rightarrow>
            (case tinkoffRequest (getOrderBook up (inst_figi instrument)) of
               Inl err \<Rightarrow>
                 (PriceData (mock_price e k (date_later e)),
                  send (GetOrderBook (inst_figi instrument)) (send (FindInstrument (JStr k)) s))
             | Inr lastPrice \<Rightarrow>
                 (PriceData
                    \<lparr>pd_price = quotationToFloat lastPrice, pd_timestamp = date_now e,
                     pd_figi = Some (inst_figi instrument), pd_ticker = Some k, pd_isMock = False\<rparr>,
                  (send (GetOrderBook (inst_figi instrument)) (send (FindInstrument (JStr k)) s))
                    \<lparr>prices := (prices s)(k \<mapsto>
                        \<lparr>pd_price = quotationToFloat lastPrice, pd_timestamp = date_now e,
                         pd_figi = Some (inst_figi instrument), pd_ticker = Some k, pd_isMock = False\<rparr>),
                     lastUpdate := date_now e\<rparr>))))"
  by (auto simp: getCurrentPrice_def hit_main_def Let_def send_def
      split: sum.splits option.splits list.splits)

lemma getCurrentPrice_failure:
  assumes c: "c \<in> set (issued s (snd (getCurrentPrice up e k s)))"
    and err: "thrown_deno up c = Some err"
  shows "fst (getCurrentPrice up e k s) = PriceData (mock_price e k (date_later e))"
proof (cases "hit_main s k (date_now e)")
  case True
  with c show ?thesis by (simp add: getCurrentPrice_unfold issued_self)
next
  case miss: False
  show ?thesis
  proof (cases "\<exists>i rest. tinkoffRequest (findInstrument up (JStr k)) = Inr (Some (i # rest))")
    case False
    with miss show ?thesis
      by (auto simp: getCurrentPrice_unfold split: sum.splits option.splits list.splits)
  next
    case True
    then obtain i rest where f: "tinkoffRequest (findInstrument up (JStr k)) = Inr (Some (i # rest))"
      by blast
    show ?thesis
    proof (cases "tinkoffRequest (getOrderBook up (inst_figi i))")
      case (Inl e1)
      with miss f show ?thesis by (simp add: getCurrentPrice_unfold)
    next
      case (Inr lastPrice)
      with miss f c have "c = FindInstrument (JStr k) \<or> c = GetOrderBook (inst_figi i)"
        by (auto simp: getCurrentPrice_unfold issued_def sent_send)
      with err f Inr show ?thesis by (auto simp: thrown_Some_iff)
    qed
  qed
qed

lemma price_main_failure:
  assumes "c \<in> set (issued s (snd (price_main up e param s)))" and "thrown_deno up c = Some err"
  shows "fst (price_main up e param s)
           = Response 200 (Success (PriceData (mock_price e (ticker_or_SBER param) (date_later e))))"
  using assms getCurrentPrice_failure [of c s up e "ticker_or_SBER param" err]
  by (simp add: price_main_def Let_def split: prod.splits)

lemma price_deno_unfold:
  "price_deno up e param s =
     (if fresh (priceCache s) (ticker_or_SBER param) (date_now e)
      then (Response 200 (Success (PriceData (the (priceCache s (ticker_or_SBER param))))), s)
      else
        (case getFigiForTicker_deno up e (JStr (ticker_or_SBER param)) s of
           (Inl err, s1) \<Rightarrow>
             (Response 200 (Success (PriceData
                (mock_price e (ticker_or_SBER param) (stamp e (priceCache s (ticker_or_SBER param)))))),
              s1)
         | (Inr figi, s1) \<Rightarrow>
             (case tinkoffRequest (getOrderBook up figi) of
                Inl err \<Rightarrow>
                  (Response 200 (Success (PriceData
                     (mock_price e (ticker_or_SBER param) (stamp e (priceCache s (ticker_or_SBER param)))))),
                   send (GetOrderBook figi) s1)
              | Inr lastPrice \<Rightarrow>
                  (Response 200 (Success (PriceData
                     \<lparr>pd_price = quotationToFloat lastPrice,
                      pd_timestamp = stamp e (priceCache s (ticker_or_SBER param)),
                      pd_figi = Some figi, pd_ticker = Some (ticker_or_SBER param), pd_isMock = False\<rparr>)),
                   (send (GetOrderBook figi) s1)
                     \<lparr>priceCache := (priceCache s1)(ticker_or_SBER param \<mapsto>
                        \<lparr>pd_price = quotationToFloat lastPrice,
                         pd_timestamp = stamp e (priceCache s (ticker_or_SBER param)),
                         pd_figi = Some figi, pd_ticker = Some (ticker_or_SBER param),
                         pd_isMock = False\<rparr>)\<rparr>))))"
  by (auto simp: price_deno_def fresh_def Let_def send_def split: sum.splits option.splits prod.splits)

lemma price_deno_failure:
  assumes c: "c \<in> set (issued s (snd (price_deno up e param s)))"
    and err: "thrown_deno up c = Some err"
  shows "fst (price_deno up e param s)
           = Response 200 (Success (PriceData
               (mock_price e (ticker_or_SBER param) (stamp e (priceCache s (ticker_or_SBER param))))))"
proof -
  let ?k = "ticker_or_SBER param"
  show ?thesis
  proof (cases "fresh (priceCache s) ?k (date_now e)")
    case True
    with c show ?thesis by (simp add: price_deno_unfold issued_self)
  next
    case miss: False
    obtain r1 s1 where g: "getFigiForTicker_deno up e (JStr ?k) s = (r1, s1)"
      by (cases "getFigiForTicker_deno up e (JStr ?k) s")
    from getFigi_deno_sent [of up e "JStr ?k" s] g obtain cs1 where p1: "sent s1 = sent s @ cs1"
      by auto
    show ?thesis
    proof (cases r1)
      case (Inl e1)
      with miss g show ?thesis by (simp add: price_deno_unfold)
    next
      case r1: (Inr figi)
      show ?thesis
      proof (cases "tinkoffRequest (getOrderBook up figi)")
        case (Inl e2)
        with miss g r1 show ?thesis by (simp add: price_deno_unfold)
      next
        case (Inr lastPrice)
        with miss g r1 have "sent (snd (price_deno up e param s)) = sent (send (GetOrderBook figi) s1)"
          by (simp add: price_deno_unfold sent_send)
        with c have "c \<in> set (issued s (send (GetOrderBook figi) s1))"
          by (simp add: issued_def)
        from issued_mem_send [OF p1 this] getFigi_deno_failure [OF g _ err] r1
        have "c = GetOrderBook figi" by auto
        with err Inr show ?thesis by (simp add: thrown_Some_iff)
      qed
    qed
  qed
qed

lemma price_express_unfold:
  assumes "k \<noteq> []"
  shows "price_express api e (Some k) s =
     (if fresh (priceCache s) k (date_now e)
      then (Response 200 (Success (PriceData (the (priceCache s k)))), s)
      else
        (case getFigiForTicker_express api e (JStr k) s of
           (Inl err, s1) \<Rightarrow> (Response 500 (Failure (message err)), s1)
         | (Inr figi, s1) \<Rightarrow>
             (case sdk_getLastPrices api figi of
                Inl err \<Rightarrow> (Response 500 (Failure (message err)), send (GetLastPrices figi) s1)
              | Inr None \<Rightarrow>
                  (Response 500 (Failure (''No price data for '' @ k)), send (GetLastPrices figi) s1)
              | Inr (Some []) \<Rightarrow>
                  (Response 500 (Failure (''No price data for '' @ k)), send (GetLastPrices figi) s1)
              | Inr (Some (lp # others)) \<Rightarrow>
                  (Response 200 (Success (PriceData
                     \<lparr>pd_price = quotationToFloat (lp_price lp), pd_timestamp = stamp e (priceCache s k),
                      pd_figi = None, pd_ticker = None, pd_isMock = False\<rparr>)),
                   (send (GetLastPrices figi) s1)
                     \<lparr>priceCache := (priceCache s1)(k \<mapsto>
                        \<lparr>pd_price = quotationToFloat (lp_price lp), pd_timestamp = stamp e (priceCache s k),
                         pd_figi = None, pd_ticker = None, pd_isMock = False\<rparr>)\<rparr>))))"
  using assms
  by (auto simp: price_express_def fresh_def Let_def send_def
      split: sum.splits option.splits prod.splits list.splits)

lemma price_express_absent:
  assumes "param = None \<or> param = Some []"
  shows "price_express api e param s = (Response 400 (Failure ''Missing 'ticker' parameter''), s)"
  using assms by (auto simp: price_express_def)

lemma price_express_failure:
  assumes c: "c \<in> set (issued s (snd (price_express api e param s)))"
    and err: "thrown_express api c = Some err"
  shows "fst (price_express api e param s) = Response 500 (Failure (message err))"
proof (cases "param = None \<or> param = Some []")
  case True
  with c show ?thesis by (simp add: price_express_absent issued_self)
next
  case False
  then obtain k where param: "param = Some k" and k: "k \<noteq> []" by auto
  note U = price_express_unfold [OF k, of api e s]
  show ?thesis
  proof (cases "fresh (priceCache s) k (date_now e)")
    case True
    with c show ?thesis by (simp add: param U issued_self)
  next
    case miss: False
    obtain r1 s1 where g: "getFigiForTicker_express api e (JStr k) s = (r1, s1)"
      by (cases "getFigiForTicker_express api e (JStr k) s")
    from getFigi_express_sent [of api e "JStr k" s] g obtain cs1 where p1: "sent s1 = sent s @ cs1"
      by auto
    show ?thesis
    proof (cases r1)
      case (Inl e1)
      with miss g have "snd (price_express api e param s) = s1"
        and r: "fst (price_express api e param s) = Response 500 (Failure (message e1))"
        by (simp_all add: param U)
      with c have "c \<in> set (issued s s1)" by simp
      from getFigi_express_failure [OF g this err] Inl have "e1 = err" by simp
      with r show ?thesis by simp
    next
      case r1: (Inr figi)
      have "sent (snd (price_express api e param s)) = sent (send (GetLastPrices figi) s1)"
        using miss g r1
        by (simp add: param U sent_send split: sum.splits option.splits list.splits)
      with c have "c \<in> set (issued s (send (GetLastPrices figi) s1))"
        by (simp add: issued_def)
      from issued_mem_send [OF p1 this] getFigi_express_failure [OF g _ err] r1
      have "c = GetLastPrices figi" by auto
      with err have "sdk_getLastPrices api figi = Inl err"
        by (simp add: thrown_sdk_Some_iff)
      with miss g r1 show ?thesis
        by (simp add: param U)
    qed
  qed
qed

text \<open>
  C6, as stated, on the Express variant: with nothing cached and the SDK failing at the
  first call, \<^verbatim>\<open>GET /api/price?ticker=SBER\<close> is answered with status 500 and
  \<^verbatim>\<open>{success: false, error}\<close>, not with status 200 and a mock price.
\<close>

theorem price_express_failure_counterexample:
  "\<not> fresh (priceCache server0) ''SBER'' 1000000 \<and>
   thrown_express api_down (FindInstrument (JStr ''SBER''))
     = Some (Error ''14 UNAVAILABLE: No connection established'') \<and>
   issued server0 (snd (price_express api_down (sample_env 1000000) (Some ''SBER'') server0))
     = [FindInstrument (JStr ''SBER'')] \<and>
   fst (price_express api_down (sample_env 1000000) (Some ''SBER'') server0)
     = Response 500 (Failure ''14 UNAVAILABLE: No connection established'')"
  by (simp add: price_express_def getFigiForTicker_express_def api_down_def server0_def
      sample_env_def fresh_def issued_def send_def map_has_def Let_def CACHE_TTL_MS_def)

text \<open>
  C6, amended: when a call that the price route sends upstream fails (so that no fresh
  entry was cached), the two Deno variants answer status 200 with a price marked
  \<^verbatim>\<open>isMock: true\<close> that lies in \<open>[190, 192]\<close>, \<^verbatim>\<open>Math.random()\<close> lying in
  \<open>[0, 1)\<close>; the Express variant answers status 500 with the error's message.
\<close>

theorem price_upstream_failure:
  assumes "0 \<le> math_random e" and "math_random e < 1"
  shows "(c \<in> set (issued s (snd (price_main up e param s))) \<and> thrown_deno up c = Some err \<longrightarrow>
          (\<exists>p x. fst (price_main up e param s) = Response 200 (Success (PriceData p)) \<and>
                 pd_isMock p \<and> pd_price p = Fin x \<and> 190 \<le> x \<and> x \<le> 192)) \<and>
         (c \<in> set (issued t (snd (price_deno up e param t))) \<and> thrown_deno up c = Some err \<longrightarrow>
          (\<exists>p x. fst (price_deno up e param t) = Response 200 (Success (PriceData p)) \<and>
                 pd_isMock p \<and> pd_price p = Fin x \<and> 190 \<le> x \<and> x \<le> 192)) \<and>
         (d \<in> set (issued t (snd (price_express api e param t))) \<and> thrown_express api d = Some err' \<longrightarrow>
          fst (price_express api e param t) = Response 500 (Failure (message err')))"
proof -
  have 1: "\<exists>p x. fst (price_main up e param s) = Response 200 (Success (PriceData p)) \<and>
                 pd_isMock p \<and> pd_price p = Fin x \<and> 190 \<le> x \<and> x \<le> 192"
    if "c \<in> set (issued s (snd (price_main up e param s)))" "thrown_deno up c = Some err"
    using price_main_failure [OF that] mock_price_range [OF assms, of "ticker_or_SBER param" "date_later e"]
    by auto
  have 2: "\<exists>p x. fst (price_deno up e param t) = Response 200 (Success (PriceData p)) \<and>
                 pd_isMock p \<and> pd_price p = Fin x \<and> 190 \<le> x \<and> x \<le> 192"
    if "c \<in> set (issued t (snd (price_deno up e param t)))" "thrown_deno up c = Some err"
    using price_deno_failure [OF that]
      mock_price_range [OF assms, of "ticker_or_SBER param" "stamp e (priceCache t (ticker_or_SBER param))"]
    by auto
  from 1 2 price_express_failure [of d t api e param err'] show ?thesis by blast
qed

theorem price_upstream_failure_witness:
  "0 \<le> math_random (sample_env 1000000) \<and> math_random (sample_env 1000000) < 1 \<and>
   FindInstrument (JStr ''SBER'')
     \<in> set (issued cache0 (snd (price_main up_down (sample_env 1000000) (Some ''SBER'') cache0))) \<and>
   FindInstrument (JStr ''SBER'')
     \<in> set (issued server0 (snd (price_deno up_down (sample_env 1000000) (Some ''SBER'') server0))) \<and>
   thrown_deno up_down (FindInstrument (JStr ''SBER'')) = Some (Error ''HTTP error! status: 503'') \<and>
   (\<exists>p x. fst (price_main up_down (sample_env 1000000) (Some ''SBER'') cache0)
             = Response 200 (Success (PriceData p)) \<and>
          pd_isMock p \<and> pd_price p = Fin x \<and> 190 \<le> x \<and> x \<le> 192) \<and>
   (\<exists>p x. fst (price_deno up_down (sample_env 1000000) (Some ''SBER'') server0)
             = Response 200 (Success (PriceData p)) \<and>
          pd_isMock p \<and> pd_price p = Fin x \<and> 190 \<le> x \<and> x \<le> 192) \<and>
   FindInstrument (JStr ''SBER'')
     \<in> set (issued server0 (snd (price_express api_down (sample_env 1000000) (Some ''SBER'') server0))) \<and>
   thrown_express api_down (FindInstrument (JStr ''SBER''))
     = Some (Error ''14 UNAVAILABLE: No connection established'') \<and>
   fst (price_express api_down (sample_env 1000000) (Some ''SBER'') server0)
     = Response 500 (Failure ''14 UNAVAILABLE: No connection established'')"
proof -
  have r: "0 \<le> math_random (sample_env 1000000)" "math_random (sample_env 1000000) < 1"
    by (simp_all add: sample_env_def)
  have n: "show_nat 503 = ''503''"
    by (simp add: show_nat.simps)
  have t: "thrown_deno up_down (FindInstrument (JStr ''SBER'')) = Some (Error ''HTTP error! status: 503'')"
    by (simp add: up_down_def thrown_def n)
  have x: "thrown_express api_down (FindInstrument (JStr ''SBER''))
             = Some (Error ''14 UNAVAILABLE: No connection established'')"
    by (simp add: api_down_def)
  have i1: "FindInstrument (JStr ''SBER'')
     \<in> set (issued cache0 (snd (price_main up_down (sample_env 1000000) (Some ''SBER'') cache0)))"
    by (simp add: price_main_def getCurrentPrice_def prices_get_def Object_prototype_def
        up_down_def issued_def send_def cache0_def sample_env_def Let_def)
  have i2: "FindInstrument (JStr ''SBER'')
     \<in> set (issued server0 (snd (price_deno up_down (sample_env 1000000) (Some ''SBER'') server0)))"
    by (simp add: price_deno_def getFigiForTicker_deno_def up_down_def issued_def
        send_def server0_def map_has_def Let_def)
  have i3: "FindInstrument (JStr ''SBER'')
     \<in> set (issued server0 (snd (price_express api_down (sample_env 1000000) (Some ''SBER'') server0)))"
    by (simp add: price_express_def getFigiForTicker_express_def api_down_def issued_def
        send_def server0_def map_has_def Let_def)
  from price_upstream_failure [OF r, of "FindInstrument (JStr ''SBER'')" cache0 up_down
        "Some ''SBER''" "Error ''HTTP error! status: 503''" server0
        "FindInstrument (JStr ''SBER'')" api_down "Error ''14 UNAVAILABLE: No connection established''"]
      t x i1 i2 i3
  have "(\<exists>p x. fst (price_main up_down (sample_env 1000000) (Some ''SBER'') cache0)
             = Response 200 (Success (PriceData p)) \<and>
          pd_isMock p \<and> pd_price p = Fin x \<and> 190 \<le> x \<and> x \<le> 192) \<and>
   (\<exists>p x. fst (price_deno up_down (sample_env 1000000) (Some ''SBER'') server0)
             = Response 200 (Success (PriceData p)) \<and>
          pd_isMock p \<and> pd_price p = Fin x \<and> 190 \<le> x \<and> x \<le> 192) \<and>
   fst (price_express api_down (sample_env 1000000) (Some ''SBER'') server0)
     = Response 500 (Failure ''14 UNAVAILABLE: No connection established'')"
    by simp
  with r t x i1 i2 i3 show ?thesis by blast
qed

section \<open>The status routes\<close>

lemma status_deno_failure:
  assumes c: "c \<in> set (issued s (snd (status_deno up e s)))"
    and err: "thrown_deno up c = Some err"
  shows "\<exists>d. fst (status_deno up e s) = Response 200 (Success (StatusData d)) \<and>
             sd_status d = ''limited'' \<and> sd_error d = Some (message err)"
proof -
  obtain r s1 where a: "getAccountId_deno up s = (r, s1)"
    by (cases "getAccountId_deno up s")
  then have "snd (status_deno up e s) = s1"
    by (cases r) (simp_all add: status_deno_def)
  with c have "c \<in> set (issued s s1)" by simp
  from getAccountId_deno_failure [OF a this err] have "r = Inl err" .
  with a show ?thesis by (simp add: status_deno_def)
qed

lemma status_express_failure:
  assumes c: "c \<in> set (issued s (snd (status_express api e s)))"
    and err: "thrown_express api c = Some err"
  shows "fst (status_express api e s) = Response 500 (Failure (message err))"
proof -
  obtain r s1 where a: "getAccountId_express api e s = (r, s1)"
    by (cases "getAccountId_express api e s")
  then have "snd (status_express api e s) = s1"
    by (cases r) (simp_all add: status_express_def)
  with c have "c \<in> set (issued s s1)" by simp
  from getAccountId_express_failure [OF a this err] have "r = Inl err" .
  with a show ?thesis by (simp add: status_express_def)
qed

text \<open>
  C8, as stated, on the Express variant: when the SDK fails to list the accounts,
  \<^verbatim>\<open>GET /api/status\<close> is answered with status 500 and \<^verbatim>\<open>{success: false, error}\<close>.
\<close>

theorem status_express_failure_counterexample:
  "thrown_express api_down GetAccounts = Some (Error ''14 UNAVAILABLE: No connection established'') \<and>
   issued server0 (snd (status_express api_down (sample_env 1000000) server0)) = [GetAccounts] \<and>
   fst (status_express api_down (sample_env 1000000) server0)
     = Response 500 (Failure ''14 UNAVAILABLE: No connection established'')"
  by (simp add: status_express_def getAccountId_express_def cached_account_def api_down_def
      server0_def issued_def send_def Let_def)

text \<open>
  C8, amended: \<^verbatim>\<open>main.js\<close> answers every status request with status 200 and
  \<^verbatim>\<open>status: "online"\<close>, without an upstream call; \<^verbatim>\<open>part_000\<close> answers status 200
  always, \<^verbatim>\<open>"online"\<close> when \<^verbatim>\<open>getAccountId\<close> returns and \<^verbatim>\<open>"limited"\<close> with the
  error's message when it throws (as it does when its upstream call fails); the Express
  variant answers status 200 and \<^verbatim>\<open>"online"\<close> when \<^verbatim>\<open>getAccountId\<close> returns and
  status 500 with the error's message when it throws.
\<close>

theorem status_degrades:
  "(\<exists>d. status_main e s = (Response 200 (Success (StatusData d)), s) \<and> sd_status d = ''online'') \<and>
   (\<exists>d. fst (status_deno up e t) = Response 200 (Success (StatusData d)) \<and>
        sd_status d = (if isl (fst (getAccountId_deno up t)) then ''limited'' else ''online'')) \<and>
   (c \<in> set (issued t (snd (status_deno up e t))) \<and> thrown_deno up c = Some err \<longrightarrow>
      (\<exists>d. fst (status_deno up e t) = Response 200 (Success (StatusData d)) \<and>
           sd_status d = ''limited'' \<and> sd_error d = Some (message err))) \<and>
   (fst (getAccountId_express api e t) = Inr a \<longrightarrow>
      (\<exists>d. fst (status_express api e t) = Response 200 (Success (StatusData d)) \<and>
           sd_status d = ''online'')) \<and>
   (fst (getAccountId_express api e t) = Inl err' \<longrightarrow>
      fst (status_express api e t) = Response 500 (Failure (message err'))) \<and>
   (c' \<in> set (issued t (snd (status_express api e t))) \<and> thrown_express api c' = Some err' \<longrightarrow>
      fst (status_express api e t) = Response 500 (Failure (message err')))"
proof -
  have 1: "\<exists>d. status_main e s = (Response 200 (Success (StatusData d)), s) \<and> sd_status d = ''online''"
    by (simp add: status_main_def)
  have 2: "\<exists>d. fst (status_deno up e t) = Response 200 (Success (StatusData d)) \<and>
        sd_status d = (if isl (fst (getAccountId_deno up t)) then ''limited'' else ''online'')"
    by (cases "getAccountId_deno up t"; cases "fst (getAccountId_deno up t)")
      (simp_all add: status_deno_def)
  have 4: "fst (getAccountId_express api e t) = Inr a \<longrightarrow>
      (\<exists>d. fst (status_express api e t) = Response 200 (Success (StatusData d)) \<and>
           sd_status d = ''online'')"
    by (cases "getAccountId_express api e t") (simp add: status_express_def)
  have 5: "fst (getAccountId_express api e t) = Inl err' \<longrightarrow>
      fst (status_express api e t) = Response 500 (Failure (message err'))"
    by (cases "getAccountId_express api e t") (simp add: status_express_def)
  from 1 2 4 5 status_deno_failure [of c t up e err] status_express_failure [of c' t api e err']
  show ?thesis by blast
qed

theorem status_degrades_witness:
  "GetAccounts \<in> set (issued server0 (snd (status_deno up_down (sample_env 1000000) server0))) \<and>
   thrown_deno up_down GetAccounts = Some (Error ''HTTP error! status: 503'') \<and>
   (\<exists>d. fst (status_deno up_down (sample_env 1000000) server0) = Response 200 (Success (StatusData d)) \<and>
        sd_status d = ''limited'' \<and> sd_error d = Some ''HTTP error! status: 503'') \<and>
   GetAccounts \<in> set (issued server0 (snd (status_express api_down (sample_env 1000000) server0))) \<and>
   thrown_express api_down GetAccounts = Some (Error ''14 UNAVAILABLE: No connection established'') \<and>
   fst (status_express api_down (sample_env 1000000) server0)
     = Response 500 (Failure ''14 UNAVAILABLE: No connection established'')"
proof -
  have n: "show_nat 503 = ''503''"
    by (simp add: show_nat.simps)
  have t: "thrown_deno up_down GetAccounts = Some (Error ''HTTP error! status: 503'')"
    by (simp add: up_down_def thrown_def n)
  have x: "thrown_express api_down GetAccounts = Some (Error ''14 UNAVAILABLE: No connection established'')"
    by (simp add: api_down_def)
  have i1: "GetAccounts \<in> set (issued server0 (snd (status_deno up_down (sample_env 1000000) server0)))"
    by (simp add: status_deno_def getAccountId_deno_def cached_account_def up_down_def issued_def
        send_def server0_def Let_def)
  have i2: "GetAccounts \<in> set (issued server0 (snd (status_express api_down (sample_env 1000000) server0)))"
    by (simp add: status_express_def getAccountId_express_def cached_account_def api_down_def issued_def
        send_def server0_def Let_def)
  show ?thesis
    using status_degrades [of "sample_env 1000000" cache0 up_down server0 GetAccounts
        "Error ''HTTP error! status: 503''" api_down "''2000123456''"
        "Error ''14 UNAVAILABLE: No connection established''" GetAccounts]
      t x i1 i2
    by simp
qed

section \<open>Memoised ticker resolution\<close>

lemma getFigi_deno_hit:
  assumes "\<not> is_reference k" and "tickerFigiMap s k = Some f"
  shows "getFigiForTicker_deno up e k s = (Inr f, s)"
  using assms by (simp add: getFigiForTicker_deno_def map_has_def)

lemma getFigi_express_hit:
  assumes "\<not> is_reference k" and "tickerFigiMap s k = Some f"
  shows "getFigiForTicker_express api e k s = (Inr f, s)"
  using assms by (simp add: getFigiForTicker_express_def map_has_def)

lemma getFigi_deno_first:
  assumes "\<not> is_reference k" and "tickerFigiMap s k = None"
    and "tinkoffRequest (findInstrument up k) = Inr (Some instruments)"
    and "find (\<lambda>inst. JStr (inst_ticker inst) = k) instruments = Some inst"
  shows "getFigiForTicker_deno up e k s
           = (Inr (inst_figi inst),
              (send (FindInstrument k) s)\<lparr>tickerFigiMap := (tickerFigiMap s)(k \<mapsto> inst_figi inst)\<rparr>)"
  using assms by (simp add: getFigiForTicker_deno_def map_has_def map_set_def Let_def send_def)

lemma getFigi_express_first:
  assumes "\<not> is_reference k" and "tickerFigiMap s k = None"
    and "sdk_findInstrument api k = Inr (Some instruments)"
    and "find (\<lambda>inst. JStr (inst_ticker inst) = k \<and> inst_type inst = ''etf'') instruments = Some inst"
  shows "getFigiForTicker_express api e k s
           = (Inr (inst_figi inst),
              (send (FindInstrument k) s)\<lparr>tickerFigiMap := (tickerFigiMap s)(k \<mapsto> inst_figi inst)\<rparr>)"
  using assms by (simp add: getFigiForTicker_express_def map_has_def map_set_def Let_def send_def)

text \<open>
  C2: in \<^verbatim>\<open>part_000\<close> and in \<^verbatim>\<open>part_001\<close>, the first call of
  \<^verbatim>\<open>getFigiForTicker\<close> for a ticker (none stored yet) whose search returns a matching
  instrument sends one FindInstrument call, stores the figi of the first match under
  the ticker and returns it; a call for that ticker in a state that holds the mapping
  returns the stored figi and leaves the state, the trace of calls included, as it was,
  whatever the upstream would answer. So after two calls in a row the trace has grown
  by exactly one FindInstrument call.
\<close>

theorem getFigiForTicker_memoized:
  "(\<not> is_reference k \<and> tickerFigiMap s k = None \<and>
    tinkoffRequest (findInstrument up k) = Inr (Some instruments) \<and>
    find (\<lambda>inst. JStr (inst_ticker inst) = k) instruments = Some inst \<and>
    s1 = snd (getFigiForTicker_deno up e k s) \<longrightarrow>
      fst (getFigiForTicker_deno up e k s) = Inr (inst_figi inst) \<and>
      sent s1 = sent s @ [FindInstrument k] \<and>
      tickerFigiMap s1 k = Some (inst_figi inst) \<and>
      getFigiForTicker_deno up' e' k s1 = (Inr (inst_figi inst), s1) \<and>
      sent (snd (getFigiForTicker_deno up' e' k s1)) = sent s @ [FindInstrument k]) \<and>
   (\<not> is_reference k \<and> tickerFigiMap s2 k = Some f \<longrightarrow>
      getFigiForTicker_deno up' e' k s2 = (Inr f, s2)) \<and>
   (\<not> is_reference k \<and> tickerFigiMap s k = None \<and>
    sdk_findInstrument api k = Inr (Some instruments) \<and>
    find (\<lambda>inst. JStr (inst_ticker inst) = k \<and> inst_type inst = ''etf'') instruments = Some inst' \<and>
    s1' = snd (getFigiForTicker_express api e k s) \<longrightarrow>
      fst (getFigiForTicker_express api e k s) = Inr (inst_figi inst') \<and>
      sent s1' = sent s @ [FindInstrument k] \<and>
      tickerFigiMap s1' k = Some (inst_figi inst') \<and>
      getFigiForTicker_express api' e' k s1' = (Inr (inst_figi inst'), s1') \<and>
      sent (snd (getFigiForTicker_express api' e' k s1')) = sent s @ [FindInstrument k]) \<and>
   (\<not> is_reference k \<and> tickerFigiMap s2 k = Some f \<longrightarrow>
      getFigiForTicker_express api' e' k s2 = (Inr f, s2))"
proof -
  have 1: "fst (getFigiForTicker_deno up e k s) = Inr (inst_figi inst) \<and>
      sent s1 = sent s @ [FindInstrument k] \<and>
      tickerFigiMap s1 k = Some (inst_figi inst) \<and>
      getFigiForTicker_deno up' e' k s1 = (Inr (inst_figi inst), s1) \<and>
      sent (snd (getFigiForTicker_deno up' e' k s1)) = sent s @ [FindInstrument k]"
    if "\<not> is_reference k" "tickerFigiMap s k = None"
      "tinkoffRequest (findInstrument up k) = Inr (Some instruments)"
      "find (\<lambda>inst. JStr (inst_ticker inst) = k) instruments = Some inst"
      "s1 = snd (getFigiForTicker_deno up e k s)"
  proof -
    note first = getFigi_deno_first [OF that(1-4), of e]
    from first that(5) have m: "tickerFigiMap s1 k = Some (inst_figi inst)"
      and t: "sent s1 = sent s @ [FindInstrument k]"
      by (simp_all add: send_def)
    from getFigi_deno_hit [OF that(1) m] first m t show ?thesis by simp
  qed
  have 3: "fst (getFigiForTicker_express api e k s) = Inr (inst_figi inst') \<and>
      sent s1' = sent s @ [FindInstrument k] \<and>
      tickerFigiMap s1' k = Some (inst_figi inst') \<and>
      getFigiForTicker_express api' e' k s1' = (Inr (inst_figi inst'), s1') \<and>
      sent (snd (getFigiForTicker_express api' e' k s1')) = sent s @ [FindInstrument k]"
    if "\<not> is_reference k" "tickerFigiMap s k = None"
      "sdk_findInstrument api k = Inr (Some instruments)"
      "find (\<lambda>inst. JStr (inst_ticker inst) = k \<and> inst_type inst = ''etf'') instruments = Some inst'"
      "s1' = snd (getFigiForTicker_express api e k s)"
  proof -
    note first = getFigi_express_first [OF that(1-4), of e]
    from first that(5) have m: "tickerFigiMap s1' k = Some (inst_figi inst')"
      and t: "sent s1' = sent s @ [FindInstrument k]"
      by (simp_all add: send_def)
    from getFigi_express_hit [OF that(1) m] first m t show ?thesis by simp
  qed
  from 1 3 getFigi_deno_hit [of k s2 f up' e'] getFigi_express_hit [of k s2 f api' e']
  show ?thesis by blast
qed


theorem getFigiForTicker_memoized_witness:
  "\<not> is_reference (JStr ''SBER'') \<and> tickerFigiMap server0 (JStr ''SBER'') = None \<and>
   tinkoffRequest (findInstrument up_ok (JStr ''SBER'')) = Inr (Some [sample_instrument ''SBER'']) \<and>
   find (\<lambda>inst. JStr (inst_ticker inst) = JStr ''SBER'') [sample_instrument ''SBER'']
     = Some (sample_instrument ''SBER'') \<and>
   fst (getFigiForTicker_deno up_ok (sample_env 1000000) (JStr ''SBER'') server0) = Inr ''FIGI-SBER'' \<and>
   sent (snd (getFigiForTicker_deno up_down (sample_env 1000500)
           (JStr ''SBER'') (snd (getFigiForTicker_deno up_ok (sample_env 1000000) (JStr ''SBER'') server0))))
     = [FindInstrument (JStr ''SBER'')] \<and>
   fst (getFigiForTicker_deno up_down (sample_env 1000500)
           (JStr ''SBER'') (snd (getFigiForTicker_deno up_ok (sample_env 1000000) (JStr ''SBER'') server0)))
     = Inr ''FIGI-SBER'' \<and>
   sdk_findInstrument api_ok (JStr ''SBER'') = Inr (Some [sample_instrument ''SBER'']) \<and>
   find (\<lambda>inst. JStr (inst_ticker inst) = JStr ''SBER'' \<and> inst_type inst = ''etf'')
       [sample_instrument ''SBER'']
     = Some (sample_instrument ''SBER'') \<and>
   fst (getFigiForTicker_express api_ok (sample_env 1000000) (JStr ''SBER'') server0) = Inr ''FIGI-SBER'' \<and>
   sent (snd (getFigiForTicker_express api_down (sample_env 1000500)
           (JStr ''SBER'') (snd (getFigiForTicker_express api_ok (sample_env 1000000) (JStr ''SBER'') server0))))
     = [FindInstrument (JStr ''SBER'')] \<and>
   fst (getFigiForTicker_express api_down (sample_env 1000500)
           (JStr ''SBER'') (snd (getFigiForTicker_express api_ok (sample_env 1000000) (JStr ''SBER'') server0)))
     = Inr ''FIGI-SBER''"
proof -
  have a: "\<not> is_reference (JStr ''SBER'')" "tickerFigiMap server0 (JStr ''SBER'') = None"
    by (simp_all add: server0_def)
  have b: "tinkoffRequest (findInstrument up_ok (JStr ''SBER'')) = Inr (Some [sample_instrument ''SBER''])"
    "sdk_findInstrument api_ok (JStr ''SBER'') = Inr (Some [sample_instrument ''SBER''])"
    by (simp_all add: up_ok_def api_ok_def)
  have c: "find (\<lambda>inst. JStr (inst_ticker inst) = JStr ''SBER'') [sample_instrument ''SBER'']
     = Some (sample_instrument ''SBER'')"
    "find (\<lambda>inst. JStr (inst_ticker inst) = JStr ''SBER'' \<and> inst_type inst = ''etf'')
       [sample_instrument ''SBER''] = Some (sample_instrument ''SBER'')"
    by (simp_all add: sample_instrument_def)
  have d: "inst_figi (sample_instrument ''SBER'') = ''FIGI-SBER''" "sent server0 = []"
    by (simp_all add: sample_instrument_def server0_def)
  show ?thesis
    using getFigiForTicker_memoized [where k = "JStr ''SBER''" and s = server0 and up = up_ok
        and instruments = "[sample_instrument ''SBER'']" and inst = "sample_instrument ''SBER''"
        and inst' = "sample_instrument ''SBER''" and e = "sample_env 1000000"
        and ?s1.0 = "snd (getFigiForTicker_deno up_ok (sample_env 1000000) (JStr ''SBER'') server0)"
        and up' = up_down and e' = "sample_env 1000500" and api = api_ok and api' = api_down
        and s1' = "snd (getFigiForTicker_express api_ok (sample_env 1000000) (JStr ''SBER'') server0)"]
      a b c d
    by simp
qed

section \<open>The price cache\<close>

text \<open>
  C1 on \<^verbatim>\<open>main.js\<close>: SBER is fetched at time 1,000,000, GAZP at 1,006,000 (which sets
  \<^verbatim>\<open>cache.lastUpdate\<close>), and SBER is asked for again at 1,007,000, which is 7000 ms
  after its entry was stored. \<^verbatim>\<open>getCurrentPrice\<close> returns the entry stamped 1,000,000
  and sends no call: the hit test reads the time of the last fetch of any ticker.
\<close>

theorem getCurrentPrice_stale_hit:
  "(let s1 = snd (getCurrentPrice up_ok (sample_env 1000000) ''SBER'' cache0);
        s2 = snd (getCurrentPrice up_ok (sample_env 1006000) ''GAZP'' s1);
        r3 = getCurrentPrice up_ok (sample_env 1007000) ''SBER'' s2
    in sent s2 = [FindInstrument (JStr ''SBER''), GetOrderBook ''FIGI-SBER'',
                  FindInstrument (JStr ''GAZP''), GetOrderBook ''FIGI-GAZP''] \<and>
       pd_timestamp (the (prices s2 ''SBER'')) = 1000000 \<and>
       fst r3 = PriceData (the (prices s2 ''SBER'')) \<and>
       sent (snd r3) = sent s2)"
  by (simp add: getCurrentPrice_def prices_get_def Object_prototype_def up_ok_def sample_env_def
      sample_instrument_def cache0_def send_def Let_def)

text \<open>
  The hit test of \<^verbatim>\<open>main.js\<close> reads \<^verbatim>\<open>cache.prices[ticker]\<close> on a plain object, so
  within 5000 ms of a fetch the name of a member of \<^verbatim>\<open>Object.prototype\<close> is a hit
  too: the member is returned as the price and no call is sent.
\<close>

lemma getCurrentPrice_inherited_hit:
  "(let s1 = snd (getCurrentPrice up_ok (sample_env 1000000) ''SBER'' cache0);
        r2 = getCurrentPrice up_ok (sample_env 1001000) ''constructor'' s1
    in prices s1 ''constructor'' = None \<and> fst r2 = Omitted \<and> snd r2 = s1)"
  by (simp add: getCurrentPrice_def prices_get_def Object_prototype_def up_ok_def sample_env_def
      sample_instrument_def cache0_def send_def Let_def)

text \<open>
  The price route of \<^verbatim>\<open>part_000\<close> tests the entry of its own ticker only: a fresh
  entry is returned without a call, an entry that is absent or older than the TTL
  makes the route send a call, and a request for one ticker leaves the entries of
  all other tickers as they were.
\<close>

lemma getFigi_deno_priceCache: "priceCache (snd (getFigiForTicker_deno up e k s)) = priceCache s"
  by (simp add: getFigiForTicker_deno_def Let_def send_def
      split: sum.splits option.splits)

lemma getFigi_deno_Inl_sent:
  assumes "getFigiForTicker_deno up e k s = (Inl err, s1)"
  shows "sent s1 = sent s @ [FindInstrument k]"
  using assms
  by (cases rule: getFigi_deno_cases [of s k up e]) (auto simp: sent_send)

lemma price_deno_ticker_scoped:
  "(fresh (priceCache s) (ticker_or_SBER param) (date_now e) \<longrightarrow>
      price_deno up e param s
        = (Response 200 (Success (PriceData (the (priceCache s (ticker_or_SBER param))))), s)) \<and>
   (\<not> fresh (priceCache s) (ticker_or_SBER param) (date_now e) \<longrightarrow>
      issued s (snd (price_deno up e param s)) \<noteq> []) \<and>
   (k \<noteq> ticker_or_SBER param \<longrightarrow>
      priceCache (snd (price_deno up e param s)) k = priceCache s k)"
proof -
  let ?k = "ticker_or_SBER param"
  obtain r1 s1 where g: "getFigiForTicker_deno up e (JStr ?k) s = (r1, s1)"
    by (cases "getFigiForTicker_deno up e (JStr ?k) s")
  from getFigi_deno_sent [of up e "JStr ?k" s] g obtain cs1 where p1: "sent s1 = sent s @ cs1"
    by auto
  from getFigi_deno_priceCache [of up e "JStr ?k" s] g have pc: "priceCache s1 = priceCache s"
    by simp
  have 1: "fresh (priceCache s) ?k (date_now e) \<longrightarrow>
      price_deno up e param s = (Response 200 (Success (PriceData (the (priceCache s ?k)))), s)"
    by (simp add: price_deno_unfold)
  have 2: "\<not> fresh (priceCache s) ?k (date_now e) \<longrightarrow> issued s (snd (price_deno up e param s)) \<noteq> []"
  proof (cases r1)
    case (Inl e1)
    with g getFigi_deno_Inl_sent [of up e "JStr ?k" s e1 s1] show ?thesis
      by (simp add: price_deno_unfold issued_def)
  next
    case (Inr figi)
    with g p1 show ?thesis
      by (simp add: price_deno_unfold issued_def sent_send split: sum.splits)
  qed
  have 3: "k \<noteq> ?k \<longrightarrow> priceCache (snd (price_deno up e param s)) k = priceCache s k"
    using g pc
    by (cases r1) (simp_all add: price_deno_unfold send_def split: sum.splits)
  from 1 2 3 show ?thesis by blast
qed

text \<open>
  A stored mapping of \<^verbatim>\<open>tickerFigiMap\<close> stays through every route of \<^verbatim>\<open>part_000\<close>
  modelled here: the map is written by \<^verbatim>\<open>getFigiForTicker\<close> only, for a ticker it does
  not hold.
\<close>

lemma getFigi_deno_keeps:
  assumes "\<not> is_reference k" and "tickerFigiMap s k = Some f"
  shows "tickerFigiMap (snd (getFigiForTicker_deno up e k' s)) k = Some f"
  using assms
  by (auto simp: getFigiForTicker_deno_def map_has_def map_set_def Let_def send_def
      split: sum.splits option.splits)

lemma getAccountId_deno_tickerFigiMap: "tickerFigiMap (snd (getAccountId_deno up s)) = tickerFigiMap s"
  by (simp add: getAccountId_deno_def Let_def send_def split: sum.splits option.splits list.splits)

lemma order_deno_state:
  "snd (order_deno up e parsed s) = s \<or>
   (\<exists>b. snd (order_deno up e parsed s) = snd (getFigiForTicker_deno up e (property ''ticker'' b) s)) \<or>
   (\<exists>b. snd (order_deno up e parsed s)
          = snd (getAccountId_deno up (snd (getFigiForTicker_deno up e (property ''ticker'' b) s)))) \<or>
   (\<exists>b ord. snd (order_deno up e parsed s)
          = send (PostOrder ord)
              (snd (getAccountId_deno up (snd (getFigiForTicker_deno up e (property ''ticker'' b) s)))))"
proof (cases parsed)
  case (Inl m)
  then show ?thesis by (simp add: order_deno_def)
next
  case (Inr b)
  let ?g = "getFigiForTicker_deno up e (property ''ticker'' b) s"
  obtain r1 s1 where g: "?g = (r1, s1)" by (cases ?g)
  obtain r2 s2 where a: "getAccountId_deno up s1 = (r2, s2)" by (cases "getAccountId_deno up s1")
  have "snd (order_deno up e parsed s) = s \<or> snd (order_deno up e parsed s) = s1
      \<or> snd (order_deno up e parsed s) = s2
      \<or> (\<exists>ord. snd (order_deno up e parsed s) = send (PostOrder ord) s2)"
    by (cases r1; cases r2)
      (auto simp: Inr order_deno_def g a Let_def split: sum.splits option.splits)
  with g a show ?thesis by (metis snd_conv)
qed

lemma tickerFigiMap_permanent_deno:
  assumes k: "\<not> is_reference k" and f: "tickerFigiMap s k = Some f"
  shows "tickerFigiMap (snd (price_deno up e param s)) k = Some f \<and>
         tickerFigiMap (snd (order_deno up e parsed s)) k = Some f \<and>
         tickerFigiMap (snd (status_deno up e s)) k = Some f"
proof -
  have 1: "tickerFigiMap (snd (price_deno up e param s)) k = Some f"
  proof -
    let ?g = "getFigiForTicker_deno up e (JStr (ticker_or_SBER param)) s"
    from getFigi_deno_keeps [OF k f, of up e "JStr (ticker_or_SBER param)"]
    show ?thesis
      using f by (cases ?g; cases "fst ?g") (simp_all add: price_deno_unfold send_def split: sum.splits)
  qed
  have 3: "tickerFigiMap (snd (status_deno up e s)) k = Some f"
    using getAccountId_deno_tickerFigiMap [of up s] f
    by (cases "getAccountId_deno up s"; cases "fst (getAccountId_deno up s)")
      (simp_all add: status_deno_def)
  have 2: "tickerFigiMap (snd (order_deno up e parsed s)) k = Some f"
    using order_deno_state [of up e parsed s] f getFigi_deno_keeps [OF k f, of up e]
      getAccountId_deno_tickerFigiMap [of up]
    by (auto simp: send_def)
  from 1 2 3 show ?thesis by simp
qed

text \<open>
  A miss of \<^verbatim>\<open>part_000\<close> whose calls succeed stores the entry stamped with the reading
  of the clock that follows the hit test, and a request for the same ticker less than
  5000 ms after that stamp returns the entry and sends no call.
\<close>

lemma price_deno_stores:
  assumes "\<not> fresh (priceCache s) (ticker_or_SBER param) (date_now e)"
    and "getFigiForTicker_deno up e (JStr (ticker_or_SBER param)) s = (Inr figi, s1)"
    and "tinkoffRequest (getOrderBook up figi) = Inr lastPrice"
    and "t = stamp e (priceCache s (ticker_or_SBER param))"
  shows "sent (snd (price_deno up e param s)) = sent s1 @ [GetOrderBook figi] \<and>
         priceCache (snd (price_deno up e param s)) (ticker_or_SBER param)
           = Some \<lparr>pd_price = quotationToFloat lastPrice, pd_timestamp = t,
                   pd_figi = Some figi, pd_ticker = Some (ticker_or_SBER param), pd_isMock = False\<rparr> \<and>
         (date_now e' - t < 5000 \<longrightarrow>
            price_deno up' e' param (snd (price_deno up e param s))
              = (Response 200 (Success (PriceData
                   \<lparr>pd_price = quotationToFloat lastPrice, pd_timestamp = t,
                    pd_figi = Some figi, pd_ticker = Some (ticker_or_SBER param), pd_isMock = False\<rparr>)),
                 snd (price_deno up e param s)))"
proof -
  let ?p = "\<lparr>pd_price = quotationToFloat lastPrice, pd_timestamp = t,
                   pd_figi = Some figi, pd_ticker = Some (ticker_or_SBER param), pd_isMock = False\<rparr>"
  let ?s' = "snd (price_deno up e param s)"
  from assms have 1: "sent ?s' = sent s1 @ [GetOrderBook figi]"
    and 2: "priceCache ?s' (ticker_or_SBER param) = Some ?p"
    by (simp_all add: price_deno_unfold sent_send send_def)
  have 3: "date_now e' - t < 5000 \<longrightarrow>
            price_deno up' e' param ?s' = (Response 200 (Success (PriceData ?p)), ?s')"
  proof
    assume "date_now e' - t < 5000"
    with 2 have "fresh (priceCache ?s') (ticker_or_SBER param) (date_now e')"
      by (simp add: fresh_def CACHE_TTL_MS_def)
    with 2 show "price_deno up' e' param ?s' = (Response 200 (Success (PriceData ?p)), ?s')"
      by (simp add: price_deno_unfold [of up' e' param ?s'])
  qed
  from 1 2 3 show ?thesis by simp
qed

text \<open>The same permanence of \<^verbatim>\<open>tickerFigiMap\<close> in \<^verbatim>\<open>part_001\<close>.\<close>

lemma getFigi_express_keeps:
  assumes "\<not> is_reference k" and "tickerFigiMap s k = Some f"
  shows "tickerFigiMap (snd (getFigiForTicker_express api e k' s)) k = Some f"
  using assms
  by (auto simp: getFigiForTicker_express_def map_has_def map_set_def Let_def send_def
      split: sum.splits option.splits)

lemma getAccountId_express_tickerFigiMap:
  "tickerFigiMap (snd (getAccountId_express api e s)) = tickerFigiMap s"
  by (simp add: getAccountId_express_def Let_def send_def split: sum.splits option.splits)

lemma order_express_state:
  "snd (order_express api e b s) = s \<or>
   snd (order_express api e b s) = snd (getFigiForTicker_express api e (property ''ticker'' b) s) \<or>
   snd (order_express api e b s)
     = snd (getAccountId_express api e (snd (getFigiForTicker_express api e (property ''ticker'' b) s))) \<or>
   (\<exists>ord. snd (order_express api e b s)
          = send (PostOrder ord)
              (snd (getAccountId_express api e
                 (snd (getFigiForTicker_express api e (property ''ticker'' b) s)))))"
proof -
  let ?g = "getFigiForTicker_express api e (property ''ticker'' b) s"
  obtain r1 s1 where g: "?g = (r1, s1)" by (cases ?g)
  obtain r2 s2 where a: "getAccountId_express api e s1 = (r2, s2)"
    by (cases "getAccountId_express api e s1")
  have "snd (order_express api e b s) = s \<or> snd (order_express api e b s) = s1
      \<or> snd (order_express api e b s) = s2
      \<or> (\<exists>ord. snd (order_express api e b s) = send (PostOrder ord) s2)"
    by (cases r1; cases r2)
      (auto simp: order_express_def g a Let_def split: sum.splits option.splits)
  with g a show ?thesis by simp
qed

lemma tickerFigiMap_permanent_express:
  assumes k: "\<not> is_reference k" and f: "tickerFigiMap s k = Some f"
  shows "tickerFigiMap (snd (price_express api e param s)) k = Some f \<and>
         tickerFigiMap (snd (order_express api e b s)) k = Some f \<and>
         tickerFigiMap (snd (status_express api e s)) k = Some f"
proof -
  have 1: "tickerFigiMap (snd (price_express api e param s)) k = Some f"
  proof (cases "param = None \<or> param = Some []")
    case True
    with f show ?thesis by (simp add: price_express_absent)
  next
    case False
    then obtain t where param: "param = Some t" and t: "t \<noteq> []" by auto
    let ?g = "getFigiForTicker_express api e (JStr t) s"
    from getFigi_express_keeps [OF k f, of api e "JStr t"]
    show ?thesis
      using f
      by (cases ?g; cases "fst ?g")
        (simp_all add: param price_express_unfold [OF t] send_def
          split: sum.splits option.splits list.splits)
  qed
  have 3: "tickerFigiMap (snd (status_express api e s)) k = Some f"
    using getAccountId_express_tickerFigiMap [of api e s] f
    by (cases "getAccountId_express api e s"; cases "fst (getAccountId_express api e s)")
      (simp_all add: status_express_def)
  have 2: "tickerFigiMap (snd (order_express api e b s)) k = Some f"
    using order_express_state [of api e b s] f getFigi_express_keeps [OF k f, of api e]
      getAccountId_express_tickerFigiMap [of api e]
    by (auto simp: send_def)
  from 1 2 3 show ?thesis by simp
qed

end
